theory Spec2Isabelle
  imports
    Main
    "HOL-Library.Char_ord"
    "HOL-Library.List_Lexorder"
    "HOL-Library.Product_Lexorder"
begin

section \<open>Values that cross the provider boundary\<close>

text \<open>
  JavaScript may throw any value. The services distinguish three kinds: instances of
  \<^verbatim>\<open>ProviderError\<close> (a subclass of \<^verbatim>\<open>Error\<close>, providers/base.ts), other
  instances of \<^verbatim>\<open>Error\<close>, and values that are no \<^verbatim>\<open>Error\<close> at all (a rejected
  promise may carry a string, an object or \<^verbatim>\<open>null\<close>). The string is the message.
\<close>

datatype thrown = ProviderError string | OtherError string | NonError string

fun instanceof_Error :: "thrown \<Rightarrow> bool" where
  "instanceof_Error (ProviderError _) = True"
| "instanceof_Error (OtherError _) = True"
| "instanceof_Error (NonError _) = False"

fun instanceof_ProviderError :: "thrown \<Rightarrow> bool" where
  "instanceof_ProviderError (ProviderError _) = True"
| "instanceof_ProviderError _ = False"

section \<open>Strings\<close>

text \<open>
  Strings are byte strings. \<^verbatim>\<open>String.prototype.toUpperCase\<close> is modelled on the ASCII
  letters, which is all the registry, the tickers and the currency codes use; every other
  byte is left as it is. String comparison (\<^verbatim>\<open><\<close>, \<^verbatim>\<open><=\<close> in JavaScript, \<^verbatim>\<open>BETWEEN\<close>
  and \<^verbatim>\<open>ORDER BY\<close> on \<^verbatim>\<open>TEXT\<close> columns in SQLite) is the lexicographic order on the
  character codes, the order of \<^typ>\<open>string\<close> here.
\<close>

definition upperChar :: "char \<Rightarrow> char" where
  "upperChar c =
     (case map_of (zip ''abcdefghijklmnopqrstuvwxyz'' ''ABCDEFGHIJKLMNOPQRSTUVWXYZ'') c of
        Some u \<Rightarrow> u
      | None \<Rightarrow> c)"

definition toUpperCase :: "string \<Rightarrow> string" where
  "toUpperCase s = map upperChar s"

text \<open>\<^verbatim>\<open>a || b\<close> on strings where \<^verbatim>\<open>a\<close> may be \<^verbatim>\<open>undefined\<close> or \<^verbatim>\<open>null\<close>: the empty
  string is falsy too.\<close>

definition orElse :: "string option \<Rightarrow> string \<Rightarrow> string" where
  "orElse a b = (case a of None \<Rightarrow> b | Some s \<Rightarrow> if s = [] then b else s)"

section \<open>config/markets.ts: the supported-market registry\<close>

datatype MarketRegion = US | UK | EU | CRYPTO

datatype AssetType = equity | crypto

record MarketDefinition =
  code :: string
  label :: string
  region :: MarketRegion
  assetType :: AssetType
  providerExchange :: string
  m_currency :: string
  defaultQuote :: "string option"
  aliases :: "string list option"
  marketNotes :: "string option"

definition SUPPORTED_MARKETS :: "MarketDefinition list" where
  "SUPPORTED_MARKETS = [
     \<lparr>code = ''NASDAQ'', label = ''NASDAQ (US)'', region = US, assetType = equity,
      providerExchange = ''NASDAQ'', m_currency = ''USD'', defaultQuote = None,
      aliases = None, marketNotes = None\<rparr>,
     \<lparr>code = ''NYSE'', label = ''NYSE (US)'', region = US, assetType = equity,
      providerExchange = ''NYSE'', m_currency = ''USD'', defaultQuote = None,
      aliases = None, marketNotes = None\<rparr>,
     \<lparr>code = ''AMEX'', label = ''NYSE American (AMEX)'', region = US, assetType = equity,
      providerExchange = ''AMEX'', m_currency = ''USD'', defaultQuote = None,
      aliases = None, marketNotes = None\<rparr>,
     \<lparr>code = ''XLON'', label = ''London Stock Exchange (XLON)'', region = UK,
      assetType = equity, providerExchange = ''XLON'', m_currency = ''GBP'',
      defaultQuote = None, aliases = Some [''LSE''], marketNotes = None\<rparr>,
     \<lparr>code = ''XWAR'', label = ''Warsaw Stock Exchange (XWAR/GPW)'', region = EU,
      assetType = equity, providerExchange = ''XWAR'', m_currency = ''PLN'',
      defaultQuote = None, aliases = Some [''GPW''], marketNotes = None\<rparr>,
     \<lparr>code = ''XETR'', label = ''XETRA (Germany)'', region = EU, assetType = equity,
      providerExchange = ''XETR'', m_currency = ''EUR'', defaultQuote = None,
      aliases = None, marketNotes = None\<rparr>,
     \<lparr>code = ''XPAR'', label = ''Euronext Paris (XPAR)'', region = EU, assetType = equity,
      providerExchange = ''XPAR'', m_currency = ''EUR'', defaultQuote = None,
      aliases = None, marketNotes = None\<rparr>,
     \<lparr>code = ''XAMS'', label = ''Euronext Amsterdam (XAMS)'', region = EU,
      assetType = equity, providerExchange = ''XAMS'', m_currency = ''EUR'',
      defaultQuote = None, aliases = None, marketNotes = None\<rparr>,
     \<lparr>code = ''XBRU'', label = ''Euronext Brussels (XBRU)'', region = EU,
      assetType = equity, providerExchange = ''XBRU'', m_currency = ''EUR'',
      defaultQuote = None, aliases = None, marketNotes = None\<rparr>,
     \<lparr>code = ''XMIL'', label = ''Euronext Milan (XMIL)'', region = EU, assetType = equity,
      providerExchange = ''XMIL'', m_currency = ''EUR'', defaultQuote = None,
      aliases = None, marketNotes = None\<rparr>,
     \<lparr>code = ''XMAD'', label = ''Bolsa de Madrid (XMAD)'', region = EU, assetType = equity,
      providerExchange = ''XMAD'', m_currency = ''EUR'', defaultQuote = None,
      aliases = None, marketNotes = None\<rparr>,
     \<lparr>code = ''XLIS'', label = ''Euronext Lisbon (XLIS)'', region = EU, assetType = equity,
      providerExchange = ''XLIS'', m_currency = ''EUR'', defaultQuote = None,
      aliases = None, marketNotes = None\<rparr>,
     \<lparr>code = ''BINANCE'', label = ''Binance (Crypto)'', region = CRYPTO,
      assetType = crypto, providerExchange = ''Binance'', m_currency = ''USD'',
      defaultQuote = Some ''USDT'', aliases = None,
      marketNotes = Some ''Use pairs like BTC/USDT; BTC will default to BTC/USDT.''\<rparr>]"

text \<open>The module-level loop that fills \<^verbatim>\<open>marketIndex\<close>: the code first, then each alias;
  a later \<^verbatim>\<open>set\<close> of the same key wins.\<close>

definition indexMarket ::
  "MarketDefinition \<Rightarrow> (string \<rightharpoonup> MarketDefinition) \<Rightarrow> (string \<rightharpoonup> MarketDefinition)" where
  "indexMarket market idx =
     fold (\<lambda>alias i. i(toUpperCase alias \<mapsto> market))
       (case aliases market of None \<Rightarrow> [] | Some as \<Rightarrow> as)
       (idx(toUpperCase (code market) \<mapsto> market))"

definition marketIndex :: "string \<rightharpoonup> MarketDefinition" where
  "marketIndex = fold indexMarket SUPPORTED_MARKETS Map.empty"

definition getMarketDefinition :: "string \<Rightarrow> MarketDefinition option" where
  "getMarketDefinition marketCode = marketIndex (toUpperCase marketCode)"

definition getSupportedMarkets :: "MarketDefinition list" where
  "getSupportedMarkets = SUPPORTED_MARKETS"


section \<open>providers/base.ts: the provider capability\<close>

record SymbolSearchParams =
  sp_ticker :: string
  sp_market :: "string option"

record SymbolSearchResult =
  sr_ticker :: string
  sr_market :: string
  sr_name :: "string option"
  sr_currency :: "string option"
  sr_exchange :: "string option"

record 'n QuoteResult =
  q_price :: 'n
  q_currency :: "string option"
  q_asOf :: string

record 'n HistoryPoint =
  hp_date :: string
  hp_price :: 'n
  hp_currency :: "string option"

record ExchangeRateParams =
  er_base :: string
  er_quote :: string

record 'n ExchangeRateResult =
  er_rate :: 'n
  er_timestamp :: "string option"

record HistoryParams =
  hq_ticker :: string
  hq_market :: "string option"
  hq_from :: "string option"
  hq_to :: "string option"
  hq_interval :: string

text \<open>
  A provider is its name and its four operations. The type \<open>'n\<close> stands for JavaScript
  numbers; no law of arithmetic is assumed of it. An operation answers a request with a
  rejection (\<open>Inl\<close>) or a result (\<open>Inr\<close>); what the network does is part of the provider
  value.
\<close>

record 'n MarketDataProvider =
  p_name :: string
  p_searchSymbol :: "SymbolSearchParams \<Rightarrow> thrown + SymbolSearchResult option"
  p_getQuote :: "SymbolSearchParams \<Rightarrow> thrown + 'n QuoteResult"
  p_getHistory :: "HistoryParams \<Rightarrow> thrown + 'n HistoryPoint list"
  p_getExchangeRate :: "ExchangeRateParams \<Rightarrow> thrown + 'n ExchangeRateResult"

section \<open>db/schema.sql: the durable store\<close>

text \<open>
  A table is the list of its rows in insertion order. Timestamps written by
  \<^verbatim>\<open>datetime('now')\<close> are fixed-width UTC strings, whose order is the order of the
  instants; they are modelled as seconds on the integer line. Dates and as-of stamps that
  come from providers or callers stay strings.
\<close>

record symbol_row =
  ms_ticker :: string
  ms_market :: string
  ms_name :: "string option"
  ms_currency :: "string option"
  ms_exchange :: "string option"
  ms_provider :: string
  ms_last_verified_at :: int

record 'n quote_row =
  qc_ticker :: string
  qc_market :: string
  qc_price :: 'n
  qc_currency :: "string option"
  qc_as_of :: string
  qc_source :: string
  qc_fetched_at :: int
  qc_expires_at :: int

record 'n history_row =
  ph_ticker :: string
  ph_market :: string
  ph_interval :: string
  ph_price :: 'n
  ph_currency :: "string option"
  ph_date :: string
  ph_source :: string
  ph_fetched_at :: int

record 'n fx_row =
  fx_base :: string
  fx_quote :: string
  fx_rate :: 'n
  fx_source :: string
  fx_fetched_at :: int
  fx_expires_at :: int

record 'n HoldingRow =
  h_id :: int
  h_portfolio_id :: int
  h_ticker :: string
  h_market :: string
  buy_date :: string
  buy_price :: 'n
  quantity :: 'n
  created_at :: int

datatype operation = SearchSymbol | GetQuote | GetHistory | GetExchangeRate

text \<open>
  The state a service call runs in: the clock that \<^verbatim>\<open>datetime('now')\<close> reads (it does
  not advance within one call), the five tables, and the log of outbound provider calls
  (provider name and operation), to which every invocation of a provider operation is
  appended.
\<close>

record 'n world =
  clock :: int
  market_symbols :: "symbol_row list"
  quote_cache :: "'n quote_row list"
  price_history :: "'n history_row list"
  fx_rates :: "'n fx_row list"
  holdings_table :: "'n HoldingRow list"
  outbound :: "(string \<times> operation) list"

text \<open>The environment variables the services read, after \<^verbatim>\<open>Number(...)\<close>.\<close>

record config =
  QUOTE_TTL_SECONDS :: int
  VALIDATION_TTL_DAYS :: int
  FX_TTL_SECONDS :: int

text \<open>
  \<^verbatim>\<open>ORDER BY key DESC LIMIT 1\<close>: a row with the greatest key. SQL leaves the choice
  among rows with equal keys open; SQLite decides it by the way it reads the rows. When
  it sorts the rows of the \<^verbatim>\<open>WHERE\<close> clause (the sorter is stable), the first row read
  among those of the greatest key is the answer: \<open>firstMax\<close>. When an index ends in the
  key column, SQLite walks that index backwards and the answer is the row stored last
  among those of the greatest key: \<open>lastMax\<close>. A row written by \<^verbatim>\<open>INSERT OR REPLACE\<close>
  gets a new \<^verbatim>\<open>AUTOINCREMENT\<close> id and so counts as stored last.
\<close>

fun firstMax :: "('a \<Rightarrow> 'k::linorder) \<Rightarrow> 'a list \<Rightarrow> 'a option" where
  "firstMax key [] = None"
| "firstMax key (x # xs) =
     (case firstMax key xs of
        None \<Rightarrow> Some x
      | Some y \<Rightarrow> if key x < key y then Some y else Some x)"

fun lastMax :: "('a \<Rightarrow> 'k::linorder) \<Rightarrow> 'a list \<Rightarrow> 'a option" where
  "lastMax key [] = None"
| "lastMax key (x # xs) =
     (case lastMax key xs of
        None \<Rightarrow> Some x
      | Some y \<Rightarrow> if key y < key x then Some x else Some y)"

section \<open>marketDataService.ts: the first-success fetch loop\<close>

text \<open>
  \<^verbatim>\<open>fetchWithProviders(providers, task)\<close>. A rejected \<^verbatim>\<open>task(provider)\<close> is \<open>Inl\<close>, a
  resolved one \<open>Inr\<close>. The loop state is \<^verbatim>\<open>lastError\<close> (\<open>None\<close> is the initial
  \<^verbatim>\<open>null\<close>). Besides the outcome the model returns the providers on which the task was
  invoked, in invocation order, so that statements about outbound calls can be made.
\<close>

fun fetchLoop ::
  "'p list \<Rightarrow> ('p \<Rightarrow> thrown + 'r) \<Rightarrow> thrown option \<Rightarrow> (thrown + 'p \<times> 'r) \<times> 'p list" where
  "fetchLoop [] task lastError =
     ((case lastError of
         Some e \<Rightarrow> if instanceof_Error e then Inl e
                   else Inl (ProviderError ''No providers configured'')
       | None \<Rightarrow> Inl (ProviderError ''No providers configured'')), [])"
| "fetchLoop (provider # rest) task lastError =
     (case task provider of
        Inr result \<Rightarrow> (Inr (provider, result), [provider])
      | Inl error \<Rightarrow>
          (let (outcome, invoked) = fetchLoop rest task (Some error)
           in (outcome, provider # invoked)))"

definition fetchWithProviders ::
  "'p list \<Rightarrow> ('p \<Rightarrow> thrown + 'r) \<Rightarrow> (thrown + 'p \<times> 'r) \<times> 'p list" where
  "fetchWithProviders providers task = fetchLoop providers task None"

section \<open>marketDataService.ts: the provider chain of a market\<close>

text \<open>\<^verbatim>\<open>definition?.providerExchange || market\<close>.\<close>

definition resolveExchange :: "string \<Rightarrow> string" where
  "resolveExchange market =
     (case getMarketDefinition market of
        None \<Rightarrow> market
      | Some definition \<Rightarrow> orElse (Some (providerExchange definition)) market)"

text \<open>
  The sort of \<^verbatim>\<open>filterProvidersForMarket\<close> (and of \<^verbatim>\<open>orderProvidersForMarket\<close> in
  validationService.ts),
  \<^verbatim>\<open>[...filtered].sort((a, b) => a.name === 'STOOQ' ? -1 : b.name === 'STOOQ' ? 1 : 0)\<close>:
  the sort is stable, so the providers named STOOQ come first and the order is otherwise
  kept.
\<close>

definition stooqFirst :: "'n MarketDataProvider list \<Rightarrow> 'n MarketDataProvider list" where
  "stooqFirst providers =
     filter (\<lambda>p. p_name p = ''STOOQ'') providers @ filter (\<lambda>p. p_name p \<noteq> ''STOOQ'') providers"

definition filterProvidersForMarket ::
  "'n MarketDataProvider list \<Rightarrow> string \<Rightarrow> 'n MarketDataProvider list" where
  "filterProvidersForMarket providers market =
     (let normalized = toUpperCase market;
          stooqMarkets = [''NASDAQ'', ''NYSE'', ''AMEX'', ''XWAR'', ''GPW'', ''XLON'', ''XETR''];
          preferStooq = [''XWAR'', ''GPW'', ''XLON'', ''XETR''];
          filtered =
            filter (\<lambda>provider.
                if p_name provider = ''STOOQ'' then normalized \<in> set stooqMarkets else True)
              providers
      in if normalized \<in> set preferStooq then stooqFirst filtered else filtered)"

section \<open>marketDataService.ts: the quote cache\<close>

text \<open>
  \<^verbatim>\<open>WHERE ticker = ? AND market = ? AND expires_at > datetime('now') ORDER BY expires_at
  DESC LIMIT 1\<close>, answered by a backward walk of \<^verbatim>\<open>quote_cache_lookup_idx (ticker,
  market, expires_at)\<close>.
\<close>

definition getCachedQuote :: "string \<Rightarrow> string \<Rightarrow> 'n world \<Rightarrow> 'n quote_row option" where
  "getCachedQuote ticker market w =
     lastMax qc_expires_at
       (filter (\<lambda>r. qc_ticker r = ticker \<and> qc_market r = market \<and> qc_expires_at r > clock w)
          (quote_cache w))"

text \<open>
  \<^verbatim>\<open>WHERE ticker = ? AND market = ? ORDER BY as_of DESC, fetched_at DESC LIMIT 1\<close>. The
  rows of the key are read through the same index, that is by \<^verbatim>\<open>expires_at\<close> and then
  in stored order, and sorted.
\<close>

definition getStaleQuote :: "string \<Rightarrow> string \<Rightarrow> 'n world \<Rightarrow> 'n quote_row option" where
  "getStaleQuote ticker market w =
     firstMax (\<lambda>r. (qc_as_of r, qc_fetched_at r))
       (sort_key qc_expires_at
          (filter (\<lambda>r. qc_ticker r = ticker \<and> qc_market r = market) (quote_cache w)))"

text \<open>
  \<^verbatim>\<open>INSERT OR REPLACE\<close> under \<^verbatim>\<open>UNIQUE (ticker, market, source, as_of)\<close>. The expiry
  is \<^verbatim>\<open>datetime('now', '+N seconds')\<close>; for a negative \<^verbatim>\<open>N\<close> the modifier reads
  \<^verbatim>\<open>+-N seconds\<close>, which SQLite does not accept: the value is \<^verbatim>\<open>NULL\<close> and the
  statement fails on the \<^verbatim>\<open>NOT NULL\<close> column.
\<close>

definition cacheQuote ::
  "config \<Rightarrow> string \<Rightarrow> string \<Rightarrow> 'n \<Rightarrow> string option \<Rightarrow> string \<Rightarrow> string \<Rightarrow> 'n world
     \<Rightarrow> thrown + 'n world" where
  "cacheQuote cfg ticker market price currency asOf source w =
     (let ttlSeconds = QUOTE_TTL_SECONDS cfg
      in if ttlSeconds < 0
         then Inl (OtherError ''NOT NULL constraint failed: quote_cache.expires_at'')
         else Inr (w\<lparr>quote_cache :=
            filter (\<lambda>r. \<not> (qc_ticker r = ticker \<and> qc_market r = market
                            \<and> qc_source r = source \<and> qc_as_of r = asOf)) (quote_cache w)
            @ [\<lparr>qc_ticker = ticker, qc_market = market, qc_price = price,
                 qc_currency = currency, qc_as_of = asOf, qc_source = source,
                 qc_fetched_at = clock w, qc_expires_at = clock w + ttlSeconds\<rparr>]\<rparr>))"

section \<open>marketDataService.ts: the history cache\<close>

definition historyPoint :: "'n history_row \<Rightarrow> 'n HistoryPoint" where
  "historyPoint r = \<lparr>hp_date = ph_date r, hp_price = ph_price r, hp_currency = ph_currency r\<rparr>"

text \<open>\<^verbatim>\<open>WHERE ... AND date BETWEEN ? AND ? ORDER BY date\<close>; rows of equal date keep their
  stored order.\<close>

definition getHistoryRows ::
  "string \<Rightarrow> string \<Rightarrow> string \<Rightarrow> string \<Rightarrow> string \<Rightarrow> 'n world \<Rightarrow> 'n HistoryPoint list" where
  "getHistoryRows ticker market interval from to w =
     sort_key hp_date
       (map historyPoint
         (filter (\<lambda>r. ph_ticker r = ticker \<and> ph_market r = market \<and> ph_interval r = interval
                       \<and> from \<le> ph_date r \<and> ph_date r \<le> to)
            (price_history w)))"

definition getCachedHistory ::
  "string \<Rightarrow> string \<Rightarrow> string \<Rightarrow> string \<Rightarrow> string \<Rightarrow> 'n world \<Rightarrow> 'n HistoryPoint list option"
  where
  "getCachedHistory ticker market interval from to w =
     (let rows = getHistoryRows ticker market interval from to w
      in if rows = [] then None
         else (let earliest = hp_date (hd rows); latest = hp_date (last rows)
               in if earliest \<le> from \<and> latest \<ge> to then Some rows else None))"

record 'n HistoryPrice =
  lh_price :: 'n
  lh_currency :: "string option"
  lh_as_of :: string
  lh_source :: string

text \<open>\<^verbatim>\<open>WHERE ticker = ? AND market = ? AND interval = '1d' ORDER BY date DESC LIMIT 1\<close>,
  answered by a backward walk of \<^verbatim>\<open>price_history_lookup_idx (ticker, market, interval,
  date)\<close>.\<close>

definition getLatestHistoryPrice :: "string \<Rightarrow> string \<Rightarrow> 'n world \<Rightarrow> 'n HistoryPrice option" where
  "getLatestHistoryPrice ticker market w =
     (case lastMax ph_date
             (filter (\<lambda>r. ph_ticker r = ticker \<and> ph_market r = market \<and> ph_interval r = ''1d'')
                (price_history w)) of
        None \<Rightarrow> None
      | Some row \<Rightarrow>
          Some \<lparr>lh_price = ph_price row, lh_currency = ph_currency row,
                lh_as_of = ph_date row, lh_source = ph_source row\<rparr>)"

text \<open>One \<^verbatim>\<open>stmt.run\<close> of \<^verbatim>\<open>cacheHistoryRows\<close>: \<^verbatim>\<open>INSERT OR REPLACE\<close> under
  \<^verbatim>\<open>UNIQUE (ticker, market, source, interval, date)\<close>.\<close>

definition insertHistoryRow ::
  "string \<Rightarrow> string \<Rightarrow> string \<Rightarrow> string \<Rightarrow> int \<Rightarrow> 'n HistoryPoint \<Rightarrow> 'n history_row list
     \<Rightarrow> 'n history_row list" where
  "insertHistoryRow ticker market interval source now row tbl =
     filter (\<lambda>r. \<not> (ph_ticker r = ticker \<and> ph_market r = market \<and> ph_source r = source
                     \<and> ph_interval r = interval \<and> ph_date r = hp_date row)) tbl
     @ [\<lparr>ph_ticker = ticker, ph_market = market, ph_interval = interval,
          ph_price = hp_price row, ph_currency = hp_currency row, ph_date = hp_date row,
          ph_source = source, ph_fetched_at = now\<rparr>]"

definition cacheHistoryRows ::
  "string \<Rightarrow> string \<Rightarrow> string \<Rightarrow> 'n HistoryPoint list \<Rightarrow> string \<Rightarrow> 'n world \<Rightarrow> 'n world" where
  "cacheHistoryRows ticker market interval rows source w =
     w\<lparr>price_history :=
         fold (insertHistoryRow ticker market interval source (clock w)) rows
           (price_history w)\<rparr>"

section \<open>marketDataService.ts: getLatestQuote and getHistory\<close>

text \<open>The object \<^verbatim>\<open>getLatestQuote\<close> resolves to. Only the fresh-cache branch spreads the
  whole row, so only there \<^verbatim>\<open>fetched_at\<close> and \<^verbatim>\<open>expires_at\<close> are present.\<close>

record 'n LatestQuote =
  lq_price :: 'n
  lq_currency :: "string option"
  lq_as_of :: string
  lq_source :: string
  lq_cached :: bool
  lq_fetched_at :: "int option"
  lq_expires_at :: "int option"

definition logCalls ::
  "operation \<Rightarrow> 'n MarketDataProvider list \<Rightarrow> 'n world \<Rightarrow> 'n world" where
  "logCalls operation invoked w =
     w\<lparr>outbound := outbound w @ map (\<lambda>p. (p_name p, operation)) invoked\<rparr>"

text \<open>The \<^verbatim>\<open>catch (error)\<close> block of \<^verbatim>\<open>getLatestQuote\<close>.\<close>

definition quoteFallback ::
  "string \<Rightarrow> string \<Rightarrow> thrown \<Rightarrow> 'n world \<Rightarrow> (thrown + 'n LatestQuote) \<times> 'n world" where
  "quoteFallback ticker market error w =
     (case getStaleQuote ticker market w of
        Some stale \<Rightarrow>
          (Inr \<lparr>lq_price = qc_price stale, lq_currency = qc_currency stale,
                lq_as_of = qc_as_of stale, lq_source = qc_source stale,
                lq_cached = True, lq_fetched_at = None, lq_expires_at = None\<rparr>, w)
      | None \<Rightarrow>
          (case getLatestHistoryPrice ticker market w of
             Some history \<Rightarrow>
               (Inr \<lparr>lq_price = lh_price history, lq_currency = lh_currency history,
                     lq_as_of = lh_as_of history,
                     lq_source = orElse (Some (lh_source history)) ''HISTORY'',
                     lq_cached = True, lq_fetched_at = None, lq_expires_at = None\<rparr>, w)
           | None \<Rightarrow> (Inl error, w)))"

text \<open>\<^verbatim>\<open>getLatestQuote\<close>. The \<^verbatim>\<open>try\<close> block holds the fetch and the
  \<^verbatim>\<open>cacheQuote\<close> call, so a failure of either ends in the \<^verbatim>\<open>catch\<close> block.\<close>

definition getLatestQuote ::
  "config \<Rightarrow> string \<Rightarrow> string \<Rightarrow> 'n MarketDataProvider list \<Rightarrow> bool \<Rightarrow> 'n world
     \<Rightarrow> (thrown + 'n LatestQuote) \<times> 'n world" where
  "getLatestQuote cfg ticker market providers forceRefresh w =
     (case (if forceRefresh then None else getCachedQuote ticker market w) of
        Some cached \<Rightarrow>
          (Inr \<lparr>lq_price = qc_price cached, lq_currency = qc_currency cached,
                lq_as_of = qc_as_of cached, lq_source = qc_source cached, lq_cached = True,
                lq_fetched_at = Some (qc_fetched_at cached),
                lq_expires_at = Some (qc_expires_at cached)\<rparr>, w)
      | None \<Rightarrow>
          (let marketProviders = filterProvidersForMarket providers market;
               exchange = resolveExchange market;
               (outcome, invoked) =
                 fetchWithProviders marketProviders
                   (\<lambda>p. p_getQuote p \<lparr>sp_ticker = ticker, sp_market = Some exchange\<rparr>);
               w1 = logCalls GetQuote invoked w
           in case outcome of
                Inr (provider, result) \<Rightarrow>
                  (case cacheQuote cfg ticker market (q_price result) (q_currency result)
                          (q_asOf result) (p_name provider) w1 of
                     Inr w2 \<Rightarrow>
                       (Inr \<lparr>lq_price = q_price result, lq_currency = q_currency result,
                             lq_as_of = q_asOf result, lq_source = p_name provider,
                             lq_cached = False, lq_fetched_at = None,
                             lq_expires_at = None\<rparr>, w2)
                   | Inl error \<Rightarrow> quoteFallback ticker market error w1)
              | Inl error \<Rightarrow> quoteFallback ticker market error w1))"

text \<open>
  \<^verbatim>\<open>getHistory\<close> resolves to the rows and the source. Its part after the cache
  lookup, from \<^verbatim>\<open>filterProvidersForMarket\<close> on, is \<open>fetchHistory\<close>.
\<close>

definition fetchHistory ::
  "string \<Rightarrow> string \<Rightarrow> string \<Rightarrow> string \<Rightarrow> string \<Rightarrow> 'n MarketDataProvider list
     \<Rightarrow> 'n world \<Rightarrow> (thrown + 'n HistoryPoint list \<times> string) \<times> 'n world" where
  "fetchHistory ticker market from to interval providers w =
     (let marketProviders = filterProvidersForMarket providers market;
          exchange = resolveExchange market;
          (outcome, invoked) =
            fetchWithProviders marketProviders
              (\<lambda>p. p_getHistory p
                     \<lparr>hq_ticker = ticker, hq_market = Some exchange,
                      hq_from = Some from, hq_to = Some to, hq_interval = interval\<rparr>);
          w1 = logCalls GetHistory invoked w
      in case outcome of
           Inl error \<Rightarrow> (Inl error, w1)
         | Inr (provider, result) \<Rightarrow>
             (let w2 = cacheHistoryRows ticker market interval result (p_name provider) w1;
                  rows = (case getCachedHistory ticker market interval from to w2 of
                            Some stored \<Rightarrow> stored
                          | None \<Rightarrow> result)
              in (Inr (rows, p_name provider), w2)))"

definition getHistory ::
  "string \<Rightarrow> string \<Rightarrow> string \<Rightarrow> string \<Rightarrow> string \<Rightarrow> 'n MarketDataProvider list \<Rightarrow> bool
     \<Rightarrow> 'n world \<Rightarrow> (thrown + 'n HistoryPoint list \<times> string) \<times> 'n world" where
  "getHistory ticker market from to interval providers forceRefresh w =
     (case (if forceRefresh then None
            else getCachedHistory ticker market interval from to w) of
        Some cached \<Rightarrow> (Inr (cached, ''CACHE''), w)
      | None \<Rightarrow> fetchHistory ticker market from to interval providers w)"

section \<open>validationService.ts\<close>

text \<open>
  \<^verbatim>\<open>WHERE ticker = ? AND market = ? ORDER BY last_verified_at DESC LIMIT 1\<close>, in
  \<^verbatim>\<open>getCachedValidation\<close> and in \<^verbatim>\<open>cacheValidation\<close>: the rows of the key are read
  in stored order and sorted.
\<close>

definition selectLatestSymbol :: "string \<Rightarrow> string \<Rightarrow> symbol_row list \<Rightarrow> symbol_row option" where
  "selectLatestSymbol ticker market tbl =
     firstMax ms_last_verified_at
       (filter (\<lambda>r. ms_ticker r = ticker \<and> ms_market r = market) tbl)"

text \<open>
  The cutoff is \<^verbatim>\<open>ttlDays\<close> days before now, a day taken as 86400 seconds. The stamp
  is written by SQLite in UTC and read back by \<^verbatim>\<open>new Date(...)\<close>, which takes a stamp
  of this form as local time: the server is taken to run on UTC.
\<close>

definition getCachedValidation ::
  "config \<Rightarrow> string \<Rightarrow> string \<Rightarrow> 'n world \<Rightarrow> symbol_row option" where
  "getCachedValidation cfg ticker market w =
     (case selectLatestSymbol ticker market (market_symbols w) of
        None \<Rightarrow> None
      | Some row \<Rightarrow>
          if ms_last_verified_at row < clock w - VALIDATION_TTL_DAYS cfg * 86400 then None
          else Some row)"

text \<open>\<^verbatim>\<open>INSERT OR REPLACE\<close> under \<^verbatim>\<open>UNIQUE (ticker, market, provider)\<close>: the row in
  conflict is deleted, the new row is appended.\<close>

definition replaceSymbol :: "symbol_row \<Rightarrow> symbol_row list \<Rightarrow> symbol_row list" where
  "replaceSymbol new tbl =
     filter (\<lambda>r. \<not> (ms_ticker r = ms_ticker new \<and> ms_market r = ms_market new
                     \<and> ms_provider r = ms_provider new)) tbl @ [new]"

text \<open>\<^verbatim>\<open>existing?.name ?? name\<close>.\<close>

definition nameToStore :: "symbol_row option \<Rightarrow> string option \<Rightarrow> string option" where
  "nameToStore existing name =
     (case existing of
        None \<Rightarrow> name
      | Some row \<Rightarrow> (case ms_name row of None \<Rightarrow> name | Some n \<Rightarrow> Some n))"

definition cacheValidation ::
  "string \<Rightarrow> string \<Rightarrow> string option \<Rightarrow> string option \<Rightarrow> string option \<Rightarrow> string
     \<Rightarrow> 'n world \<Rightarrow> 'n world" where
  "cacheValidation ticker market name currency exchange provider w =
     (let existing = selectLatestSymbol ticker market (market_symbols w)
      in w\<lparr>market_symbols :=
            replaceSymbol
              \<lparr>ms_ticker = ticker, ms_market = market,
               ms_name = nameToStore existing name, ms_currency = currency,
               ms_exchange = exchange, ms_provider = provider,
               ms_last_verified_at = clock w\<rparr>
              (market_symbols w)\<rparr>)"

definition normalizeTicker :: "string \<Rightarrow> string \<Rightarrow> string" where
  "normalizeTicker ticker market =
     (case getMarketDefinition market of
        None \<Rightarrow> ticker
      | Some marketDefinition \<Rightarrow>
          if assetType marketDefinition = crypto \<and> CHR ''/'' \<notin> set ticker
          then ticker @ ''/'' @ orElse (defaultQuote marketDefinition) ''USD''
          else ticker)"

definition orderProvidersForMarket ::
  "'n MarketDataProvider list \<Rightarrow> string \<Rightarrow> 'n MarketDataProvider list" where
  "orderProvidersForMarket providers market =
     (let normalized = toUpperCase market
      in if normalized \<notin> set [''XWAR'', ''GPW'', ''XLON'', ''XETR''] then providers
         else stooqFirst providers)"

datatype symbol_payload = CachedSymbol symbol_row | FoundSymbol SymbolSearchResult

record ValidationResult =
  v_valid :: bool
  v_source :: string
  v_reason :: "string option"
  v_supported_markets :: "MarketDefinition list option"
  v_symbol :: "symbol_payload option"
  v_normalized :: "(string \<times> string) option"

text \<open>The \<^verbatim>\<open>for\<close> loop of \<^verbatim>\<open>validateSymbol\<close> over the ordered providers; the second
  argument is \<^verbatim>\<open>lastProvider\<close>.\<close>

fun validateLoop ::
  "'n MarketDataProvider list \<Rightarrow> string \<Rightarrow> MarketDefinition \<Rightarrow> string \<Rightarrow> string \<Rightarrow> 'n world
     \<Rightarrow> (thrown + ValidationResult) \<times> 'n world" where
  "validateLoop [] lastProvider marketDefinition normalizedTicker normalizedMarket w =
     (Inr \<lparr>v_valid = False, v_source = lastProvider, v_reason = Some ''not_found'',
           v_supported_markets = None, v_symbol = None,
           v_normalized = Some (normalizedTicker, normalizedMarket)\<rparr>, w)"
| "validateLoop (provider # rest) lastProvider marketDefinition normalizedTicker
       normalizedMarket w =
     (let w1 = w\<lparr>outbound := outbound w @ [(p_name provider, SearchSymbol)]\<rparr>
      in case p_searchSymbol provider
                \<lparr>sp_ticker = normalizedTicker,
                 sp_market = Some (providerExchange marketDefinition)\<rparr> of
           Inr None \<Rightarrow>
             validateLoop rest (p_name provider) marketDefinition normalizedTicker
               normalizedMarket w1
         | Inr (Some result) \<Rightarrow>
             (Inr \<lparr>v_valid = True, v_source = p_name provider, v_reason = None,
                   v_supported_markets = None,
                   v_symbol = Some (FoundSymbol
                     (result\<lparr>sr_ticker := toUpperCase (sr_ticker result),
                             sr_market := normalizedMarket\<rparr>)),
                   v_normalized = Some (normalizedTicker, normalizedMarket)\<rparr>,
              cacheValidation (toUpperCase (sr_ticker result)) normalizedMarket
                (sr_name result) (sr_currency result) (sr_exchange result)
                (p_name provider) w1)
         | Inl error \<Rightarrow>
             if instanceof_ProviderError error
             then validateLoop rest (p_name provider) marketDefinition normalizedTicker
                    normalizedMarket w1
             else (Inl error, w1))"

definition validateSymbol ::
  "config \<Rightarrow> string \<Rightarrow> string \<Rightarrow> 'n MarketDataProvider list \<Rightarrow> 'n world
     \<Rightarrow> (thrown + ValidationResult) \<times> 'n world" where
  "validateSymbol cfg ticker market providers w =
     (case getMarketDefinition market of
        None \<Rightarrow>
          (Inr \<lparr>v_valid = False, v_source = ''LOCAL'', v_reason = Some ''unsupported_market'',
                v_supported_markets = Some getSupportedMarkets, v_symbol = None,
                v_normalized = None\<rparr>, w)
      | Some marketDefinition \<Rightarrow>
          (let normalizedMarket = toUpperCase (code marketDefinition);
               normalizedTicker = normalizeTicker (toUpperCase ticker) normalizedMarket
           in case getCachedValidation cfg normalizedTicker normalizedMarket w of
                Some cached \<Rightarrow>
                  (Inr \<lparr>v_valid = True, v_source = ''CACHE'', v_reason = None,
                        v_supported_markets = None, v_symbol = Some (CachedSymbol cached),
                        v_normalized = None\<rparr>, w)
              | None \<Rightarrow>
                  validateLoop (orderProvidersForMarket providers normalizedMarket)
                    ''UNKNOWN'' marketDefinition normalizedTicker normalizedMarket w))"

section \<open>The JavaScript runtime and the network, as parameters\<close>

text \<open>
  What the services take from outside the repository: \<^verbatim>\<open>new Date(s)\<close> (the time value
  in milliseconds since the epoch, \<open>None\<close> for an invalid date), \<^verbatim>\<open>Date.prototype.toISOString\<close>
  on a valid time value, and the answer of the Frankfurter web service as
  \<^verbatim>\<open>FrankfurterProvider.getExchangeRate\<close> maps it.
\<close>

record 'n runtime =
  Date_parse :: "string \<Rightarrow> int option"
  toISOString :: "int \<Rightarrow> string"
  frankfurterApi :: "ExchangeRateParams \<Rightarrow> thrown + 'n ExchangeRateResult"

section \<open>providers/frankfurter.ts\<close>

definition FrankfurterProvider :: "'n runtime \<Rightarrow> 'n MarketDataProvider" where
  "FrankfurterProvider rt =
     \<lparr>p_name = ''FRANKFURTER'',
      p_searchSymbol = (\<lambda>_. Inl (ProviderError ''Frankfurter only supports FX rates'')),
      p_getQuote = (\<lambda>_. Inl (ProviderError ''Frankfurter only supports FX rates'')),
      p_getHistory = (\<lambda>_. Inl (ProviderError ''Frankfurter only supports FX rates'')),
      p_getExchangeRate = frankfurterApi rt\<rparr>"

section \<open>fxService.ts\<close>

text \<open>
  \<^verbatim>\<open>WHERE base = ? AND quote = ? AND expires_at > datetime('now') ORDER BY expires_at DESC
  LIMIT 1\<close>, answered by a backward walk of \<^verbatim>\<open>fx_rates_lookup_idx (base, quote,
  expires_at)\<close>.
\<close>

definition getCachedFxRate :: "string \<Rightarrow> string \<Rightarrow> 'n world \<Rightarrow> 'n fx_row option" where
  "getCachedFxRate base quote w =
     lastMax fx_expires_at
       (filter (\<lambda>r. fx_base r = base \<and> fx_quote r = quote \<and> fx_expires_at r > clock w)
          (fx_rates w))"

text \<open>\<^verbatim>\<open>WHERE base = ? AND quote = ? ORDER BY fetched_at DESC LIMIT 1\<close>; the rows of the
  pair are read through the same index, by \<^verbatim>\<open>expires_at\<close> and then in stored order,
  and sorted.\<close>

definition getStaleFxRate :: "string \<Rightarrow> string \<Rightarrow> 'n world \<Rightarrow> 'n fx_row option" where
  "getStaleFxRate base quote w =
     firstMax fx_fetched_at
       (sort_key fx_expires_at
          (filter (\<lambda>r. fx_base r = base \<and> fx_quote r = quote) (fx_rates w)))"

text \<open>\<^verbatim>\<open>INSERT OR REPLACE\<close> under \<^verbatim>\<open>UNIQUE (base, quote, source)\<close>; as in
  \<^verbatim>\<open>cacheQuote\<close> a negative number of seconds makes the statement fail.\<close>

definition cacheFxRate ::
  "config \<Rightarrow> string \<Rightarrow> string \<Rightarrow> 'n \<Rightarrow> string \<Rightarrow> 'n world \<Rightarrow> thrown + 'n world" where
  "cacheFxRate cfg base quote rate source w =
     (let ttlSeconds = FX_TTL_SECONDS cfg
      in if ttlSeconds < 0
         then Inl (OtherError ''NOT NULL constraint failed: fx_rates.expires_at'')
         else Inr (w\<lparr>fx_rates :=
            filter (\<lambda>r. \<not> (fx_base r = base \<and> fx_quote r = quote \<and> fx_source r = source))
              (fx_rates w)
            @ [\<lparr>fx_base = base, fx_quote = quote, fx_rate = rate, fx_source = source,
                 fx_fetched_at = clock w, fx_expires_at = clock w + ttlSeconds\<rparr>]\<rparr>))"

text \<open>The \<^verbatim>\<open>catch (error)\<close> block of \<^verbatim>\<open>getFxRate\<close>.\<close>

definition fxFallback ::
  "string \<Rightarrow> string \<Rightarrow> thrown \<Rightarrow> 'n world \<Rightarrow> (thrown + 'n) \<times> 'n world" where
  "fxFallback base quote error w =
     (case getStaleFxRate base quote w of
        Some stale \<Rightarrow> (Inr (fx_rate stale), w)
      | None \<Rightarrow> (Inl error, w))"

definition getFxRate ::
  "config \<Rightarrow> 'n runtime \<Rightarrow> string \<Rightarrow> string \<Rightarrow> ('n::one) MarketDataProvider list \<Rightarrow> 'n world
     \<Rightarrow> (thrown + 'n) \<times> 'n world" where
  "getFxRate cfg rt base quote providers w =
     (if base = quote then (Inr 1, w)
      else case getCachedFxRate base quote w of
        Some cached \<Rightarrow> (Inr (fx_rate cached), w)
      | None \<Rightarrow>
          (let fxProviders =
                 filter (\<lambda>p. p_name p \<noteq> ''STOOQ'') providers @ [FrankfurterProvider rt];
               (outcome, invoked) =
                 fetchWithProviders fxProviders
                   (\<lambda>p. p_getExchangeRate p \<lparr>er_base = base, er_quote = quote\<rparr>);
               w1 = logCalls GetExchangeRate invoked w
           in case outcome of
                Inr (provider, result) \<Rightarrow>
                  (case cacheFxRate cfg base quote (er_rate result) (p_name provider) w1 of
                     Inr w2 \<Rightarrow> (Inr (er_rate result), w2)
                   | Inl error \<Rightarrow> fxFallback base quote error w1)
              | Inl error \<Rightarrow> fxFallback base quote error w1))"

section \<open>portfolioService.ts: dates\<close>

text \<open>\<^verbatim>\<open>new Date(date).toISOString().slice(0, 10)\<close>; \<^verbatim>\<open>toISOString\<close> throws a
  \<^verbatim>\<open>RangeError\<close> on an invalid date.\<close>

definition normalizeDate :: "'n runtime \<Rightarrow> string \<Rightarrow> thrown + string" where
  "normalizeDate rt date =
     (case Date_parse rt date of
        None \<Rightarrow> Inl (OtherError ''Invalid time value'')
      | Some d \<Rightarrow> Inr (take 10 (toISOString rt d)))"

text \<open>\<^verbatim>\<open>new Date().toISOString().slice(0, 10)\<close>; the clock counts seconds.\<close>

definition todayIso :: "'n runtime \<Rightarrow> 'n world \<Rightarrow> string" where
  "todayIso rt w = take 10 (toISOString rt (clock w * 1000))"

text \<open>
  The \<^verbatim>\<open>while\<close> loop of \<^verbatim>\<open>createDateRange\<close> on time values.
  \<^verbatim>\<open>current.setUTCDate(current.getUTCDate() + 1)\<close> moves a time value on by one UTC day,
  that is by 86400000 milliseconds.
\<close>

function dateLoop :: "(int \<Rightarrow> string) \<Rightarrow> int \<Rightarrow> int \<Rightarrow> string list" where
  "dateLoop render current endTime =
     (if current \<le> endTime
      then take 10 (render current) # dateLoop render (current + 86400000) endTime
      else [])"
  by pat_completeness auto
termination
  by (relation "measure (\<lambda>(render, current, endTime). nat (endTime - current + 1))") auto

declare dateLoop.simps [simp del]

text \<open>A comparison with an invalid date is false, so the loop is not entered.\<close>

definition createDateRange :: "'n runtime \<Rightarrow> string \<Rightarrow> string \<Rightarrow> string list" where
  "createDateRange rt from to =
     (case Date_parse rt from of
        None \<Rightarrow> []
      | Some current \<Rightarrow>
          (case Date_parse rt to of
             None \<Rightarrow> []
           | Some endTime \<Rightarrow> dateLoop (toISOString rt) current endTime))"

section \<open>portfolioService.ts: getPerformanceSeries\<close>

text \<open>\<^verbatim>\<open>WHERE portfolio_id = ? ORDER BY created_at DESC\<close>: the rows of the portfolio
  are read in stored order and sorted, so rows created in the same second keep their
  stored order.\<close>

definition listHoldings :: "int \<Rightarrow> 'n world \<Rightarrow> 'n HoldingRow list" where
  "listHoldings portfolioId w =
     sort_key (\<lambda>h. - created_at h)
       (filter (\<lambda>h. h_portfolio_id h = portfolioId) (holdings_table w))"

text \<open>\<^verbatim>\<open>getMarketDefinition(holding.market)?.currency || 'USD'\<close>, written out three times
  in the source.\<close>

definition marketCurrency :: "'n HoldingRow \<Rightarrow> string" where
  "marketCurrency holding =
     orElse (map_option m_currency (getMarketDefinition (h_market holding))) ''USD''"

text \<open>\<^verbatim>\<open>Array.from(new Set(xs))\<close>: the distinct elements in the order of their first
  occurrence.\<close>

definition distinctInOrder :: "'a list \<Rightarrow> 'a list" where
  "distinctInOrder xs = rev (remdups (rev xs))"

text \<open>
  The closure \<^verbatim>\<open>resolveRate\<close>. Its captured \<^verbatim>\<open>rateCache\<close> is passed in and returned.
\<close>

definition resolveRate ::
  "config \<Rightarrow> 'n runtime \<Rightarrow> ('n::one) MarketDataProvider list \<Rightarrow> string \<Rightarrow> string
     \<Rightarrow> (string \<rightharpoonup> 'n) \<Rightarrow> 'n world \<Rightarrow> (thrown + 'n) \<times> (string \<rightharpoonup> 'n) \<times> 'n world" where
  "resolveRate cfg rt providers normalizedBase fromCurrency rateCache w =
     (let normalizedFrom = toUpperCase fromCurrency
      in if normalizedFrom = normalizedBase then (Inr 1, rateCache, w)
         else case rateCache normalizedFrom of
           Some rate \<Rightarrow> (Inr rate, rateCache, w)
         | None \<Rightarrow>
             (case getFxRate cfg rt normalizedFrom normalizedBase providers w of
                (Inl error, w1) \<Rightarrow> (Inl error, rateCache, w1)
              | (Inr rate, w1) \<Rightarrow> (Inr rate, rateCache(normalizedFrom \<mapsto> rate), w1)))"

text \<open>
  \<^verbatim>\<open>await Promise.all(currencies.map((currency) => resolveRate(currency)))\<close>. The calls
  are taken one after the other in list order. All of them run; the result is the first
  rejection, if there is one.
\<close>

fun resolveRates ::
  "config \<Rightarrow> 'n runtime \<Rightarrow> ('n::one) MarketDataProvider list \<Rightarrow> string \<Rightarrow> string list
     \<Rightarrow> (string \<rightharpoonup> 'n) \<Rightarrow> 'n world \<Rightarrow> thrown option \<times> (string \<rightharpoonup> 'n) \<times> 'n world" where
  "resolveRates cfg rt providers normalizedBase [] rateCache w = (None, rateCache, w)"
| "resolveRates cfg rt providers normalizedBase (currency # rest) rateCache w =
     (case resolveRate cfg rt providers normalizedBase currency rateCache w of
        (Inl error, rateCache1, w1) \<Rightarrow>
          (let (_, rateCache2, w2) =
                 resolveRates cfg rt providers normalizedBase rest rateCache1 w1
           in (Some error, rateCache2, w2))
      | (Inr _, rateCache1, w1) \<Rightarrow>
          resolveRates cfg rt providers normalizedBase rest rateCache1 w1)"

text \<open>\<^verbatim>\<open>holding.buy_date > startDate ? holding.buy_date : startDate\<close>.\<close>

definition fallbackDate :: "'n HoldingRow \<Rightarrow> string \<Rightarrow> string" where
  "fallbackDate holding startDate =
     (if buy_date holding > startDate then buy_date holding else startDate)"

text \<open>
  The body of the \<^verbatim>\<open>async (holding) => ...\<close> callback: the price map that is stored
  under the holding's id, or the rejection of the \<^verbatim>\<open>resolveRate\<close> call outside the
  \<^verbatim>\<open>try\<close>. \<^verbatim>\<open>Promise.all(holdings.map(...))\<close> starts every callback before the
  answer to any provider request is handled, and the cache lookup of \<^verbatim>\<open>getHistory\<close>
  is synchronous: every callback looks the cache up in the store as it is when the
  callbacks are started (\<open>started\<close>). The rest of \<^verbatim>\<open>getHistory\<close> runs in the state
  the callback finds when its answers arrive (\<open>w\<close>).
\<close>

definition holdingPrices ::
  "config \<Rightarrow> 'n runtime \<Rightarrow> ('n::{one,times}) MarketDataProvider list \<Rightarrow> bool \<Rightarrow> string
     \<Rightarrow> string \<Rightarrow> string \<Rightarrow> 'n world \<Rightarrow> 'n HoldingRow \<Rightarrow> (string \<rightharpoonup> 'n) \<Rightarrow> 'n world
     \<Rightarrow> (thrown + (string \<rightharpoonup> 'n)) \<times> (string \<rightharpoonup> 'n) \<times> 'n world" where
  "holdingPrices cfg rt providers forceRefresh startDate endDate normalizedBase started
       holding rateCache w =
     (case resolveRate cfg rt providers normalizedBase (marketCurrency holding) rateCache w of
        (Inl error, rateCache1, w1) \<Rightarrow> (Inl error, rateCache1, w1)
      | (Inr fxRate, rateCache1, w1) \<Rightarrow>
          (case (case (if forceRefresh then None
                       else getCachedHistory (h_ticker holding) (h_market holding) ''1d''
                              startDate endDate started) of
                   Some cached \<Rightarrow> (Inr (cached, ''CACHE''), w1)
                 | None \<Rightarrow>
                     fetchHistory (h_ticker holding) (h_market holding) startDate endDate
                       ''1d'' providers w1) of
             (Inr (rows, _), w2) \<Rightarrow>
               (let priceByDate =
                      fold (\<lambda>row m. m(hp_date row \<mapsto> hp_price row * fxRate)) rows Map.empty;
                    noEarlier =
                      (case rows of
                         [] \<Rightarrow> True
                       | row # _ \<Rightarrow>
                           hp_date row = [] \<or> hp_date row > fallbackDate holding startDate)
                in (Inr (if noEarlier
                         then priceByDate(fallbackDate holding startDate
                                \<mapsto> buy_price holding * fxRate)
                         else priceByDate), rateCache1, w2))
           | (Inl error, w2) \<Rightarrow>
               (Inr [fallbackDate holding startDate \<mapsto> buy_price holding * fxRate],
                rateCache1, w2)))"

text \<open>
  \<^verbatim>\<open>await Promise.all(holdings.map(async (holding) => ...))\<close>, filling
  \<^verbatim>\<open>historyMap\<close>. After the lookups the callbacks are completed one after the other in
  list order. All of them run; the result is the first rejection, if there is one.
\<close>

fun holdingsLoop ::
  "config \<Rightarrow> 'n runtime \<Rightarrow> ('n::{one,times}) MarketDataProvider list \<Rightarrow> bool \<Rightarrow> string
     \<Rightarrow> string \<Rightarrow> string \<Rightarrow> 'n world \<Rightarrow> 'n HoldingRow list \<Rightarrow> (int \<rightharpoonup> (string \<rightharpoonup> 'n))
     \<Rightarrow> (string \<rightharpoonup> 'n) \<Rightarrow> 'n world
     \<Rightarrow> thrown option \<times> (int \<rightharpoonup> (string \<rightharpoonup> 'n)) \<times> (string \<rightharpoonup> 'n) \<times> 'n world" where
  "holdingsLoop cfg rt providers forceRefresh startDate endDate normalizedBase started []
       historyMap rateCache w = (None, historyMap, rateCache, w)"
| "holdingsLoop cfg rt providers forceRefresh startDate endDate normalizedBase started
       (holding # rest) historyMap rateCache w =
     (case holdingPrices cfg rt providers forceRefresh startDate endDate normalizedBase
             started holding rateCache w of
        (Inl error, rateCache1, w1) \<Rightarrow>
          (let (_, historyMap2, rateCache2, w2) =
                 holdingsLoop cfg rt providers forceRefresh startDate endDate
                   normalizedBase started rest historyMap rateCache1 w1
           in (Some error, historyMap2, rateCache2, w2))
      | (Inr priceByDate, rateCache1, w1) \<Rightarrow>
          holdingsLoop cfg rt providers forceRefresh startDate endDate normalizedBase
            started rest (historyMap(h_id holding \<mapsto> priceByDate)) rateCache1 w1)"

record 'n PerformancePoint =
  pp_date :: string
  pp_value :: 'n

text \<open>The body of \<^verbatim>\<open>holdings.forEach\<close> for one date: the running total and
  \<^verbatim>\<open>lastKnown\<close>.\<close>

definition addHoldingValue ::
  "string \<Rightarrow> (int \<rightharpoonup> (string \<rightharpoonup> 'n)) \<Rightarrow> (string \<rightharpoonup> 'n) \<Rightarrow> ('n::{one,plus,times}) HoldingRow
     \<Rightarrow> 'n \<times> (int \<rightharpoonup> 'n) \<Rightarrow> 'n \<times> (int \<rightharpoonup> 'n)" where
  "addHoldingValue date historyMap rateCache holding acc =
     (case acc of (runningTotal, lastKnown) \<Rightarrow>
        if date < buy_date holding then (runningTotal, lastKnown)
        else
          (let lastKnown1 =
                 (case historyMap (h_id holding) of
                    None \<Rightarrow> lastKnown
                  | Some priceMap \<Rightarrow>
                      (case priceMap date of
                         None \<Rightarrow> lastKnown
                       | Some p \<Rightarrow> lastKnown(h_id holding \<mapsto> p)));
               rate = (case rateCache (marketCurrency holding) of None \<Rightarrow> 1 | Some r \<Rightarrow> r);
               price = (case lastKnown1 (h_id holding) of
                          None \<Rightarrow> buy_price holding * rate
                        | Some p \<Rightarrow> p)
           in (runningTotal + price * quantity holding, lastKnown1)))"

text \<open>The \<^verbatim>\<open>for (const date of dates)\<close> loop; the last argument is \<^verbatim>\<open>lastKnown\<close>.\<close>

fun seriesLoop ::
  "string list \<Rightarrow> ('n::{zero,one,plus,times}) HoldingRow list \<Rightarrow> (int \<rightharpoonup> (string \<rightharpoonup> 'n))
     \<Rightarrow> (string \<rightharpoonup> 'n) \<Rightarrow> (int \<rightharpoonup> 'n) \<Rightarrow> 'n PerformancePoint list" where
  "seriesLoop [] holdings historyMap rateCache lastKnown = []"
| "seriesLoop (date # rest) holdings historyMap rateCache lastKnown =
     (case fold (addHoldingValue date historyMap rateCache) holdings (0, lastKnown) of
        (runningTotal, lastKnown1) \<Rightarrow>
          \<lparr>pp_date = date, pp_value = runningTotal\<rparr>
            # seriesLoop rest holdings historyMap rateCache lastKnown1)"

record 'n PerformanceResult =
  pr_series :: "'n PerformancePoint list"
  pr_from :: "string option"
  pr_to :: "string option"

text \<open>\<^verbatim>\<open>holdings.reduce((min, holding) => holding.buy_date < min ? holding.buy_date : min,
  holdings[0].buy_date)\<close>.\<close>

definition earliestBuy :: "'n HoldingRow \<Rightarrow> 'n HoldingRow list \<Rightarrow> string" where
  "earliestBuy first holdings =
     foldl (\<lambda>min holding. if buy_date holding < min then buy_date holding else min)
       (buy_date first) holdings"

definition getPerformanceSeries ::
  "config \<Rightarrow> 'n runtime \<Rightarrow> int \<Rightarrow> string option \<Rightarrow> string option
     \<Rightarrow> ('n::{zero,one,plus,times}) MarketDataProvider list \<Rightarrow> string \<Rightarrow> bool \<Rightarrow> 'n world
     \<Rightarrow> (thrown + 'n PerformanceResult) \<times> 'n world" where
  "getPerformanceSeries cfg rt portfolioId from to providers baseCurrency forceRefresh w =
     (case listHoldings portfolioId w of
        [] \<Rightarrow> (Inr \<lparr>pr_series = [], pr_from = from, pr_to = to\<rparr>, w)
      | first # others \<Rightarrow>
          (case normalizeDate rt (orElse from (earliestBuy first (first # others))) of
             Inl error \<Rightarrow> (Inl error, w)
           | Inr startDate \<Rightarrow>
               (case normalizeDate rt (orElse to (todayIso rt w)) of
                  Inl error \<Rightarrow> (Inl error, w)
                | Inr endDate \<Rightarrow>
                    (let dates = createDateRange rt startDate endDate;
                         normalizedBase = toUpperCase baseCurrency;
                         currencies = distinctInOrder (map marketCurrency (first # others))
                     in case resolveRates cfg rt providers normalizedBase currencies
                               Map.empty w of
                          (Some error, rateCache, w1) \<Rightarrow> (Inl error, w1)
                        | (None, rateCache, w1) \<Rightarrow>
                            (case holdingsLoop cfg rt providers forceRefresh startDate endDate
                                    normalizedBase w1 (first # others) Map.empty rateCache
                                    w1 of
                               (Some error, historyMap, rateCache2, w2) \<Rightarrow> (Inl error, w2)
                             | (None, historyMap, rateCache2, w2) \<Rightarrow>
                                 (Inr \<lparr>pr_series =
                                         seriesLoop dates (first # others) historyMap
                                           rateCache2 Map.empty,
                                       pr_from = Some startDate,
                                       pr_to = Some endDate\<rparr>, w2))))))"

section \<open>Observations used in the statements\<close>

text \<open>The error with which \<^verbatim>\<open>fetchWithProviders\<close> ends when it runs out of providers
  holding \<open>lastError\<close>.\<close>

definition exhausted :: "thrown option \<Rightarrow> thrown" where
  "exhausted lastError =
     (case lastError of
        Some e \<Rightarrow> if instanceof_Error e then e else ProviderError ''No providers configured''
      | None \<Rightarrow> ProviderError ''No providers configured'')"

text \<open>The value the last failing provider rejected with, if any provider is there.\<close>

definition lastRecorded :: "'p list \<Rightarrow> ('p \<Rightarrow> thrown + 'r) \<Rightarrow> thrown option" where
  "lastRecorded providers task =
     (case rev providers of
        [] \<Rightarrow> None
      | p # _ \<Rightarrow> (case task p of Inl e \<Rightarrow> Some e | Inr _ \<Rightarrow> None))"

text \<open>The display name the symbol cache reports for a key: the name of the row that the
  lookup of \<^verbatim>\<open>cacheValidation\<close> and \<^verbatim>\<open>getCachedValidation\<close> selects.\<close>

definition cachedName :: "string \<Rightarrow> string \<Rightarrow> 'n world \<Rightarrow> string option" where
  "cachedName ticker market w =
     (case selectLatestSymbol ticker market (market_symbols w) of
        None \<Rightarrow> None
      | Some row \<Rightarrow> ms_name row)"

text \<open>The row a \<^verbatim>\<open>cacheValidation\<close> call writes when it stores the name \<open>stored\<close>.\<close>

definition writtenSymbol ::
  "string \<Rightarrow> string \<Rightarrow> string option \<Rightarrow> string option \<Rightarrow> string option \<Rightarrow> string \<Rightarrow> int
     \<Rightarrow> symbol_row" where
  "writtenSymbol ticker market stored currency exchange provider now =
     \<lparr>ms_ticker = ticker, ms_market = market, ms_name = stored, ms_currency = currency,
      ms_exchange = exchange, ms_provider = provider, ms_last_verified_at = now\<rparr>"

text \<open>The passing of \<open>d\<close> seconds.\<close>

definition advance :: "int \<Rightarrow> 'n world \<Rightarrow> 'n world" where
  "advance d w = w\<lparr>clock := clock w + d\<rparr>"

text \<open>
  A run of later \<^verbatim>\<open>cacheValidation\<close> writes for one key. Each write comes with the
  seconds that pass before it and with the name, currency, exchange and provider it is
  called with.
\<close>

fun laterWrites ::
  "(int \<times> string option \<times> string option \<times> string option \<times> string) list \<Rightarrow> string \<Rightarrow> string
     \<Rightarrow> 'n world \<Rightarrow> 'n world" where
  "laterWrites [] ticker market w = w"
| "laterWrites ((d, name, currency, exchange, provider) # rest) ticker market w =
     laterWrites rest ticker market
       (cacheValidation ticker market name currency exchange provider (advance d w))"

text \<open>No row of the key was verified after the clock's present reading.\<close>

definition keyRowsUpTo :: "string \<Rightarrow> string \<Rightarrow> 'n world \<Rightarrow> bool" where
  "keyRowsUpTo ticker market w \<longleftrightarrow>
     list_all (\<lambda>r. ms_ticker r = ticker \<and> ms_market r = market
                  \<longrightarrow> ms_last_verified_at r \<le> clock w) (market_symbols w)"

text \<open>The rows the quote cache holds for a key.\<close>

definition quoteRows :: "string \<Rightarrow> string \<Rightarrow> 'n world \<Rightarrow> 'n quote_row list" where
  "quoteRows ticker market w =
     filter (\<lambda>r. qc_ticker r = ticker \<and> qc_market r = market) (quote_cache w)"

text \<open>The three objects \<^verbatim>\<open>getLatestQuote\<close> builds from stored rows: from a fresh cache
  row (\<^verbatim>\<open>{ ...cached, cached: true }\<close>), from a stale cache row, and from a history row.\<close>

definition freshQuote :: "'n quote_row \<Rightarrow> 'n LatestQuote" where
  "freshQuote row =
     \<lparr>lq_price = qc_price row, lq_currency = qc_currency row, lq_as_of = qc_as_of row,
      lq_source = qc_source row, lq_cached = True, lq_fetched_at = Some (qc_fetched_at row),
      lq_expires_at = Some (qc_expires_at row)\<rparr>"

definition staleQuote :: "'n quote_row \<Rightarrow> 'n LatestQuote" where
  "staleQuote row =
     \<lparr>lq_price = qc_price row, lq_currency = qc_currency row, lq_as_of = qc_as_of row,
      lq_source = qc_source row, lq_cached = True, lq_fetched_at = None,
      lq_expires_at = None\<rparr>"

definition historyQuote :: "'n history_row \<Rightarrow> 'n LatestQuote" where
  "historyQuote row =
     \<lparr>lq_price = ph_price row, lq_currency = ph_currency row, lq_as_of = ph_date row,
      lq_source = (if ph_source row = [] then ''HISTORY'' else ph_source row),
      lq_cached = True, lq_fetched_at = None, lq_expires_at = None\<rparr>"

text \<open>The daily history rows of a key.\<close>

definition dailyRows :: "string \<Rightarrow> string \<Rightarrow> 'n world \<Rightarrow> 'n history_row list" where
  "dailyRows ticker market w =
     filter (\<lambda>r. ph_ticker r = ticker \<and> ph_market r = market \<and> ph_interval r = ''1d'')
       (price_history w)"

text \<open>The request \<^verbatim>\<open>getLatestQuote\<close> sends to a provider of the chain.\<close>

definition quoteTask ::
  "string \<Rightarrow> string \<Rightarrow> 'n MarketDataProvider \<Rightarrow> thrown + 'n QuoteResult" where
  "quoteTask ticker market p =
     p_getQuote p \<lparr>sp_ticker = ticker, sp_market = Some (resolveExchange market)\<rparr>"

text \<open>The dates the history cache holds for a key and an interval.\<close>

definition cachedDates :: "string \<Rightarrow> string \<Rightarrow> string \<Rightarrow> 'n world \<Rightarrow> string list" where
  "cachedDates ticker market interval w =
     map ph_date
       (filter (\<lambda>r. ph_ticker r = ticker \<and> ph_market r = market \<and> ph_interval r = interval)
          (price_history w))"

text \<open>The request \<^verbatim>\<open>getHistory\<close> sends to a provider of the chain: always the whole
  range.\<close>

definition historyTask ::
  "string \<Rightarrow> string \<Rightarrow> string \<Rightarrow> string \<Rightarrow> string \<Rightarrow> 'n MarketDataProvider
     \<Rightarrow> thrown + 'n HistoryPoint list" where
  "historyTask ticker market from to interval p =
     p_getHistory p
       \<lparr>hq_ticker = ticker, hq_market = Some (resolveExchange market), hq_from = Some from,
        hq_to = Some to, hq_interval = interval\<rparr>"

text \<open>
  The row an upsert of \<^verbatim>\<open>cacheHistoryRows\<close> writes for a fetched point, and the
  points of a provider's answer that are still stored after all of it has been upserted:
  of several points with one date the last.
\<close>

definition storedPoint ::
  "string \<Rightarrow> string \<Rightarrow> string \<Rightarrow> string \<Rightarrow> int \<Rightarrow> 'n HistoryPoint \<Rightarrow> 'n history_row" where
  "storedPoint ticker market interval source now point =
     \<lparr>ph_ticker = ticker, ph_market = market, ph_interval = interval,
      ph_price = hp_price point, ph_currency = hp_currency point, ph_date = hp_date point,
      ph_source = source, ph_fetched_at = now\<rparr>"

fun latestPerDate :: "'n HistoryPoint list \<Rightarrow> 'n HistoryPoint list" where
  "latestPerDate [] = []"
| "latestPerDate (point # rest) =
     (if hp_date point \<in> set (map hp_date rest) then latestPerDate rest
      else point # latestPerDate rest)"

text \<open>A stored row is replaced by the upsert of an answer of \<open>source\<close>: it has the key,
  the interval and the source, and the answer has a point of its date.\<close>

definition replacedBy ::
  "string \<Rightarrow> string \<Rightarrow> string \<Rightarrow> string \<Rightarrow> 'n HistoryPoint list \<Rightarrow> 'n history_row \<Rightarrow> bool"
  where
  "replacedBy ticker market interval source result r \<longleftrightarrow>
     ph_ticker r = ticker \<and> ph_market r = market \<and> ph_interval r = interval
     \<and> ph_source r = source \<and> ph_date r \<in> set (map hp_date result)"

text \<open>One day in milliseconds.\<close>

definition msPerDay :: int where
  "msPerDay = 86400000"

text \<open>The UTC day a time value lies in, counted from the epoch, and the first ten
  characters of its ISO string, its calendar date.\<close>

definition utcDay :: "int \<Rightarrow> int" where
  "utcDay t = t div msPerDay"

definition isoDate :: "'n runtime \<Rightarrow> int \<Rightarrow> string" where
  "isoDate rt t = take 10 (toISOString rt t)"

text \<open>
  What ECMAScript says of the calendar date of a time value \<open>t\<close>: read as a date-only
  string it is UTC midnight of the day of \<open>t\<close>, and that midnight has the same calendar
  date.
\<close>

definition dateOnly :: "'n runtime \<Rightarrow> int \<Rightarrow> bool" where
  "dateOnly rt t \<longleftrightarrow>
     Date_parse rt (isoDate rt t) = Some (utcDay t * msPerDay)
     \<and> isoDate rt (utcDay t * msPerDay) = isoDate rt t"

text \<open>The rate of a currency is at hand: it is the base currency, or \<^verbatim>\<open>rateCache\<close> has
  an entry for it.\<close>

definition rateKnown :: "string \<Rightarrow> (string \<rightharpoonup> 'n) \<Rightarrow> string \<Rightarrow> bool" where
  "rateKnown normalizedBase rateCache currency \<longleftrightarrow>
     toUpperCase currency = normalizedBase \<or> rateCache (toUpperCase currency) \<noteq> None"

text \<open>The keys under which the registry knows a market: its code and its aliases, in
  upper case.\<close>

definition marketKeys :: "MarketDefinition \<Rightarrow> string list" where
  "marketKeys market =
     toUpperCase (code market)
       # map toUpperCase (case aliases market of None \<Rightarrow> [] | Some as \<Rightarrow> as)"

definition registryKeys :: "string list" where
  "registryKeys = concat (map marketKeys SUPPORTED_MARKETS)"


text \<open>The rate the aggregation loop takes for a holding,
  \<^verbatim>\<open>rateCache.get(marketCurrency) ?? 1\<close>.\<close>

definition rateFor :: "(string \<rightharpoonup> 'n) \<Rightarrow> ('n::one) HoldingRow \<Rightarrow> 'n" where
  "rateFor rateCache holding =
     (case rateCache (marketCurrency holding) of None \<Rightarrow> 1 | Some r \<Rightarrow> r)"

text \<open>The value of a portfolio on a date when \<open>price\<close> is the price of each holding: the
  holdings bought by then, added up in list order from 0.\<close>

definition dayTotal ::
  "(('n::{zero,plus,times}) HoldingRow \<Rightarrow> 'n) \<Rightarrow> string \<Rightarrow> 'n HoldingRow list \<Rightarrow> 'n" where
  "dayTotal price date holdings =
     foldl (\<lambda>runningTotal holding. runningTotal + price holding * quantity holding) 0
       (filter (\<lambda>holding. \<not> date < buy_date holding) holdings)"

text \<open>
  The history fetch of a holding fails entirely: the daily history cache does not cover
  the window (or \<^verbatim>\<open>forceRefresh\<close> is set), and every provider of the chain of the
  holding's market rejects the request for the window.
\<close>

definition historyFails ::
  "'n MarketDataProvider list \<Rightarrow> bool \<Rightarrow> string \<Rightarrow> string \<Rightarrow> 'n HoldingRow \<Rightarrow> 'n world \<Rightarrow> bool"
  where
  "historyFails providers forceRefresh startDate endDate holding w \<longleftrightarrow>
     (forceRefresh
      \<or> \<not> (startDate \<in> set (cachedDates (h_ticker holding) (h_market holding) ''1d'' w)
           \<and> endDate \<in> set (cachedDates (h_ticker holding) (h_market holding) ''1d'' w)
           \<and> startDate \<le> endDate))
     \<and> list_all (\<lambda>p. isl (historyTask (h_ticker holding) (h_market holding) startDate endDate
                            ''1d'' p))
         (filterProvidersForMarket providers (h_market holding))"
section \<open>A runtime for the examples\<close>

text \<open>
  The ECMAScript date functions on ISO strings of these forms: the date-only forms
  \<^verbatim>\<open>YYYY-MM-DD\<close> and, with an expanded year, \<^verbatim>\<open>+YYYYYY-MM-DD\<close> and \<^verbatim>\<open>+YYYYYY-MM\<close>
  (sign \<^verbatim>\<open>+\<close> or \<^verbatim>\<open>-\<close>), which are UTC midnight of that day or of the first day of that
  month, and the form \<^verbatim>\<open>YYYY-MM-DDTHH:mm:ssZ\<close>, with or without the milliseconds
  \<^verbatim>\<open>.sss\<close>, which is that UTC time. A day number up to 31 that the month does not have
  runs over into the next month, as in V8. Every other string is taken as an invalid date
  here. \<^verbatim>\<open>toISOString\<close> writes the years 0 to 9999 with four digits and every other
  year with a sign and six digits. Days are counted in the proleptic Gregorian calendar.
\<close>

definition digitValue :: "char \<Rightarrow> int option" where
  "digitValue c =
     map_of [(CHR ''0'', 0), (CHR ''1'', 1), (CHR ''2'', 2), (CHR ''3'', 3), (CHR ''4'', 4),
             (CHR ''5'', 5), (CHR ''6'', 6), (CHR ''7'', 7), (CHR ''8'', 8), (CHR ''9'', 9)] c"

fun decimal :: "int \<Rightarrow> string \<Rightarrow> int option" where
  "decimal acc [] = Some acc"
| "decimal acc (c # cs) =
     (case digitValue c of None \<Rightarrow> None | Some d \<Rightarrow> decimal (acc * 10 + d) cs)"

definition isLeap :: "int \<Rightarrow> bool" where
  "isLeap y \<longleftrightarrow> y mod 4 = 0 \<and> (y mod 100 \<noteq> 0 \<or> y mod 400 = 0)"

definition daysInMonth :: "int \<Rightarrow> int \<Rightarrow> int" where
  "daysInMonth y m =
     (if m = 2 then (if isLeap y then 29 else 28)
      else if m = 4 \<or> m = 6 \<or> m = 9 \<or> m = 11 then 30 else 31)"

definition daysFromCivil :: "int \<Rightarrow> int \<Rightarrow> int \<Rightarrow> int" where
  "daysFromCivil y m d =
     (let y1 = (if m \<le> 2 then y - 1 else y);
          era = y1 div 400;
          yoe = y1 - era * 400;
          doy = (153 * (if m > 2 then m - 3 else m + 9) + 2) div 5 + d - 1;
          doe = yoe * 365 + yoe div 4 - yoe div 100 + doy
      in era * 146097 + doe - 719468)"

definition civilFromDays :: "int \<Rightarrow> int \<times> int \<times> int" where
  "civilFromDays z =
     (let z1 = z + 719468;
          era = z1 div 146097;
          doe = z1 - era * 146097;
          yoe = (doe - doe div 1460 + doe div 36524 - doe div 146096) div 365;
          doy = doe - (365 * yoe + yoe div 4 - yoe div 100);
          mp = (5 * doy + 2) div 153;
          d = doy - (153 * mp + 2) div 5 + 1;
          m = (if mp < 10 then mp + 3 else mp - 9);
          y = yoe + era * 400
      in (if m \<le> 2 then y + 1 else y, m, d))"

definition composeDay :: "int option \<Rightarrow> int option \<Rightarrow> int option \<Rightarrow> int option" where
  "composeDay year month day =
     (case (year, month, day) of
        (Some y, Some m, Some d) \<Rightarrow>
          if 1 \<le> m \<and> m \<le> 12 \<and> 1 \<le> d \<and> d \<le> 31
          then Some (daysFromCivil y m 1 + (d - 1)) else None
      | _ \<Rightarrow> None)"

definition expandedYear :: "string \<Rightarrow> int option" where
  "expandedYear s =
     (case decimal 0 (drop 1 s) of
        None \<Rightarrow> None
      | Some y \<Rightarrow>
          if hd s = CHR ''+'' then Some y
          else if hd s = CHR ''-'' \<and> y \<noteq> 0 then Some (- y)
          else None)"

definition parseDay :: "string \<Rightarrow> int option" where
  "parseDay s =
     (if length s = 10 \<and> s ! 4 = CHR ''-'' \<and> s ! 7 = CHR ''-'' then
        composeDay (decimal 0 (take 4 s)) (decimal 0 (take 2 (drop 5 s)))
          (decimal 0 (drop 8 s))
      else if length s = 13 \<and> s ! 7 = CHR ''-'' \<and> s ! 10 = CHR ''-'' then
        composeDay (expandedYear (take 7 s)) (decimal 0 (take 2 (drop 8 s)))
          (decimal 0 (drop 11 s))
      else if length s = 10 \<and> s ! 7 = CHR ''-'' then
        composeDay (expandedYear (take 7 s)) (decimal 0 (drop 8 s)) (Some 1)
      else None)"

definition parseTime :: "string \<Rightarrow> int option" where
  "parseTime s =
     (if length s = 8 \<and> s ! 2 = CHR '':'' \<and> s ! 5 = CHR '':'' then
        (case (decimal 0 (take 2 s), decimal 0 (take 2 (drop 3 s)), decimal 0 (drop 6 s)) of
           (Some h, Some m, Some sec) \<Rightarrow>
             if h \<le> 23 \<and> m \<le> 59 \<and> sec \<le> 59
             then Some ((h * 3600 + m * 60 + sec) * 1000) else None
         | _ \<Rightarrow> None)
      else None)"

definition parseIsoDate :: "string \<Rightarrow> int option" where
  "parseIsoDate s =
     (if length s = 10 \<or> length s = 13 then map_option (\<lambda>day. day * 86400000) (parseDay s)
      else if length s = 20 \<and> s ! 10 = CHR ''T'' \<and> s ! 19 = CHR ''Z'' then
        (case (parseDay (take 10 s), parseTime (take 8 (drop 11 s))) of
           (Some day, Some ms) \<Rightarrow> Some (day * 86400000 + ms)
         | _ \<Rightarrow> None)
      else if length s = 24 \<and> s ! 10 = CHR ''T'' \<and> s ! 19 = CHR ''.'' \<and> s ! 23 = CHR ''Z'' then
        (case (parseDay (take 10 s), parseTime (take 8 (drop 11 s)),
               decimal 0 (take 3 (drop 20 s))) of
           (Some day, Some ms, Some frac) \<Rightarrow> Some (day * 86400000 + ms + frac)
         | _ \<Rightarrow> None)
      else None)"

definition digitChar :: "int \<Rightarrow> char" where
  "digitChar v = ''0123456789'' ! nat (v mod 10)"

definition pad2 :: "int \<Rightarrow> string" where
  "pad2 v = [digitChar (v div 10), digitChar v]"

definition pad3 :: "int \<Rightarrow> string" where
  "pad3 v = [digitChar (v div 100), digitChar (v div 10), digitChar v]"

definition pad4 :: "int \<Rightarrow> string" where
  "pad4 v = [digitChar (v div 1000), digitChar (v div 100), digitChar (v div 10), digitChar v]"

definition pad6 :: "int \<Rightarrow> string" where
  "pad6 v = [digitChar (v div 100000), digitChar (v div 10000)] @ pad4 v"

definition isoYear :: "int \<Rightarrow> string" where
  "isoYear y =
     (if 0 \<le> y \<and> y \<le> 9999 then pad4 y
      else if y < 0 then ''-'' @ pad6 (- y)
      else ''+'' @ pad6 y)"

definition formatIso :: "int \<Rightarrow> string" where
  "formatIso t =
     (let ms = t mod 86400000 in
      case civilFromDays (t div 86400000) of
        (y, m, d) \<Rightarrow>
          isoYear y @ ''-'' @ pad2 m @ ''-'' @ pad2 d @ ''T'' @ pad2 (ms div 3600000) @ '':''
          @ pad2 (ms div 60000 mod 60) @ '':'' @ pad2 (ms div 1000 mod 60) @ ''.''
          @ pad3 (ms mod 1000) @ ''Z'')"

text \<open>The example runtime; the Frankfurter service is unreachable in it.\<close>

definition isoRuntime :: "int runtime" where
  "isoRuntime =
     \<lparr>Date_parse = parseIsoDate, toISOString = formatIso,
      frankfurterApi = (\<lambda>_. Inl (ProviderError ''FX rate fetch failed''))\<rparr>"

section \<open>Example values\<close>

text \<open>
  A task for the fetch loop: provider 1 rejects with an \<^verbatim>\<open>Error\<close>, provider 2
  resolves, provider 3 rejects with a plain string.
\<close>

fun demoTask :: "nat \<Rightarrow> thrown + nat" where
  "demoTask n =
     (if n = 1 then Inl (OtherError ''socket hang up'')
      else if n = 2 then Inr 42
      else Inl (NonError ''timeout''))"

text \<open>The defaults of the three environment variables.\<close>

definition defaultConfig :: config where
  "defaultConfig = \<lparr>QUOTE_TTL_SECONDS = 60, VALIDATION_TTL_DAYS = 7, FX_TTL_SECONDS = 3600\<rparr>"

text \<open>
  The provider of the repository's test suite (\<^verbatim>\<open>createMockProvider\<close>): no symbol
  match, a quote of 100 USD as of 2024-01-02, two history rows. It has no
  \<^verbatim>\<open>getExchangeRate\<close>, so that call is a \<^verbatim>\<open>TypeError\<close>.
\<close>

definition mockProvider :: "int MarketDataProvider" where
  "mockProvider =
     \<lparr>p_name = ''MOCK'',
      p_searchSymbol = (\<lambda>_. Inr None),
      p_getQuote = (\<lambda>_. Inr \<lparr>q_price = 100, q_currency = Some ''USD'', q_asOf = ''2024-01-02''\<rparr>),
      p_getHistory = (\<lambda>_. Inr
        [\<lparr>hp_date = ''2024-01-01'', hp_price = 90, hp_currency = Some ''USD''\<rparr>,
         \<lparr>hp_date = ''2024-01-02'', hp_price = 100, hp_currency = Some ''USD''\<rparr>]),
      p_getExchangeRate = (\<lambda>_. Inl (OtherError ''p.getExchangeRate is not a function''))\<rparr>"

text \<open>A provider that is down: every operation rejects with a provider error.\<close>

definition downProvider :: "string \<Rightarrow> int MarketDataProvider" where
  "downProvider name =
     \<lparr>p_name = name,
      p_searchSymbol = (\<lambda>_. Inl (ProviderError ''Symbol search failed'')),
      p_getQuote = (\<lambda>_. Inl (ProviderError ''Quote fetch failed'')),
      p_getHistory = (\<lambda>_. Inl (ProviderError ''History fetch failed'')),
      p_getExchangeRate = (\<lambda>_. Inl (ProviderError ''FX rate fetch failed''))\<rparr>"

text \<open>An empty store; the clock reads 2024-01-02 00:00:00 UTC.\<close>

definition emptyWorld :: "int world" where
  "emptyWorld =
     \<lparr>clock = 1704153600, market_symbols = [], quote_cache = [], price_history = [],
      fx_rates = [], holdings_table = [], outbound = []\<rparr>"

text \<open>A store whose symbol cache knows Apple under the name the first provider gave.\<close>

definition appleWorld :: "int world" where
  "appleWorld =
     emptyWorld\<lparr>market_symbols :=
       [\<lparr>ms_ticker = ''AAPL'', ms_market = ''NASDAQ'', ms_name = Some ''Apple Inc'',
         ms_currency = Some ''USD'', ms_exchange = Some ''NASDAQ'',
         ms_provider = ''TWELVE_DATA'', ms_last_verified_at = 1704000000\<rparr>]\<rparr>"

text \<open>
  A cached quote for TSLA, fetched 100 seconds before the clock of \<open>emptyWorld\<close> and
  valid for an hour, and a store that holds it.
\<close>

definition tslaQuote :: "int quote_row" where
  "tslaQuote =
     \<lparr>qc_ticker = ''TSLA'', qc_market = ''NASDAQ'', qc_price = 100, qc_currency = Some ''USD'',
      qc_as_of = ''2024-01-02'', qc_source = ''MOCK'', qc_fetched_at = 1704153500,
      qc_expires_at = 1704157100\<rparr>"

definition quoteWorld :: "int world" where
  "quoteWorld = emptyWorld\<lparr>quote_cache := [tslaQuote]\<rparr>"

text \<open>
  Two more quotes for TSLA, both as of 2024-01-03 and both fetched before \<open>tslaQuote\<close>,
  the one from STOOQ first, then the one from TWELVE_DATA; and a store that holds the
  three quotes a day later, when all of them have expired.
\<close>

definition stooqQuote :: "int quote_row" where
  "stooqQuote =
     \<lparr>qc_ticker = ''TSLA'', qc_market = ''NASDAQ'', qc_price = 104, qc_currency = Some ''USD'',
      qc_as_of = ''2024-01-03'', qc_source = ''STOOQ'', qc_fetched_at = 1704150000,
      qc_expires_at = 1704150060\<rparr>"

definition twelveQuote :: "int quote_row" where
  "twelveQuote =
     \<lparr>qc_ticker = ''TSLA'', qc_market = ''NASDAQ'', qc_price = 105, qc_currency = Some ''USD'',
      qc_as_of = ''2024-01-03'', qc_source = ''TWELVE_DATA'', qc_fetched_at = 1704152000,
      qc_expires_at = 1704152060\<rparr>"

definition staleWorld :: "int world" where
  "staleWorld =
     emptyWorld\<lparr>clock := 1704240000, quote_cache := [stooqQuote, twelveQuote, tslaQuote]\<rparr>"

text \<open>A store with two daily history rows for TSLA, the older one stored last, and no
  cached quote.\<close>

definition tslaHistory :: "int history_row" where
  "tslaHistory =
     \<lparr>ph_ticker = ''TSLA'', ph_market = ''NASDAQ'', ph_interval = ''1d'', ph_price = 90,
      ph_currency = Some ''USD'', ph_date = ''2024-01-01'', ph_source = [],
      ph_fetched_at = 1704100000\<rparr>"

definition olderHistory :: "int history_row" where
  "olderHistory =
     \<lparr>ph_ticker = ''TSLA'', ph_market = ''NASDAQ'', ph_interval = ''1d'', ph_price = 87,
      ph_currency = Some ''USD'', ph_date = ''2023-12-29'', ph_source = ''STOOQ'',
      ph_fetched_at = 1704100500\<rparr>"

definition historyWorld :: "int world" where
  "historyWorld = emptyWorld\<lparr>price_history := [tslaHistory, olderHistory]\<rparr>"

text \<open>Two providers that are down.\<close>

definition downChain :: "int MarketDataProvider list" where
  "downChain = [downProvider ''TWELVE_DATA'', downProvider ''STOOQ'']"

text \<open>
  A store with three daily rows for TSLA cached from STOOQ, on 2024-01-01, 2024-01-05 and
  2024-01-10, and a provider whose history answer has two rows only, on 2024-01-12 and
  2024-01-20.
\<close>

definition stooqRow :: "string \<Rightarrow> int \<Rightarrow> int history_row" where
  "stooqRow date price =
     \<lparr>ph_ticker = ''TSLA'', ph_market = ''NASDAQ'', ph_interval = ''1d'', ph_price = price,
      ph_currency = Some ''USD'', ph_date = date, ph_source = ''STOOQ'',
      ph_fetched_at = 1704100000\<rparr>"

definition partialWorld :: "int world" where
  "partialWorld =
     emptyWorld\<lparr>price_history :=
       [stooqRow ''2024-01-01'' 80, stooqRow ''2024-01-05'' 85, stooqRow ''2024-01-10'' 88]\<rparr>"

definition sparseProvider :: "int MarketDataProvider" where
  "sparseProvider =
     \<lparr>p_name = ''TWELVE_DATA'',
      p_searchSymbol = (\<lambda>_. Inr None),
      p_getQuote = (\<lambda>_. Inl (ProviderError ''Quote fetch failed'')),
      p_getHistory = (\<lambda>_. Inr
        [\<lparr>hp_date = ''2024-01-12'', hp_price = 95, hp_currency = Some ''USD''\<rparr>,
         \<lparr>hp_date = ''2024-01-20'', hp_price = 99, hp_currency = Some ''USD''\<rparr>]),
      p_getExchangeRate = (\<lambda>_. Inl (ProviderError ''FX rate fetch failed''))\<rparr>"

text \<open>
  The portfolio of the repository's performance test: two TSLA shares bought at 100 on
  2024-01-01. And a portfolio with one share of a Warsaw stock, which is priced in PLN.
\<close>

definition tslaHolding :: "int HoldingRow" where
  "tslaHolding =
     \<lparr>h_id = 1, h_portfolio_id = 1, h_ticker = ''TSLA'', h_market = ''NASDAQ'',
      buy_date = ''2024-01-01'', buy_price = 100, quantity = 2, created_at = 1704100000\<rparr>"

definition tslaPortfolio :: "int world" where
  "tslaPortfolio = emptyWorld\<lparr>holdings_table := [tslaHolding]\<rparr>"

definition warsawHolding :: "int HoldingRow" where
  "warsawHolding =
     \<lparr>h_id = 1, h_portfolio_id = 1, h_ticker = ''CDR'', h_market = ''XWAR'',
      buy_date = ''2024-01-01'', buy_price = 120, quantity = 1, created_at = 1704100000\<rparr>"

definition warsawPortfolio :: "int world" where
  "warsawPortfolio = emptyWorld\<lparr>holdings_table := [warsawHolding]\<rparr>"

text \<open>The series of the repository's performance test, and the flat series of the same
  portfolio over three days when no history can be fetched.\<close>

definition testSeries :: "int PerformanceResult" where
  "testSeries =
     \<lparr>pr_series = [\<lparr>pp_date = ''2024-01-01'', pp_value = 180\<rparr>,
                   \<lparr>pp_date = ''2024-01-02'', pp_value = 200\<rparr>],
      pr_from = Some ''2024-01-01'', pr_to = Some ''2024-01-02''\<rparr>"

definition flatSeries :: "int PerformanceResult" where
  "flatSeries =
     \<lparr>pr_series = [\<lparr>pp_date = ''2024-01-01'', pp_value = 200\<rparr>,
                   \<lparr>pp_date = ''2024-01-02'', pp_value = 200\<rparr>,
                   \<lparr>pp_date = ''2024-01-03'', pp_value = 200\<rparr>],
      pr_from = Some ''2024-01-01'', pr_to = Some ''2024-01-03''\<rparr>"


text \<open>
  A portfolio of two holdings: the TSLA shares and one share of a Warsaw stock bought at
  25 PLN, added a little later. The store has an unexpired rate of 2 USD for 1 PLN. The
  provider answers history requests for TSLA only.
\<close>

definition cdrHolding :: "int HoldingRow" where
  "cdrHolding =
     \<lparr>h_id = 2, h_portfolio_id = 1, h_ticker = ''CDR'', h_market = ''XWAR'',
      buy_date = ''2024-01-01'', buy_price = 25, quantity = 1, created_at = 1704100100\<rparr>"

definition plnRate :: "int fx_row" where
  "plnRate =
     \<lparr>fx_base = ''PLN'', fx_quote = ''USD'', fx_rate = 2, fx_source = ''FRANKFURTER'',
      fx_fetched_at = 1704150000, fx_expires_at = 1704157200\<rparr>"

definition mixedPortfolio :: "int world" where
  "mixedPortfolio =
     emptyWorld\<lparr>holdings_table := [tslaHolding, cdrHolding], fx_rates := [plnRate]\<rparr>"

definition tslaOnlyProvider :: "int MarketDataProvider" where
  "tslaOnlyProvider =
     mockProvider\<lparr>p_getHistory :=
       (\<lambda>request. if hq_ticker request = ''TSLA'' then p_getHistory mockProvider request
                  else Inl (ProviderError ''History fetch failed''))\<rparr>"

definition mixedSeries :: "int PerformanceResult" where
  "mixedSeries =
     \<lparr>pr_series = [\<lparr>pp_date = ''2024-01-01'', pp_value = 230\<rparr>,
                   \<lparr>pp_date = ''2024-01-02'', pp_value = 250\<rparr>],
      pr_from = Some ''2024-01-01'', pr_to = Some ''2024-01-02''\<rparr>"

text \<open>
  A symbol cache after two validations of one symbol within one second: STOOQ knew no
  name for it, TWELVE_DATA did.
\<close>

definition sameSecondWorld :: "int world" where
  "sameSecondWorld =
     cacheValidation ''ALE'' ''XWAR'' (Some ''Allegro'') (Some ''PLN'') (Some ''XWAR'')
       ''TWELVE_DATA''
       (cacheValidation ''ALE'' ''XWAR'' None (Some ''PLN'') None ''STOOQ'' emptyWorld)"
section \<open>Facts about the registry and about strings\<close>

lemma marketIndex_supported:
  "marketIndex k = Some d \<Longrightarrow> d \<in> set SUPPORTED_MARKETS"
  unfolding marketIndex_def
  by (simp add: SUPPORTED_MARKETS_def indexMarket_def toUpperCase_def upperChar_def
      split: if_splits)










lemma supported_currency:
  "d \<in> set SUPPORTED_MARKETS \<Longrightarrow> m_currency d \<in> {''USD'', ''GBP'', ''PLN'', ''EUR''}"
  unfolding SUPPORTED_MARKETS_def by (simp, elim disjE) simp_all

lemma marketCurrency_registry:
  "marketCurrency holding \<in> {''USD'', ''GBP'', ''PLN'', ''EUR''}"
proof (cases "getMarketDefinition (h_market holding)")
  case None
  then show ?thesis by (simp add: marketCurrency_def orElse_def)
next
  case (Some d)
  then have "d \<in> set SUPPORTED_MARKETS"
    by (simp add: getMarketDefinition_def marketIndex_supported)
  from supported_currency [OF this] Some show ?thesis
    by (auto simp: marketCurrency_def orElse_def)
qed

lemma marketCurrency_upper: "toUpperCase (marketCurrency holding) = marketCurrency holding"
  using marketCurrency_registry [of holding]
  by (auto simp: toUpperCase_def upperChar_def)

lemma dom_fold_aliases:
  "dom (fold (\<lambda>alias i. i(f alias \<mapsto> m)) as idx) = dom idx \<union> f ` set as"
  by (induction as arbitrary: idx) auto

lemma dom_indexMarket: "dom (indexMarket market idx) = dom idx \<union> set (marketKeys market)"
  by (auto simp: indexMarket_def marketKeys_def dom_fold_aliases)

lemma dom_fold_indexMarket:
  "dom (fold indexMarket ms idx) = dom idx \<union> set (concat (map marketKeys ms))"
  by (induction ms arbitrary: idx) (auto simp: dom_indexMarket)

lemma getMarketDefinition_None:
  "getMarketDefinition market = None \<longleftrightarrow> toUpperCase market \<notin> set registryKeys"
proof -
  have "dom marketIndex = set registryKeys"
    by (simp add: marketIndex_def registryKeys_def dom_fold_indexMarket)
  then have "marketIndex (toUpperCase market) = None \<longleftrightarrow> toUpperCase market \<notin> set registryKeys"
    by (metis domIff)
  then show ?thesis by (simp add: getMarketDefinition_def)
qed

section \<open>Facts about row selection\<close>

lemma firstMax_None: "firstMax key xs = None \<longleftrightarrow> xs = []"
  by (induction xs) (auto split: option.splits)

lemma firstMax_mem: "firstMax key xs = Some r \<Longrightarrow> r \<in> set xs"
  by (induction xs arbitrary: r) (auto split: option.splits if_splits)

lemma firstMax_greatest: "firstMax key xs = Some r \<Longrightarrow> x \<in> set xs \<Longrightarrow> key x \<le> key r"
  by (induction xs arbitrary: r) (auto split: option.splits if_splits simp: firstMax_None)

lemma firstMax_snoc_newest:
  "\<forall>x \<in> set xs. key x < key n \<Longrightarrow> firstMax key (xs @ [n]) = Some n"
  by (induction xs) (auto split: option.splits)

lemma lastMax_None: "lastMax key xs = None \<longleftrightarrow> xs = []"
  by (induction xs) (auto split: option.splits)

lemma lastMax_mem: "lastMax key xs = Some r \<Longrightarrow> r \<in> set xs"
  by (induction xs arbitrary: r) (auto split: option.splits if_splits)

lemma lastMax_greatest: "lastMax key xs = Some r \<Longrightarrow> x \<in> set xs \<Longrightarrow> key x \<le> key r"
  by (induction xs arbitrary: r) (auto split: option.splits if_splits simp: lastMax_None)
section \<open>The call log leaves the tables alone\<close>

lemma logCalls_tables:
  "quote_cache (logCalls operation invoked w) = quote_cache w"
  "price_history (logCalls operation invoked w) = price_history w"
  "fx_rates (logCalls operation invoked w) = fx_rates w"
  "market_symbols (logCalls operation invoked w) = market_symbols w"
  "holdings_table (logCalls operation invoked w) = holdings_table w"
  "clock (logCalls operation invoked w) = clock w"
  by (simp_all add: logCalls_def)

lemma getStaleQuote_logCalls:
  "getStaleQuote ticker market (logCalls operation invoked w) = getStaleQuote ticker market w"
  by (simp add: getStaleQuote_def logCalls_tables)

lemma getLatestHistoryPrice_logCalls:
  "getLatestHistoryPrice ticker market (logCalls operation invoked w)
     = getLatestHistoryPrice ticker market w"
  by (simp add: getLatestHistoryPrice_def logCalls_tables)

section \<open>Properties of the fetch loop\<close>

lemma fetchLoop_success:
  assumes "\<forall>q \<in> set pre. isl (task q)" and "task p = Inr r"
  shows "fetchLoop (pre @ p # post) task le = (Inr (p, r), pre @ [p])"
  using assms
proof (induction pre arbitrary: le)
  case Nil
  then show ?case by simp
next
  case (Cons a pre)
  then obtain e where "task a = Inl e" by (cases "task a") auto
  with Cons show ?case by simp
qed

lemma fetchLoop_all_fail:
  assumes "\<forall>q \<in> set ps. isl (task q)"
  shows "fetchLoop ps task le =
           (Inl (exhausted (case lastRecorded ps task of Some e \<Rightarrow> Some e | None \<Rightarrow> le)), ps)"
  using assms
proof (induction ps arbitrary: le)
  case Nil
  then show ?case
    by (simp add: exhausted_def lastRecorded_def split: option.splits)
next
  case (Cons a ps)
  then obtain e where a: "task a = Inl e" by (cases "task a") auto
  have ih: "fetchLoop ps task (Some e) =
      (Inl (exhausted (case lastRecorded ps task of Some e' \<Rightarrow> Some e' | None \<Rightarrow> Some e)), ps)"
    using Cons by simp
  show ?case
  proof (cases ps rule: rev_cases)
    case Nil
    then show ?thesis using a by (simp add: lastRecorded_def exhausted_def)
  next
    case (snoc ys y)
    then have "isl (task y)" using Cons.prems by simp
    then obtain e' where "task y = Inl e'" by (cases "task y") auto
    then show ?thesis using a ih snoc by (simp add: lastRecorded_def)
  qed
qed

section \<open>Facts about the history cache\<close>

lemma sorted_key_hd_least: "sorted (map f xs) \<Longrightarrow> x \<in> set xs \<Longrightarrow> f (hd xs) \<le> f x"
  by (cases xs) auto

lemma sorted_key_last_greatest: "sorted (map f xs) \<Longrightarrow> x \<in> set xs \<Longrightarrow> f x \<le> f (last xs)"
  by (cases xs rule: rev_cases) (auto simp: sorted_append)

lemma set_getHistoryRows:
  "set (getHistoryRows ticker market interval from to w) =
     historyPoint ` {r \<in> set (price_history w).
        ph_ticker r = ticker \<and> ph_market r = market \<and> ph_interval r = interval
        \<and> from \<le> ph_date r \<and> ph_date r \<le> to}"
  by (auto simp: getHistoryRows_def)

lemma dates_getHistoryRows:
  "hp_date ` set (getHistoryRows ticker market interval from to w) =
     {d \<in> set (cachedDates ticker market interval w). from \<le> d \<and> d \<le> to}"
  by (auto simp: set_getHistoryRows cachedDates_def historyPoint_def image_iff)

lemma sorted_getHistoryRows:
  "sorted (map hp_date (getHistoryRows ticker market interval from to w))"
  by (simp add: getHistoryRows_def)

lemma getCachedHistory_Some:
  "getCachedHistory ticker market interval from to w = Some rows \<longleftrightarrow>
     rows = getHistoryRows ticker market interval from to w \<and> rows \<noteq> []
     \<and> hp_date (hd rows) \<le> from \<and> to \<le> hp_date (last rows)"
  by (auto simp: getCachedHistory_def Let_def)

lemma getCachedHistory_covered:
  "getCachedHistory ticker market interval from to w \<noteq> None \<longleftrightarrow>
     from \<in> set (cachedDates ticker market interval w)
     \<and> to \<in> set (cachedDates ticker market interval w) \<and> from \<le> to"
proof -
  let ?rows = "getHistoryRows ticker market interval from to w"
  let ?dates = "cachedDates ticker market interval w"
  have range: "\<And>r. r \<in> set ?rows \<Longrightarrow> hp_date r \<in> set ?dates \<and> from \<le> hp_date r \<and> hp_date r \<le> to"
    using dates_getHistoryRows [of ticker market interval "from" to w] by blast
  have inside: "\<And>d. d \<in> set ?dates \<Longrightarrow> from \<le> d \<Longrightarrow> d \<le> to \<Longrightarrow> \<exists>r \<in> set ?rows. hp_date r = d"
  proof -
    fix d assume "d \<in> set ?dates" "from \<le> d" "d \<le> to"
    then have "d \<in> hp_date ` set ?rows" unfolding dates_getHistoryRows by simp
    then show "\<exists>r \<in> set ?rows. hp_date r = d" by auto
  qed
  show ?thesis
  proof
    assume "getCachedHistory ticker market interval from to w \<noteq> None"
    then have ne: "?rows \<noteq> []" and lo: "hp_date (hd ?rows) \<le> from"
      and hi: "to \<le> hp_date (last ?rows)"
      by (auto simp: getCachedHistory_def Let_def split: if_splits)
    from ne have "hd ?rows \<in> set ?rows" and "last ?rows \<in> set ?rows" by simp_all
    with range have h: "hp_date (hd ?rows) \<in> set ?dates" "from \<le> hp_date (hd ?rows)"
      and hto: "hp_date (hd ?rows) \<le> to"
      and l: "hp_date (last ?rows) \<in> set ?dates" "hp_date (last ?rows) \<le> to"
      by blast+
    from h lo have f: "hp_date (hd ?rows) = from" by simp
    from l hi have t: "hp_date (last ?rows) = to" by simp
    from f hto have "from \<le> to" by simp
    with f t h(1) l(1) show "from \<in> set ?dates \<and> to \<in> set ?dates \<and> from \<le> to"
      by simp
  next
    assume a: "from \<in> set ?dates \<and> to \<in> set ?dates \<and> from \<le> to"
    then obtain r1 r2 where r1: "r1 \<in> set ?rows" "hp_date r1 = from"
      and r2: "r2 \<in> set ?rows" "hp_date r2 = to"
      using inside [of "from"] inside [of to] by auto
    from r1 have ne: "?rows \<noteq> []" by auto
    from sorted_key_hd_least [OF sorted_getHistoryRows r1(1)] r1(2)
    have "hp_date (hd ?rows) \<le> from" by simp
    moreover from sorted_key_last_greatest [OF sorted_getHistoryRows r2(1)] r2(2)
    have "to \<le> hp_date (last ?rows)" by simp
    ultimately show "getCachedHistory ticker market interval from to w \<noteq> None"
      using ne by (simp add: getCachedHistory_def Let_def)
  qed
qed

lemma fetchLoop_invokes_first:
  "fetchLoop (p # ps) task le = (outcome, invoked) \<Longrightarrow> invoked \<noteq> []"
  by (cases "task p") (auto split: prod.splits)

section \<open>Facts about the upsert of history rows\<close>

lemma fold_insertHistoryRow:
  "fold (insertHistoryRow ticker market interval source now) result tbl
     = filter (\<lambda>r. \<not> replacedBy ticker market interval source result r) tbl
       @ map (storedPoint ticker market interval source now) (latestPerDate result)"
proof (induction result arbitrary: tbl)
  case Nil
  then show ?case by (simp add: replacedBy_def)
next
  case (Cons point rest)
  let ?kept = "filter (\<lambda>r. \<not> (ph_ticker r = ticker \<and> ph_market r = market \<and> ph_source r = source
                                \<and> ph_interval r = interval \<and> ph_date r = hp_date point)) tbl"
  let ?new = "storedPoint ticker market interval source now point"
  have step: "insertHistoryRow ticker market interval source now point tbl = ?kept @ [?new]"
    by (simp add: insertHistoryRow_def storedPoint_def)
  have kept: "filter (\<lambda>r. \<not> replacedBy ticker market interval source rest r) ?kept
      = filter (\<lambda>r. \<not> replacedBy ticker market interval source (point # rest) r) tbl"
    by (auto simp: replacedBy_def intro: filter_cong)
  have new: "filter (\<lambda>r. \<not> replacedBy ticker market interval source rest r) [?new]
      = (if hp_date point \<in> set (map hp_date rest) then [] else [?new])"
    by (simp add: replacedBy_def storedPoint_def)
  have "fold (insertHistoryRow ticker market interval source now) (point # rest) tbl
      = fold (insertHistoryRow ticker market interval source now) rest (?kept @ [?new])"
    by (simp add: step)
  also have "\<dots> = filter (\<lambda>r. \<not> replacedBy ticker market interval source rest r) (?kept @ [?new])
      @ map (storedPoint ticker market interval source now) (latestPerDate rest)"
    by (rule Cons.IH)
  also have "\<dots> = filter (\<lambda>r. \<not> replacedBy ticker market interval source (point # rest) r) tbl
      @ (if hp_date point \<in> set (map hp_date rest) then [] else [?new])
      @ map (storedPoint ticker market interval source now) (latestPerDate rest)"
    by (simp only: filter_append kept new append_assoc)
  also have "\<dots> = filter (\<lambda>r. \<not> replacedBy ticker market interval source (point # rest) r) tbl
      @ map (storedPoint ticker market interval source now) (latestPerDate (point # rest))"
    by simp
  finally show ?case .
qed

lemma cacheHistoryRows_table:
  "price_history (cacheHistoryRows ticker market interval result source w)
     = filter (\<lambda>r. \<not> replacedBy ticker market interval source result r) (price_history w)
       @ map (storedPoint ticker market interval source (clock w)) (latestPerDate result)"
  by (simp add: cacheHistoryRows_def fold_insertHistoryRow)

lemma cacheHistoryRows_others:
  "outbound (cacheHistoryRows ticker market interval result source w) = outbound w"
  "clock (cacheHistoryRows ticker market interval result source w) = clock w"
  "quote_cache (cacheHistoryRows ticker market interval result source w) = quote_cache w"
  "fx_rates (cacheHistoryRows ticker market interval result source w) = fx_rates w"
  "market_symbols (cacheHistoryRows ticker market interval result source w) = market_symbols w"
  "holdings_table (cacheHistoryRows ticker market interval result source w) = holdings_table w"
  by (simp_all add: cacheHistoryRows_def)

lemma fetchHistory_outcome:
  assumes "fetchWithProviders (filterProvidersForMarket providers market)
             (historyTask ticker market from to interval) = (outcome, invoked)"
  shows "fetchHistory ticker market from to interval providers w =
           (case outcome of
              Inl error \<Rightarrow> (Inl error, logCalls GetHistory invoked w)
            | Inr (provider, result) \<Rightarrow>
                (Inr (case getCachedHistory ticker market interval from to
                             (cacheHistoryRows ticker market interval result (p_name provider)
                                (logCalls GetHistory invoked w)) of
                        Some stored \<Rightarrow> stored
                      | None \<Rightarrow> result, p_name provider),
                 cacheHistoryRows ticker market interval result (p_name provider)
                   (logCalls GetHistory invoked w)))"
proof -
  from assms have "fetchWithProviders (filterProvidersForMarket providers market)
      (\<lambda>p. p_getHistory p
             \<lparr>hq_ticker = ticker, hq_market = Some (resolveExchange market),
              hq_from = Some from, hq_to = Some to, hq_interval = interval\<rparr>)
      = (outcome, invoked)"
    by (simp add: historyTask_def [abs_def])
  then show ?thesis
    by (simp add: fetchHistory_def Let_def split: sum.splits prod.splits)
qed

lemma getCachedHistory_if_covered:
  "(case getCachedHistory ticker market interval from to w of
      Some stored \<Rightarrow> stored
    | None \<Rightarrow> result)
   = (if from \<in> set (cachedDates ticker market interval w)
         \<and> to \<in> set (cachedDates ticker market interval w) \<and> from \<le> to
      then getHistoryRows ticker market interval from to w else result)"
proof (cases "getCachedHistory ticker market interval from to w")
  case None
  with getCachedHistory_covered [of ticker market interval "from" to w]
  have "\<not> (from \<in> set (cachedDates ticker market interval w)
         \<and> to \<in> set (cachedDates ticker market interval w) \<and> from \<le> to)"
    by simp
  then show ?thesis by (simp only: None option.case if_not_P if_False)
next
  case (Some rows)
  with getCachedHistory_covered [of ticker market interval "from" to w]
  have "from \<in> set (cachedDates ticker market interval w)
         \<and> to \<in> set (cachedDates ticker market interval w) \<and> from \<le> to"
    by simp
  moreover from Some getCachedHistory_Some [of ticker market interval "from" to w rows]
  have "rows = getHistoryRows ticker market interval from to w" by simp
  ultimately show ?thesis by (simp only: Some option.case if_P if_True)
qed

section \<open>Facts about the performance series\<close>



lemma set_distinctInOrder: "set (distinctInOrder xs) = set xs"
  by (simp add: distinctInOrder_def)

lemma resolveRate_known:
  assumes "rateKnown normalizedBase rateCache currency"
  shows "\<exists>rate. resolveRate cfg rt providers normalizedBase currency rateCache w
           = (Inr rate, rateCache, w)"
  using assms by (auto simp: resolveRate_def rateKnown_def Let_def)

lemma resolveRate_grows:
  assumes "resolveRate cfg rt providers normalizedBase currency rateCache w = (res, rateCache', w')"
  shows "(\<forall>c. rateKnown normalizedBase rateCache c \<longrightarrow> rateKnown normalizedBase rateCache' c)
         \<and> (isl res \<or> rateKnown normalizedBase rateCache' currency)"
  using assms
  by (auto simp: resolveRate_def rateKnown_def Let_def split: if_splits option.splits prod.splits sum.splits)

lemma resolveRates_known:
  assumes "resolveRates cfg rt providers normalizedBase currencies rateCache w = (None, rateCache', w')"
  shows "(\<forall>c. rateKnown normalizedBase rateCache c \<longrightarrow> rateKnown normalizedBase rateCache' c)
         \<and> (\<forall>c \<in> set currencies. rateKnown normalizedBase rateCache' c)"
  using assms
proof (induction currencies arbitrary: rateCache w)
  case Nil
  then show ?case by simp
next
  case (Cons c cs)
  obtain res rc1 w1 where step: "resolveRate cfg rt providers normalizedBase c rateCache w = (res, rc1, w1)"
    by (cases "resolveRate cfg rt providers normalizedBase c rateCache w") auto
  from Cons.prems step obtain rate where res: "res = Inr rate"
    by (cases res) (auto split: prod.splits)
  with Cons.prems step have rest: "resolveRates cfg rt providers normalizedBase cs rc1 w1 = (None, rateCache', w')"
    by simp
  from resolveRate_grows [OF step] res
  have g1: "\<forall>c'. rateKnown normalizedBase rateCache c' \<longrightarrow> rateKnown normalizedBase rc1 c'"
    and k: "rateKnown normalizedBase rc1 c"
    by auto
  from Cons.IH [OF rest]
  have g2: "\<forall>c'. rateKnown normalizedBase rc1 c' \<longrightarrow> rateKnown normalizedBase rateCache' c'"
    and ks: "\<forall>c' \<in> set cs. rateKnown normalizedBase rateCache' c'"
    by auto
  from g1 g2 k ks show ?case by auto
qed

lemma holdingPrices_known:
  assumes "rateKnown normalizedBase rateCache (marketCurrency holding)"
  shows "\<exists>priceByDate w'.
           holdingPrices cfg rt providers forceRefresh startDate endDate normalizedBase started
             holding rateCache w = (Inr priceByDate, rateCache, w')"
proof -
  from resolveRate_known [OF assms] obtain rate where
    "resolveRate cfg rt providers normalizedBase (marketCurrency holding) rateCache w
       = (Inr rate, rateCache, w)" by blast
  then show ?thesis
    by (auto simp: holdingPrices_def Let_def split: prod.splits sum.splits)
qed

lemma foldl_earliest:
  "foldl (\<lambda>m h. if f h < m then f h else m) (a::'k::linorder) hs \<le> a
   \<and> (\<forall>h \<in> set hs. foldl (\<lambda>m h. if f h < m then f h else m) a hs \<le> f h)
   \<and> (foldl (\<lambda>m h. if f h < m then f h else m) a hs = a
        \<or> foldl (\<lambda>m h. if f h < m then f h else m) a hs \<in> f ` set hs)"
proof (induction hs arbitrary: a)
  case Nil
  then show ?case by simp
next
  case (Cons h hs)
  let ?a = "if f h < a then f h else a"
  from Cons [of ?a] show ?case by (auto split: if_splits)
qed

lemma earliestBuy_least:
  "h \<in> set (first # others) \<Longrightarrow> earliestBuy first (first # others) \<le> buy_date h"
  using foldl_earliest [of buy_date "buy_date first" "first # others"]
  unfolding earliestBuy_def by blast

lemma earliestBuy_mem:
  "earliestBuy first (first # others) \<in> buy_date ` set (first # others)"
  using foldl_earliest [of buy_date "buy_date first" "first # others"]
  unfolding earliestBuy_def by auto

lemma getPerformanceSeries_resolved:
  assumes "getPerformanceSeries cfg rt portfolioId from to providers baseCurrency forceRefresh w
             = (Inr res, w')"
    and "listHoldings portfolioId w = first # others"
  shows "\<exists>startDate endDate historyMap rateCache.
           normalizeDate rt (orElse from (earliestBuy first (first # others))) = Inr startDate
           \<and> normalizeDate rt (orElse to (todayIso rt w)) = Inr endDate
           \<and> res = \<lparr>pr_series =
                      seriesLoop (createDateRange rt startDate endDate) (first # others)
                        historyMap rateCache Map.empty,
                    pr_from = Some startDate, pr_to = Some endDate\<rparr>"
  using assms
  by (auto simp: getPerformanceSeries_def Let_def
      split: sum.splits prod.splits option.splits)

lemma resolveRate_base:
  assumes "resolveRate cfg rt providers normalizedBase currency rateCache w = (res, rateCache', w')"
    and "rateCache normalizedBase = None"
  shows "rateCache' normalizedBase = None"
  using assms
  by (auto simp: resolveRate_def Let_def split: if_splits option.splits prod.splits sum.splits)

lemma resolveRates_base:
  assumes "resolveRates cfg rt providers normalizedBase currencies rateCache w = (res, rateCache', w')"
    and "rateCache normalizedBase = None"
  shows "rateCache' normalizedBase = None"
  using assms
proof (induction currencies arbitrary: rateCache w res rateCache' w')
  case Nil
  then show ?case by simp
next
  case (Cons c cs)
  obtain r rc1 w1 where step: "resolveRate cfg rt providers normalizedBase c rateCache w = (r, rc1, w1)"
    by (cases "resolveRate cfg rt providers normalizedBase c rateCache w") auto
  from resolveRate_base [OF step Cons.prems(2)] have b: "rc1 normalizedBase = None" .
  obtain res2 rc2 w2 where rest: "resolveRates cfg rt providers normalizedBase cs rc1 w1 = (res2, rc2, w2)"
    by (cases "resolveRates cfg rt providers normalizedBase cs rc1 w1") auto
  from Cons.IH [OF rest b] have "rc2 normalizedBase = None" .
  with Cons.prems(1) step rest show ?case by (cases r) auto
qed

lemma resolved_rate_is_cached_rate:
  assumes "resolveRate cfg rt providers normalizedBase (marketCurrency holding) rateCache w
             = (Inr fxRate, rateCache, w)"
    and "rateKnown normalizedBase rateCache (marketCurrency holding)"
    and "rateCache normalizedBase = None"
  shows "(case rateCache (marketCurrency holding) of None \<Rightarrow> 1 | Some r \<Rightarrow> r) = fxRate"
  using assms
  by (auto simp: resolveRate_def Let_def rateKnown_def marketCurrency_upper
      split: if_splits option.splits)

section \<open>Facts about the window of the performance series\<close>

lemma normalizeDate_Inr:
  "normalizeDate rt date = Inr d \<longleftrightarrow> (\<exists>t. Date_parse rt date = Some t \<and> d = isoDate rt t)"
  by (auto simp: normalizeDate_def isoDate_def split: option.splits)

lemma todayIso_isoDate: "todayIso rt w = isoDate rt (clock w * 1000)"
  by (simp add: todayIso_def isoDate_def)

lemma getPerformanceSeries_window_parsed:
  assumes "getPerformanceSeries cfg rt portfolioId from to providers baseCurrency forceRefresh w
             = (Inr res, w')"
    and "listHoldings portfolioId w = first # others"
  shows "\<exists>tf tt historyMap rateCache.
           Date_parse rt (orElse from (earliestBuy first (first # others))) = Some tf
           \<and> Date_parse rt (orElse to (isoDate rt (clock w * 1000))) = Some tt
           \<and> res = \<lparr>pr_series =
                      seriesLoop (createDateRange rt (isoDate rt tf) (isoDate rt tt))
                        (first # others) historyMap rateCache Map.empty,
                    pr_from = Some (isoDate rt tf), pr_to = Some (isoDate rt tt)\<rparr>"
proof -
  from getPerformanceSeries_resolved [OF assms]
  obtain startDate endDate historyMap rateCache where
    s: "normalizeDate rt (orElse from (earliestBuy first (first # others))) = Inr startDate"
    and e: "normalizeDate rt (orElse to (todayIso rt w)) = Inr endDate"
    and res: "res = \<lparr>pr_series =
                  seriesLoop (createDateRange rt startDate endDate) (first # others)
                    historyMap rateCache Map.empty,
                pr_from = Some startDate, pr_to = Some endDate\<rparr>"
    by blast
  from s obtain tf where
    tf: "Date_parse rt (orElse from (earliestBuy first (first # others))) = Some tf"
    "startDate = isoDate rt tf"
    unfolding normalizeDate_Inr by blast
  from e obtain tt where
    tt: "Date_parse rt (orElse to (isoDate rt (clock w * 1000))) = Some tt"
    "endDate = isoDate rt tt"
    unfolding normalizeDate_Inr todayIso_isoDate by blast
  from tf tt res show ?thesis by blast
qed


section \<open>Facts about holdings whose history fetch fails\<close>

lemma getFxRate_history:
  "price_history (snd (getFxRate cfg rt base quote providers w)) = price_history w"
  by (simp add: getFxRate_def fxFallback_def cacheFxRate_def Let_def logCalls_tables
      split: option.splits sum.splits prod.splits)

lemma resolveRate_history:
  assumes "resolveRate cfg rt providers normalizedBase currency rateCache w = (res, rateCache', w')"
  shows "price_history w' = price_history w"
proof -
  have "price_history (snd (getFxRate cfg rt (toUpperCase currency) normalizedBase providers w))
      = price_history w"
    by (rule getFxRate_history)
  with assms show ?thesis
    by (auto simp: resolveRate_def Let_def split: if_splits option.splits prod.splits sum.splits)
qed

lemma resolveRates_history:
  assumes "resolveRates cfg rt providers normalizedBase currencies rateCache w
             = (res, rateCache', w')"
  shows "price_history w' = price_history w"
  using assms
proof (induction currencies arbitrary: rateCache w res rateCache' w')
  case Nil
  then show ?case by simp
next
  case (Cons c cs)
  obtain r rc1 w1 where
    step: "resolveRate cfg rt providers normalizedBase c rateCache w = (r, rc1, w1)"
    by (cases "resolveRate cfg rt providers normalizedBase c rateCache w") auto
  obtain res2 rc2 w2 where
    rest: "resolveRates cfg rt providers normalizedBase cs rc1 w1 = (res2, rc2, w2)"
    by (cases "resolveRates cfg rt providers normalizedBase cs rc1 w1") auto
  from Cons.IH [OF rest] resolveRate_history [OF step]
  have "price_history w2 = price_history w" by simp
  with Cons.prems step rest show ?case by (cases r) auto
qed

lemma historyFails_store:
  assumes "price_history w' = price_history w"
  shows "historyFails providers forceRefresh startDate endDate holding w'
         \<longleftrightarrow> historyFails providers forceRefresh startDate endDate holding w"
  using assms by (simp add: historyFails_def cachedDates_def)

lemma fallbackDate_max: "fallbackDate holding startDate = max (buy_date holding) startDate"
  by (auto simp: fallbackDate_def max_def)

lemma holdingPrices_fails:
  assumes known: "rateKnown normalizedBase rateCache (marketCurrency holding)"
    and base: "rateCache normalizedBase = None"
    and fails: "historyFails providers forceRefresh startDate endDate holding started"
  shows "holdingPrices cfg rt providers forceRefresh startDate endDate normalizedBase started
           holding rateCache w
         = (Inr [max (buy_date holding) startDate \<mapsto> buy_price holding * rateFor rateCache holding],
            rateCache,
            logCalls GetHistory (filterProvidersForMarket providers (h_market holding)) w)"
proof -
  let ?chain = "filterProvidersForMarket providers (h_market holding)"
  let ?task = "historyTask (h_ticker holding) (h_market holding) startDate endDate ''1d''"
  from resolveRate_known [OF known] obtain rate where
    rate: "resolveRate cfg rt providers normalizedBase (marketCurrency holding) rateCache w
       = (Inr rate, rateCache, w)"
    by blast
  from resolved_rate_is_cached_rate [OF rate known base]
  have r: "rate = rateFor rateCache holding" by (simp add: rateFor_def)
  from fails have "forceRefresh
      \<or> getCachedHistory (h_ticker holding) (h_market holding) ''1d'' startDate endDate started
          = None"
    using getCachedHistory_covered
      [of "h_ticker holding" "h_market holding" "''1d''" startDate endDate started]
    by (auto simp: historyFails_def)
  then have lookup: "(if forceRefresh then None
      else getCachedHistory (h_ticker holding) (h_market holding) ''1d'' startDate endDate
             started) = None"
    by auto
  from fails have "\<forall>p \<in> set ?chain. isl (?task p)"
    by (simp add: historyFails_def list_all_iff)
  then have "fetchWithProviders ?chain ?task
      = (Inl (exhausted (lastRecorded ?chain ?task)), ?chain)"
    using fetchLoop_all_fail [of ?chain ?task None]
    unfolding fetchWithProviders_def by (simp split: option.splits)
  from fetchHistory_outcome [OF this, of w]
  have fetch: "fetchHistory (h_ticker holding) (h_market holding) startDate endDate ''1d''
      providers w
      = (Inl (exhausted (lastRecorded ?chain ?task)), logCalls GetHistory ?chain w)"
    by simp
  show ?thesis
    unfolding holdingPrices_def rate lookup
    by (simp add: fetch r fallbackDate_max)
qed

lemma holdingsLoop_fails:
  assumes "\<forall>h \<in> set hs. rateKnown normalizedBase rateCache (marketCurrency h)"
    and "rateCache normalizedBase = None"
    and "distinct (map h_id hs)"
  shows "\<exists>historyMap' w'.
           holdingsLoop cfg rt providers forceRefresh startDate endDate normalizedBase started
             hs historyMap rateCache w = (None, historyMap', rateCache, w')
           \<and> (\<forall>h \<in> set hs.
                 historyFails providers forceRefresh startDate endDate h started \<longrightarrow>
                 historyMap' (h_id h)
                   = Some [max (buy_date h) startDate \<mapsto> buy_price h * rateFor rateCache h])
           \<and> (\<forall>i. i \<notin> h_id ` set hs \<longrightarrow> historyMap' i = historyMap i)"
  using assms
proof (induction hs arbitrary: historyMap w)
  case Nil
  then show ?case by simp
next
  case (Cons h hs)
  let ?synthetic = "[max (buy_date h) startDate \<mapsto> buy_price h * rateFor rateCache h]"
  from Cons.prems have known: "rateKnown normalizedBase rateCache (marketCurrency h)"
    and rest: "\<forall>g \<in> set hs. rateKnown normalizedBase rateCache (marketCurrency g)"
    and fresh: "h_id h \<notin> h_id ` set hs" and ids: "distinct (map h_id hs)"
    by auto
  from holdingPrices_known [OF known] obtain priceByDate w1 where
    step: "holdingPrices cfg rt providers forceRefresh startDate endDate normalizedBase started
       h rateCache w = (Inr priceByDate, rateCache, w1)"
    by blast
  have synthetic: "priceByDate = ?synthetic"
    if "historyFails providers forceRefresh startDate endDate h started"
    using holdingPrices_fails [OF known Cons.prems(2) that, where cfg = cfg and rt = rt and w = w]
      step
    by simp
  from Cons.IH [OF rest Cons.prems(2) ids, of "historyMap(h_id h \<mapsto> priceByDate)" w1]
  obtain historyMap' w' where
    loop: "holdingsLoop cfg rt providers forceRefresh startDate endDate normalizedBase started
       hs (historyMap(h_id h \<mapsto> priceByDate)) rateCache w1 = (None, historyMap', rateCache, w')"
    and failing: "\<forall>g \<in> set hs.
       historyFails providers forceRefresh startDate endDate g started \<longrightarrow>
       historyMap' (h_id g)
         = Some [max (buy_date g) startDate \<mapsto> buy_price g * rateFor rateCache g]"
    and others: "\<forall>i. i \<notin> h_id ` set hs \<longrightarrow> historyMap' i = (historyMap(h_id h \<mapsto> priceByDate)) i"
    by blast
  from others fresh have here: "historyMap' (h_id h) = Some priceByDate" by simp
  have "holdingsLoop cfg rt providers forceRefresh startDate endDate normalizedBase started
      (h # hs) historyMap rateCache w = (None, historyMap', rateCache, w')"
    using step loop by simp
  moreover have "\<forall>g \<in> set (h # hs).
      historyFails providers forceRefresh startDate endDate g started \<longrightarrow>
      historyMap' (h_id g)
        = Some [max (buy_date g) startDate \<mapsto> buy_price g * rateFor rateCache g]"
    using failing here synthetic by auto
  moreover have "\<forall>i. i \<notin> h_id ` set (h # hs) \<longrightarrow> historyMap' i = historyMap i"
    using others by auto
  ultimately show ?case by blast
qed

lemma foldl_other_price:
  "h \<notin> set hs \<Longrightarrow>
     foldl (\<lambda>t g. t + (price(h := v)) g * quantity g) t hs
       = foldl (\<lambda>t g. t + price g * quantity g) t hs"
  by (induction hs arbitrary: t) auto

lemma fold_addHoldingValue:
  assumes "distinct (map h_id hs)"
    and "\<forall>h \<in> set hs. F h \<longrightarrow>
           (\<exists>anchor. historyMap (h_id h) = Some [anchor \<mapsto> buy_price h * rateFor rateCache h])"
    and "\<forall>h \<in> set hs. F h \<longrightarrow>
           lastKnown (h_id h) = None
           \<or> lastKnown (h_id h) = Some (buy_price h * rateFor rateCache h)"
  shows "\<exists>price lastKnown'.
           fold (addHoldingValue date historyMap rateCache) hs (runningTotal, lastKnown)
             = (foldl (\<lambda>t h. t + price h * quantity h) runningTotal
                  (filter (\<lambda>h. \<not> date < buy_date h) hs), lastKnown')
           \<and> (\<forall>h \<in> set hs. F h \<longrightarrow> price h = buy_price h * rateFor rateCache h)
           \<and> (\<forall>h \<in> set hs. F h \<longrightarrow>
                 lastKnown' (h_id h) = None
                 \<or> lastKnown' (h_id h) = Some (buy_price h * rateFor rateCache h))
           \<and> (\<forall>i. i \<notin> h_id ` set hs \<longrightarrow> lastKnown' i = lastKnown i)"
  using assms
proof (induction hs arbitrary: runningTotal lastKnown)
  case Nil
  then show ?case by simp
next
  case (Cons h hs)
  let ?flat = "buy_price h * rateFor rateCache h"
  from Cons.prems(1) have fresh: "h_id h \<notin> h_id ` set hs" and ids: "distinct (map h_id hs)"
    and notin: "h \<notin> set hs"
    by auto
  obtain total1 lk1 where
    step: "addHoldingValue date historyMap rateCache h (runningTotal, lastKnown) = (total1, lk1)"
    by (cases "addHoldingValue date historyMap rateCache h (runningTotal, lastKnown)") auto
  obtain v where
    total1: "total1 = (if date < buy_date h then runningTotal else runningTotal + v * quantity h)"
    and flat: "F h \<longrightarrow> v = ?flat"
    and own: "F h \<longrightarrow> lk1 (h_id h) = None \<or> lk1 (h_id h) = Some ?flat"
    and other: "\<forall>i. i \<noteq> h_id h \<longrightarrow> lk1 i = lastKnown i"
  proof (cases "date < buy_date h")
    case True
    with step have "total1 = runningTotal" "lk1 = lastKnown"
      by (simp_all add: addHoldingValue_def)
    with True Cons.prems(3) show ?thesis
      by (intro that [of ?flat]) auto
  next
    case False
    let ?lk1 = "case historyMap (h_id h) of
                  None \<Rightarrow> lastKnown
                | Some priceMap \<Rightarrow>
                    (case priceMap date of
                       None \<Rightarrow> lastKnown
                     | Some p \<Rightarrow> lastKnown(h_id h \<mapsto> p))"
    let ?v = "case ?lk1 (h_id h) of None \<Rightarrow> ?flat | Some p \<Rightarrow> p"
    have "addHoldingValue date historyMap rateCache h (runningTotal, lastKnown)
        = (runningTotal + ?v * quantity h, ?lk1)"
      unfolding rateFor_def using False by (simp add: addHoldingValue_def Let_def)
    with step have "(total1, lk1) = (runningTotal + ?v * quantity h, ?lk1)"
      by (simp only:)
    then have t: "total1 = runningTotal + ?v * quantity h" and l: "lk1 = ?lk1"
      by (simp_all only: prod.inject)
    have o: "\<forall>i. i \<noteq> h_id h \<longrightarrow> ?lk1 i = lastKnown i"
      by (auto split: option.splits)
    have f: "?lk1 (h_id h) = None \<or> ?lk1 (h_id h) = Some ?flat" if "F h"
    proof -
      from that Cons.prems(2) obtain anchor where
        "historyMap (h_id h) = Some [anchor \<mapsto> ?flat]"
        by (meson list.set_intros(1))
      moreover from that Cons.prems(3)
      have "lastKnown (h_id h) = None \<or> lastKnown (h_id h) = Some ?flat" by simp
      ultimately show ?thesis by (auto split: option.splits if_splits)
    qed
    then have "F h \<longrightarrow> ?v = ?flat" by (auto split: option.splits)
    with False t l o f show ?thesis
      by (intro that [of ?v]) auto
  qed
  have synth: "\<forall>g \<in> set hs. F g \<longrightarrow>
      (\<exists>anchor. historyMap (h_id g) = Some [anchor \<mapsto> buy_price g * rateFor rateCache g])"
    using Cons.prems(2) by (meson list.set_intros(2))
  have inv: "\<forall>g \<in> set hs. F g \<longrightarrow>
      lk1 (h_id g) = None \<or> lk1 (h_id g) = Some (buy_price g * rateFor rateCache g)"
  proof (intro ballI impI)
    fix g
    assume g: "g \<in> set hs" and "F g"
    with Cons.prems(3)
    have "lastKnown (h_id g) = None
        \<or> lastKnown (h_id g) = Some (buy_price g * rateFor rateCache g)"
      by simp
    moreover from g fresh have "h_id g \<noteq> h_id h" by (metis imageI)
    ultimately show "lk1 (h_id g) = None
        \<or> lk1 (h_id g) = Some (buy_price g * rateFor rateCache g)"
      using other by simp
  qed
  from Cons.IH [OF ids synth inv, of total1]
  obtain price lastKnown' where
    rest: "fold (addHoldingValue date historyMap rateCache) hs (total1, lk1)
       = (foldl (\<lambda>t h. t + price h * quantity h) total1
            (filter (\<lambda>h. \<not> date < buy_date h) hs), lastKnown')"
    and restFlat: "\<forall>g \<in> set hs. F g \<longrightarrow> price g = buy_price g * rateFor rateCache g"
    and restInv: "\<forall>g \<in> set hs. F g \<longrightarrow>
       lastKnown' (h_id g) = None
       \<or> lastKnown' (h_id g) = Some (buy_price g * rateFor rateCache g)"
    and restOther: "\<forall>i. i \<notin> h_id ` set hs \<longrightarrow> lastKnown' i = lk1 i"
    by blast
  let ?price = "price(h := v)"
  from notin have "h \<notin> set (filter (\<lambda>h. \<not> date < buy_date h) hs)" by simp
  then have same: "foldl (\<lambda>t g. t + ?price g * quantity g) t
        (filter (\<lambda>h. \<not> date < buy_date h) hs)
      = foldl (\<lambda>t g. t + price g * quantity g) t (filter (\<lambda>h. \<not> date < buy_date h) hs)"
    for t
    by (rule foldl_other_price)
  have 1: "fold (addHoldingValue date historyMap rateCache) (h # hs) (runningTotal, lastKnown)
      = (foldl (\<lambda>t g. t + ?price g * quantity g) runningTotal
           (filter (\<lambda>h. \<not> date < buy_date h) (h # hs)), lastKnown')"
  proof (cases "date < buy_date h")
    case True
    then have "filter (\<lambda>h. \<not> date < buy_date h) (h # hs)
        = filter (\<lambda>h. \<not> date < buy_date h) hs"
      by simp
    moreover from True total1 have "total1 = runningTotal" by simp
    ultimately show ?thesis
      using step rest by (simp add: same del: fun_upd_apply)
  next
    case False
    then have "filter (\<lambda>h. \<not> date < buy_date h) (h # hs)
        = h # filter (\<lambda>h. \<not> date < buy_date h) hs"
      by simp
    moreover from False total1 have "total1 = runningTotal + ?price h * quantity h" by simp
    ultimately show ?thesis
      using step rest by (simp add: same del: fun_upd_apply)
  qed
  have 2: "\<forall>g \<in> set (h # hs). F g \<longrightarrow> ?price g = buy_price g * rateFor rateCache g"
    using restFlat flat notin by auto
  have 3: "\<forall>g \<in> set (h # hs). F g \<longrightarrow>
      lastKnown' (h_id g) = None
      \<or> lastKnown' (h_id g) = Some (buy_price g * rateFor rateCache g)"
    using restInv restOther fresh own by auto
  have 4: "\<forall>i. i \<notin> h_id ` set (h # hs) \<longrightarrow> lastKnown' i = lastKnown i"
    using restOther other by auto
  from 1 2 3 4 show ?case by blast
qed

lemma seriesLoop_flat:
  assumes "distinct (map h_id hs)"
    and "\<forall>h \<in> set hs. F h \<longrightarrow>
           (\<exists>anchor. historyMap (h_id h) = Some [anchor \<mapsto> buy_price h * rateFor rateCache h])"
    and "\<forall>h \<in> set hs. F h \<longrightarrow>
           lastKnown (h_id h) = None
           \<or> lastKnown (h_id h) = Some (buy_price h * rateFor rateCache h)"
  shows "\<forall>point \<in> set (seriesLoop dates hs historyMap rateCache lastKnown).
           \<exists>price. pp_value point = dayTotal price (pp_date point) hs
             \<and> (\<forall>h \<in> set hs. F h \<longrightarrow> price h = buy_price h * rateFor rateCache h)"
  using assms(3)
proof (induction dates arbitrary: lastKnown)
  case Nil
  then show ?case by simp
next
  case (Cons date dates)
  from fold_addHoldingValue [OF assms(1,2) Cons.prems, of date 0]
  obtain price lastKnown' where
    day: "fold (addHoldingValue date historyMap rateCache) hs (0, lastKnown)
       = (dayTotal price date hs, lastKnown')"
    and flat: "\<forall>h \<in> set hs. F h \<longrightarrow> price h = buy_price h * rateFor rateCache h"
    and inv: "\<forall>h \<in> set hs. F h \<longrightarrow>
       lastKnown' (h_id h) = None
       \<or> lastKnown' (h_id h) = Some (buy_price h * rateFor rateCache h)"
    unfolding dayTotal_def by blast
  from day have "seriesLoop (date # dates) hs historyMap rateCache lastKnown
      = \<lparr>pp_date = date, pp_value = dayTotal price date hs\<rparr>
        # seriesLoop dates hs historyMap rateCache lastKnown'"
    by simp
  with Cons.IH [OF inv] flat show ?case by auto
qed

text \<open>
  C1 (as amended). \<^verbatim>\<open>fetchWithProviders\<close> tries the providers in list order and returns
  the pair of the first provider whose task resolves and its result, invoking no later
  provider. When every provider rejects, each was invoked once, in order, and the call
  rejects with the last recorded value if that is an \<^verbatim>\<open>Error\<close> instance, and with
  the \<^verbatim>\<open>No providers configured\<close> provider error otherwise; the empty list gives the
  same provider error. When provider 1 rejects and provider 2 resolves, provider 2 is
  returned and the invocations are exactly provider 1, then provider 2.
\<close>

theorem fetchWithProviders_first_success:
  "(\<forall>pre p post r. (\<forall>q \<in> set pre. isl (task q)) \<longrightarrow> task p = Inr r \<longrightarrow>
       fetchWithProviders (pre @ p # post) task = (Inr (p, r), pre @ [p]))
   \<and> (\<forall>ps. (\<forall>q \<in> set ps. isl (task q)) \<longrightarrow>
       fetchWithProviders ps task = (Inl (exhausted (lastRecorded ps task)), ps))
   \<and> (\<forall>ps e. ps \<noteq> [] \<longrightarrow> (\<forall>q \<in> set ps. isl (task q)) \<longrightarrow>
       task (last ps) = Inl e \<longrightarrow> instanceof_Error e \<longrightarrow>
       fetchWithProviders ps task = (Inl e, ps))
   \<and> fetchWithProviders [] task = (Inl (ProviderError ''No providers configured''), [])
   \<and> (\<forall>p1 p2 rest e r. task p1 = Inl e \<longrightarrow> task p2 = Inr r \<longrightarrow>
       fetchWithProviders (p1 # p2 # rest) task = (Inr (p2, r), [p1, p2]))"
proof (intro conjI allI impI)
  fix pre p post r
  assume "\<forall>q \<in> set pre. isl (task q)" and "task p = Inr r"
  then show "fetchWithProviders (pre @ p # post) task = (Inr (p, r), pre @ [p])"
    unfolding fetchWithProviders_def by (rule fetchLoop_success)
next
  fix ps
  assume "\<forall>q \<in> set ps. isl (task q)"
  from fetchLoop_all_fail [OF this, of None]
  show "fetchWithProviders ps task = (Inl (exhausted (lastRecorded ps task)), ps)"
    unfolding fetchWithProviders_def by (simp split: option.splits)
next
  fix ps e
  assume ne: "ps \<noteq> []" and fail: "\<forall>q \<in> set ps. isl (task q)"
    and l: "task (last ps) = Inl e" and err: "instanceof_Error e"
  from ne obtain ys y where ps: "ps = ys @ [y]" by (cases ps rule: rev_cases) auto
  with l have "lastRecorded ps task = Some e" by (simp add: lastRecorded_def)
  with fetchLoop_all_fail [OF fail, of None] err
  show "fetchWithProviders ps task = (Inl e, ps)"
    unfolding fetchWithProviders_def by (simp add: exhausted_def)
next
  show "fetchWithProviders [] task = (Inl (ProviderError ''No providers configured''), [])"
    by (simp add: fetchWithProviders_def)
next
  fix p1 p2 rest e r
  assume "task p1 = Inl e" and "task p2 = Inr r"
  then show "fetchWithProviders (p1 # p2 # rest) task = (Inr (p2, r), [p1, p2])"
    by (simp add: fetchWithProviders_def)
qed

theorem fetchWithProviders_first_success_witness:
  "fetchWithProviders [1, 2, 3] demoTask = (Inr (2, 42), [1, 2])
   \<and> fetchWithProviders [3, 1] demoTask = (Inl (OtherError ''socket hang up''), [3, 1])
   \<and> fetchWithProviders [1, 3] demoTask = (Inl (exhausted (Some (NonError ''timeout''))), [1, 3])"
proof -
  note t = fetchWithProviders_first_success [of demoTask]
  have a: "\<forall>q \<in> set [1::nat]. isl (demoTask q)" by simp
  have b: "demoTask 2 = Inr 42" by simp
  from t have "(\<forall>q \<in> set [1::nat]. isl (demoTask q)) \<longrightarrow> demoTask 2 = Inr 42 \<longrightarrow>
      fetchWithProviders ([1] @ 2 # [3]) demoTask = (Inr (2, 42), [1] @ [2])"
    by blast
  with a b have 1: "fetchWithProviders [1, 2, 3] demoTask = (Inr (2, 42), [1, 2])" by simp
  have c: "\<forall>q \<in> set [3::nat, 1]. isl (demoTask q)" by simp
  from t have "[3::nat, 1] \<noteq> [] \<longrightarrow> (\<forall>q \<in> set [3::nat, 1]. isl (demoTask q)) \<longrightarrow>
      demoTask (last [3, 1]) = Inl (OtherError ''socket hang up'') \<longrightarrow>
      instanceof_Error (OtherError ''socket hang up'') \<longrightarrow>
      fetchWithProviders [3, 1] demoTask = (Inl (OtherError ''socket hang up''), [3, 1])"
    by blast
  with c have 2: "fetchWithProviders [3, 1] demoTask = (Inl (OtherError ''socket hang up''), [3, 1])"
    by simp
  have d: "\<forall>q \<in> set [1::nat, 3]. isl (demoTask q)" by simp
  from t have "(\<forall>q \<in> set [1::nat, 3]. isl (demoTask q)) \<longrightarrow>
      fetchWithProviders [1, 3] demoTask = (Inl (exhausted (lastRecorded [1, 3] demoTask)), [1, 3])"
    by blast
  with d have 3: "fetchWithProviders [1, 3] demoTask
      = (Inl (exhausted (Some (NonError ''timeout''))), [1, 3])"
    by (simp add: lastRecorded_def)
  from 1 2 3 show ?thesis by blast
qed

text \<open>
  C1 as stated fails where the last provider rejects with a value that is no
  \<^verbatim>\<open>Error\<close> instance: the recorded value is dropped and the
  \<^verbatim>\<open>No providers configured\<close> provider error is raised in its place.
\<close>

theorem fetchWithProviders_last_error_counterexample:
  "lastRecorded [1, 3] demoTask = Some (NonError ''timeout'')
   \<and> fst (fetchWithProviders [1, 3] demoTask) = Inl (ProviderError ''No providers configured'')
   \<and> fst (fetchWithProviders [1, 3] demoTask) \<noteq> Inl (NonError ''timeout'')"
  by (simp add: lastRecorded_def fetchWithProviders_def)

section \<open>Ticker normalization\<close>



section \<open>Validation of an unsupported market\<close>

text \<open>
  C8. For a market code that is not in the registry (in upper case it is neither the code
  nor an alias of a supported market), \<^verbatim>\<open>validateSymbol\<close> resolves (it does not reject)
  to the structured failure with \<^verbatim>\<open>valid: false\<close>, \<^verbatim>\<open>reason: 'unsupported_market'\<close>
  and the whole list of supported markets, and leaves the state as it was: nothing is
  written and no provider is called.
\<close>

theorem validateSymbol_unsupported_market:
  assumes "toUpperCase market \<notin> set registryKeys"
  shows "validateSymbol cfg ticker market providers w =
           (Inr \<lparr>v_valid = False, v_source = ''LOCAL'', v_reason = Some ''unsupported_market'',
                 v_supported_markets = Some SUPPORTED_MARKETS, v_symbol = None,
                 v_normalized = None\<rparr>, w)
         \<and> outbound (snd (validateSymbol cfg ticker market providers w)) = outbound w"
proof -
  from assms have "getMarketDefinition market = None"
    by (simp add: getMarketDefinition_None)
  then show ?thesis
    by (simp add: validateSymbol_def getSupportedMarkets_def)
qed

theorem validateSymbol_unsupported_market_witness:
  "validateSymbol defaultConfig ''SONY'' ''tse'' [mockProvider] emptyWorld =
     (Inr \<lparr>v_valid = False, v_source = ''LOCAL'', v_reason = Some ''unsupported_market'',
           v_supported_markets = Some SUPPORTED_MARKETS, v_symbol = None,
           v_normalized = None\<rparr>, emptyWorld)
   \<and> outbound (snd (validateSymbol defaultConfig ''SONY'' ''tse'' [mockProvider] emptyWorld))
       = outbound emptyWorld"
proof -
  have "toUpperCase ''tse'' \<notin> set registryKeys"
    by code_simp
  from validateSymbol_unsupported_market [OF this] show ?thesis by blast
qed

section \<open>The cached display name\<close>

lemma clock_cacheValidation:
  "clock (cacheValidation ticker market name currency exchange provider w) = clock w"
  by (simp add: cacheValidation_def Let_def)

lemma market_symbols_advance: "market_symbols (advance d w) = market_symbols w"
  by (simp add: advance_def)

lemma cacheValidation_table:
  "market_symbols (cacheValidation ticker market name currency exchange provider w) =
     replaceSymbol
       (writtenSymbol ticker market
          (nameToStore (selectLatestSymbol ticker market (market_symbols w)) name)
          currency exchange provider (clock w))
       (market_symbols w)"
  by (simp add: cacheValidation_def writtenSymbol_def Let_def)

lemma select_after_later_write:
  assumes "keyRowsUpTo ticker market w" and "0 < d"
  shows "selectLatestSymbol ticker market
           (market_symbols
              (cacheValidation ticker market name currency exchange provider (advance d w)))
         = Some (writtenSymbol ticker market
                   (nameToStore (selectLatestSymbol ticker market (market_symbols w)) name)
                   currency exchange provider (clock w + d))"
proof -
  let ?new = "writtenSymbol ticker market
     (nameToStore (selectLatestSymbol ticker market (market_symbols w)) name)
     currency exchange provider (clock w + d)"
  let ?kept = "filter (\<lambda>r. ms_ticker r = ticker \<and> ms_market r = market)
     (filter (\<lambda>r. \<not> (ms_ticker r = ms_ticker ?new \<and> ms_market r = ms_market ?new
                      \<and> ms_provider r = ms_provider ?new)) (market_symbols w))"
  have older: "\<forall>x \<in> set ?kept. ms_last_verified_at x < ms_last_verified_at ?new"
    using assms by (auto simp: keyRowsUpTo_def list_all_iff writtenSymbol_def)
  have "selectLatestSymbol ticker market (replaceSymbol ?new (market_symbols w))
        = firstMax ms_last_verified_at (?kept @ [?new])"
    by (simp add: selectLatestSymbol_def replaceSymbol_def writtenSymbol_def)
  also have "\<dots> = Some ?new" using older by (rule firstMax_snoc_newest)
  finally show ?thesis
    by (simp add: cacheValidation_table market_symbols_advance advance_def)
qed

lemma keyRowsUpTo_after_later_write:
  assumes "keyRowsUpTo ticker market w" and "0 < d"
  shows "keyRowsUpTo ticker market
           (cacheValidation ticker market name currency exchange provider (advance d w))"
  using assms
  by (auto simp: keyRowsUpTo_def list_all_iff cacheValidation_def Let_def replaceSymbol_def
      advance_def)

lemma cachedName_after_later_write:
  assumes "keyRowsUpTo ticker market w" and "0 < d" and "cachedName ticker market w = Some n"
  shows "cachedName ticker market
           (cacheValidation ticker market name currency exchange provider (advance d w))
         = Some n"
  using assms(3)
  unfolding cachedName_def select_after_later_write [OF assms(1,2)]
  by (auto simp: nameToStore_def writtenSymbol_def split: option.splits)

lemma firstMax_only_greatest:
  assumes "r \<in> set xs" and "\<forall>x \<in> set xs. x \<noteq> r \<longrightarrow> key x < key r"
  shows "firstMax key xs = Some r"
proof -
  from assms(1) have "xs \<noteq> []" by auto
  then obtain r' where r': "firstMax key xs = Some r'"
    using firstMax_None [of key xs] by auto
  from firstMax_mem [OF r'] have mem: "r' \<in> set xs" .
  from firstMax_greatest [OF r' assms(1)] have "key r \<le> key r'" .
  with assms(2) mem have "r' = r" by force
  with r' show ?thesis by simp
qed

lemma cachedName_laterWrites:
  assumes "keyRowsUpTo ticker market w" and "cachedName ticker market w = Some n"
    and "\<forall>x \<in> set writes. 0 < fst x"
  shows "cachedName ticker market (laterWrites writes ticker market w) = Some n"
  using assms
proof (induction writes arbitrary: w)
  case Nil
  then show ?case by simp
next
  case (Cons x writes)
  obtain d name currency exchange provider where x: "x = (d, name, currency, exchange, provider)"
    by (cases x)
  with Cons.prems have d: "0 < d" by simp
  let ?w = "cacheValidation ticker market name currency exchange provider (advance d w)"
  have "keyRowsUpTo ticker market ?w"
    using Cons.prems(1) d by (rule keyRowsUpTo_after_later_write)
  moreover have "cachedName ticker market ?w = Some n"
    using Cons.prems(1) d Cons.prems(2) by (rule cachedName_after_later_write)
  moreover have "\<forall>y \<in> set writes. 0 < fst y" using Cons.prems(3) by simp
  ultimately have "cachedName ticker market (laterWrites writes ticker market ?w) = Some n"
    by (rule Cons.IH)
  then show ?case by (simp add: x)
qed

text \<open>
  C10 (as amended). The symbol cache reports for a key the display name of the row its
  lookup selects: the most recently verified row of the key, which is the row verified
  after all the others when there is one. When it reports a non-null name \<open>n\<close>, a
  \<^verbatim>\<open>cacheValidation\<close> write for that key stores \<open>n\<close> whatever name the provider
  supplied: null, empty or a different name. The provider's name is stored only when the
  cache reports no name for the key (no row, or a selected row whose name is null).
  Hence through every run of later writes for the key, each at a later second than the
  one before (the clock has a resolution of one second), the cache keeps reporting \<open>n\<close>.
\<close>

theorem cacheValidation_keeps_cached_name:
  "(\<forall>n. cachedName ticker market w = Some n \<longrightarrow>
      market_symbols (cacheValidation ticker market name currency exchange provider w)
        = filter (\<lambda>r. \<not> (ms_ticker r = ticker \<and> ms_market r = market
                          \<and> ms_provider r = provider)) (market_symbols w)
          @ [writtenSymbol ticker market (Some n) currency exchange provider (clock w)])
   \<and> (cachedName ticker market w = None \<longrightarrow>
      market_symbols (cacheValidation ticker market name currency exchange provider w)
        = filter (\<lambda>r. \<not> (ms_ticker r = ticker \<and> ms_market r = market
                          \<and> ms_provider r = provider)) (market_symbols w)
          @ [writtenSymbol ticker market name currency exchange provider (clock w)])
   \<and> (\<forall>n writes. cachedName ticker market w = Some n \<longrightarrow> keyRowsUpTo ticker market w \<longrightarrow>
        (\<forall>x \<in> set writes. 0 < fst x) \<longrightarrow>
        cachedName ticker market (laterWrites writes ticker market w) = Some n)
   \<and> (\<forall>row \<in> set (market_symbols w).
        ms_ticker row = ticker \<and> ms_market row = market
        \<and> (\<forall>x \<in> set (market_symbols w).
              ms_ticker x = ticker \<and> ms_market x = market \<and> x \<noteq> row
              \<longrightarrow> ms_last_verified_at x < ms_last_verified_at row)
        \<longrightarrow> cachedName ticker market w = ms_name row)
   \<and> ((\<forall>x \<in> set (market_symbols w). \<not> (ms_ticker x = ticker \<and> ms_market x = market))
        \<longrightarrow> cachedName ticker market w = None)"
proof (intro conjI allI impI ballI)
  fix n
  assume "cachedName ticker market w = Some n"
  then have "nameToStore (selectLatestSymbol ticker market (market_symbols w)) name = Some n"
    by (auto simp: cachedName_def nameToStore_def split: option.splits)
  then show "market_symbols (cacheValidation ticker market name currency exchange provider w)
        = filter (\<lambda>r. \<not> (ms_ticker r = ticker \<and> ms_market r = market
                          \<and> ms_provider r = provider)) (market_symbols w)
          @ [writtenSymbol ticker market (Some n) currency exchange provider (clock w)]"
    by (simp add: cacheValidation_table replaceSymbol_def writtenSymbol_def)
next
  assume "cachedName ticker market w = None"
  then have "nameToStore (selectLatestSymbol ticker market (market_symbols w)) name = name"
    by (auto simp: cachedName_def nameToStore_def split: option.splits)
  then show "market_symbols (cacheValidation ticker market name currency exchange provider w)
        = filter (\<lambda>r. \<not> (ms_ticker r = ticker \<and> ms_market r = market
                          \<and> ms_provider r = provider)) (market_symbols w)
          @ [writtenSymbol ticker market name currency exchange provider (clock w)]"
    by (simp add: cacheValidation_table replaceSymbol_def writtenSymbol_def)
next
  fix n and writes :: "(int \<times> string option \<times> string option \<times> string option \<times> string) list"
  assume "cachedName ticker market w = Some n" and "keyRowsUpTo ticker market w"
    and "\<forall>x \<in> set writes. 0 < fst x"
  then show "cachedName ticker market (laterWrites writes ticker market w) = Some n"
    by (simp add: cachedName_laterWrites)
next
  fix row
  assume mem: "row \<in> set (market_symbols w)"
    and latest: "ms_ticker row = ticker \<and> ms_market row = market
        \<and> (\<forall>x \<in> set (market_symbols w).
              ms_ticker x = ticker \<and> ms_market x = market \<and> x \<noteq> row
              \<longrightarrow> ms_last_verified_at x < ms_last_verified_at row)"
  let ?rows = "filter (\<lambda>r. ms_ticker r = ticker \<and> ms_market r = market) (market_symbols w)"
  from mem latest have "row \<in> set ?rows" by simp
  moreover from latest
  have "\<forall>x \<in> set ?rows. x \<noteq> row \<longrightarrow> ms_last_verified_at x < ms_last_verified_at row"
    by simp
  ultimately have "firstMax ms_last_verified_at ?rows = Some row"
    by (rule firstMax_only_greatest)
  then show "cachedName ticker market w = ms_name row"
    by (simp add: cachedName_def selectLatestSymbol_def)
next
  assume "\<forall>x \<in> set (market_symbols w). \<not> (ms_ticker x = ticker \<and> ms_market x = market)"
  then have "filter (\<lambda>r. ms_ticker r = ticker \<and> ms_market r = market) (market_symbols w) = []"
    by (simp add: filter_empty_conv)
  then show "cachedName ticker market w = None"
    by (simp add: cachedName_def selectLatestSymbol_def)
qed

theorem cacheValidation_keeps_cached_name_witness:
  "cachedName ''AAPL'' ''NASDAQ'' appleWorld = Some ''Apple Inc''
   \<and> market_symbols
        (cacheValidation ''AAPL'' ''NASDAQ'' (Some ''Apple Computer'') (Some ''USD'') None
           ''STOOQ'' appleWorld)
       = market_symbols appleWorld
         @ [writtenSymbol ''AAPL'' ''NASDAQ'' (Some ''Apple Inc'') (Some ''USD'') None ''STOOQ''
              1704153600]
   \<and> cachedName ''MSFT'' ''NASDAQ'' appleWorld = None
   \<and> market_symbols
        (cacheValidation ''MSFT'' ''NASDAQ'' (Some ''Microsoft'') (Some ''USD'') None
           ''STOOQ'' appleWorld)
       = market_symbols appleWorld
         @ [writtenSymbol ''MSFT'' ''NASDAQ'' (Some ''Microsoft'') (Some ''USD'') None ''STOOQ''
              1704153600]
   \<and> cachedName ''AAPL'' ''NASDAQ''
        (laterWrites
           [(5, None, Some ''USD'', None, ''STOOQ''),
            (60, Some ''Apple Computer'', Some ''USD'', Some ''NASDAQ'', ''TWELVE_DATA'')]
           ''AAPL'' ''NASDAQ'' appleWorld)
       = Some ''Apple Inc''"
proof -
  let ?apple = "\<lparr>ms_ticker = ''AAPL'', ms_market = ''NASDAQ'', ms_name = Some ''Apple Inc'',
      ms_currency = Some ''USD'', ms_exchange = Some ''NASDAQ'',
      ms_provider = ''TWELVE_DATA'', ms_last_verified_at = 1704000000\<rparr>"
  have table: "market_symbols appleWorld = [?apple]"
    by (simp add: appleWorld_def emptyWorld_def)
  have clock: "clock appleWorld = 1704153600"
    by (simp add: appleWorld_def emptyWorld_def)
  have upTo: "keyRowsUpTo ''AAPL'' ''NASDAQ'' appleWorld"
    by (simp add: keyRowsUpTo_def table clock)
  have later: "\<forall>x \<in> set [(5::int, None::string option, Some ''USD'', None::string option, ''STOOQ''),
      (60, Some ''Apple Computer'', Some ''USD'', Some ''NASDAQ'', ''TWELVE_DATA'')]. 0 < fst x"
    by simp
  note t1 = cacheValidation_keeps_cached_name
    [of "''AAPL''" "''NASDAQ''" appleWorld "Some ''Apple Computer''" "Some ''USD''" None
       "''STOOQ''"]
  note t2 = cacheValidation_keeps_cached_name
    [of "''MSFT''" "''NASDAQ''" appleWorld "Some ''Microsoft''" "Some ''USD''" None
       "''STOOQ''"]
  from t1 have named: "cachedName ''AAPL'' ''NASDAQ'' appleWorld = Some ''Apple Inc''"
    by (simp add: table)
  from t2 have unnamed: "cachedName ''MSFT'' ''NASDAQ'' appleWorld = None"
    by (simp add: table)
  from t1 named have a: "market_symbols
        (cacheValidation ''AAPL'' ''NASDAQ'' (Some ''Apple Computer'') (Some ''USD'') None
           ''STOOQ'' appleWorld)
       = market_symbols appleWorld
         @ [writtenSymbol ''AAPL'' ''NASDAQ'' (Some ''Apple Inc'') (Some ''USD'') None ''STOOQ''
              1704153600]"
    by (simp add: clock table)
  from t2 unnamed have b: "market_symbols
        (cacheValidation ''MSFT'' ''NASDAQ'' (Some ''Microsoft'') (Some ''USD'') None
           ''STOOQ'' appleWorld)
       = market_symbols appleWorld
         @ [writtenSymbol ''MSFT'' ''NASDAQ'' (Some ''Microsoft'') (Some ''USD'') None ''STOOQ''
              1704153600]"
    by (simp add: clock table)
  from t1 named upTo later have c: "cachedName ''AAPL'' ''NASDAQ''
        (laterWrites
           [(5, None, Some ''USD'', None, ''STOOQ''),
            (60, Some ''Apple Computer'', Some ''USD'', Some ''NASDAQ'', ''TWELVE_DATA'')]
           ''AAPL'' ''NASDAQ'' appleWorld)
       = Some ''Apple Inc''"
    by blast
  from named a unnamed b c show ?thesis by blast
qed

text \<open>
  C10 as stated fails when two rows of a key were verified within the same second. STOOQ
  validates ALE on XWAR and knows no name; within the same second TWELVE_DATA validates it
  and supplies the name Allegro. The cache now holds a row with a non-null name for the
  key, but the lookup selects the row of STOOQ, whose name is null. A minute later
  TWELVE_DATA supplies another name, and the write replaces the stored name with it.
\<close>

theorem cacheValidation_same_second_counterexample:
  "map (\<lambda>r. (ms_provider r, ms_name r, ms_last_verified_at r)) (market_symbols sameSecondWorld)
     = [(''STOOQ'', None, 1704153600), (''TWELVE_DATA'', Some ''Allegro'', 1704153600)]
   \<and> cachedName ''ALE'' ''XWAR'' sameSecondWorld = None
   \<and> map (\<lambda>r. (ms_provider r, ms_name r, ms_last_verified_at r))
         (market_symbols
            (cacheValidation ''ALE'' ''XWAR'' (Some ''Allegro.eu'') (Some ''PLN'') (Some ''XWAR'')
               ''TWELVE_DATA'' (advance 60 sameSecondWorld)))
       = [(''STOOQ'', None, 1704153600), (''TWELVE_DATA'', Some ''Allegro.eu'', 1704153660)]"
  by code_simp
section \<open>The quote cache\<close>

text \<open>
  C3. When the quote cache holds a row for (ticker, market) that has not expired
  (\<open>clock w < qc_expires_at r\<close>), \<^verbatim>\<open>getLatestQuote\<close> without \<^verbatim>\<open>forceRefresh\<close> resolves
  to an unexpired cached row of that key, the one that expires last (which is \<open>r\<close> when
  \<open>r\<close> is the only unexpired row of the key), marked \<^verbatim>\<open>cached: true\<close>; the state is
  unchanged, so no provider of the chain is called.
\<close>

theorem getLatestQuote_fresh_cache:
  assumes "r \<in> set (quote_cache w)" and "qc_ticker r = ticker" and "qc_market r = market"
    and "clock w < qc_expires_at r"
  shows "\<exists>c. c \<in> set (quote_cache w) \<and> qc_ticker c = ticker \<and> qc_market c = market
           \<and> clock w < qc_expires_at c \<and> qc_expires_at r \<le> qc_expires_at c
           \<and> getLatestQuote cfg ticker market providers False w = (Inr (freshQuote c), w)
           \<and> outbound (snd (getLatestQuote cfg ticker market providers False w)) = outbound w
           \<and> ((\<forall>x \<in> set (quote_cache w). qc_ticker x = ticker \<and> qc_market x = market
                  \<and> clock w < qc_expires_at x \<longrightarrow> x = r) \<longrightarrow> c = r)"
proof -
  let ?fresh = "filter (\<lambda>r. qc_ticker r = ticker \<and> qc_market r = market
                            \<and> qc_expires_at r > clock w) (quote_cache w)"
  from assms have r: "r \<in> set ?fresh" by simp
  then have "?fresh \<noteq> []" by (metis empty_iff empty_set)
  then have "lastMax qc_expires_at ?fresh \<noteq> None" by (simp add: lastMax_None)
  then obtain c where c: "getCachedQuote ticker market w = Some c"
    by (auto simp: getCachedQuote_def)
  then have mem: "c \<in> set ?fresh" unfolding getCachedQuote_def by (rule lastMax_mem)
  from c r have ge: "qc_expires_at r \<le> qc_expires_at c"
    unfolding getCachedQuote_def by (rule lastMax_greatest)
  from c have res: "getLatestQuote cfg ticker market providers False w = (Inr (freshQuote c), w)"
    by (simp add: getLatestQuote_def freshQuote_def)
  from mem ge res show ?thesis
    by (intro exI [of _ c]) auto
qed

theorem getLatestQuote_fresh_cache_witness:
  "getLatestQuote defaultConfig ''TSLA'' ''NASDAQ'' downChain False quoteWorld
     = (Inr (freshQuote tslaQuote), quoteWorld)
   \<and> outbound (snd (getLatestQuote defaultConfig ''TSLA'' ''NASDAQ'' downChain False quoteWorld))
       = []"
proof -
  have mem: "tslaQuote \<in> set (quote_cache quoteWorld)"
    and key: "qc_ticker tslaQuote = ''TSLA''" "qc_market tslaQuote = ''NASDAQ''"
    and fresh: "clock quoteWorld < qc_expires_at tslaQuote"
    and only: "\<forall>x \<in> set (quote_cache quoteWorld). qc_ticker x = ''TSLA''
        \<and> qc_market x = ''NASDAQ'' \<and> clock quoteWorld < qc_expires_at x \<longrightarrow> x = tslaQuote"
    and log: "outbound quoteWorld = []"
    by (simp_all add: quoteWorld_def emptyWorld_def tslaQuote_def)
  from getLatestQuote_fresh_cache [OF mem key fresh, of defaultConfig downChain] only log
  show ?thesis by auto
qed

section \<open>The fallbacks of getLatestQuote\<close>

lemma getCachedQuote_expired:
  assumes "\<forall>r \<in> set (quoteRows ticker market w). qc_expires_at r \<le> clock w"
  shows "getCachedQuote ticker market w = None"
proof -
  from assms
  have "filter (\<lambda>r. qc_ticker r = ticker \<and> qc_market r = market \<and> qc_expires_at r > clock w)
          (quote_cache w) = []"
    by (auto simp: quoteRows_def filter_empty_conv)
  then show ?thesis by (simp add: getCachedQuote_def)
qed

lemma getStaleQuote_greatest:
  assumes "quoteRows ticker market w \<noteq> []"
  shows "\<exists>stale \<in> set (quoteRows ticker market w).
           getStaleQuote ticker market w = Some stale
           \<and> (\<forall>x \<in> set (quoteRows ticker market w).
                 (qc_as_of x, qc_fetched_at x) \<le> (qc_as_of stale, qc_fetched_at stale))"
proof -
  let ?read = "sort_key qc_expires_at (quoteRows ticker market w)"
  have set: "set ?read = set (quoteRows ticker market w)" by simp
  from assms have "?read \<noteq> []" by (metis length_sort length_0_conv)
  then obtain stale where
    s: "firstMax (\<lambda>r. (qc_as_of r, qc_fetched_at r)) ?read = Some stale"
    using firstMax_None [of "\<lambda>r. (qc_as_of r, qc_fetched_at r)" ?read] by auto
  from s have "stale \<in> set ?read" by (rule firstMax_mem)
  moreover from s have "getStaleQuote ticker market w = Some stale"
    by (simp add: getStaleQuote_def quoteRows_def)
  moreover have "\<forall>x \<in> set ?read.
      (qc_as_of x, qc_fetched_at x) \<le> (qc_as_of stale, qc_fetched_at stale)"
    using firstMax_greatest [OF s] by blast
  ultimately show ?thesis unfolding set by blast
qed

lemma getLatestHistoryPrice_greatest:
  assumes "dailyRows ticker market w \<noteq> []"
  shows "\<exists>row \<in> set (dailyRows ticker market w).
           getLatestHistoryPrice ticker market w
             = Some \<lparr>lh_price = ph_price row, lh_currency = ph_currency row,
                     lh_as_of = ph_date row, lh_source = ph_source row\<rparr>
           \<and> (\<forall>x \<in> set (dailyRows ticker market w). ph_date x \<le> ph_date row)"
proof -
  from assms obtain row where r: "lastMax ph_date (dailyRows ticker market w) = Some row"
    using lastMax_None [of ph_date "dailyRows ticker market w"] by auto
  from r have "row \<in> set (dailyRows ticker market w)" by (rule lastMax_mem)
  moreover from r have "getLatestHistoryPrice ticker market w
      = Some \<lparr>lh_price = ph_price row, lh_currency = ph_currency row,
              lh_as_of = ph_date row, lh_source = ph_source row\<rparr>"
    by (simp add: getLatestHistoryPrice_def dailyRows_def)
  moreover have "\<forall>x \<in> set (dailyRows ticker market w). ph_date x \<le> ph_date row"
    using lastMax_greatest [OF r] by blast
  ultimately show ?thesis by blast
qed

text \<open>
  C4. Let the provider chain be consulted (\<^verbatim>\<open>forceRefresh\<close>, or every cached quote of
  the key has expired) and let every provider of the market's chain reject the quote
  request. Then every provider of the chain was called once, in order, and nothing was
  stored. If the cache holds a quote for the key, expired or not, \<^verbatim>\<open>getLatestQuote\<close>
  resolves to a cached quote that is greatest by as-of, then fetched-at, marked
  \<^verbatim>\<open>cached: true\<close>. If it holds none but there is a daily history row for the key,
  it resolves to the quote made from a daily history row of the greatest date, marked
  \<^verbatim>\<open>cached: true\<close>, with source \<^verbatim>\<open>HISTORY\<close> when the stored source is empty. Only
  when there is no daily history row either does it reject, with the error of the chain.
\<close>

theorem getLatestQuote_chain_exhausted:
  assumes consulted:
      "forceRefresh \<or> (\<forall>r \<in> set (quoteRows ticker market w). qc_expires_at r \<le> clock w)"
    and fail: "\<forall>p \<in> set (filterProvidersForMarket providers market).
                 isl (quoteTask ticker market p)"
  shows "snd (getLatestQuote cfg ticker market providers forceRefresh w)
           = logCalls GetQuote (filterProvidersForMarket providers market) w
       \<and> (quoteRows ticker market w \<noteq> [] \<longrightarrow>
            (\<exists>stale \<in> set (quoteRows ticker market w).
               (\<forall>x \<in> set (quoteRows ticker market w).
                  (qc_as_of x, qc_fetched_at x) \<le> (qc_as_of stale, qc_fetched_at stale))
               \<and> fst (getLatestQuote cfg ticker market providers forceRefresh w)
                   = Inr (staleQuote stale)))
       \<and> (quoteRows ticker market w = [] \<longrightarrow> dailyRows ticker market w \<noteq> [] \<longrightarrow>
            (\<exists>row \<in> set (dailyRows ticker market w).
               (\<forall>x \<in> set (dailyRows ticker market w). ph_date x \<le> ph_date row)
               \<and> fst (getLatestQuote cfg ticker market providers forceRefresh w)
                   = Inr (historyQuote row)))
       \<and> (quoteRows ticker market w = [] \<longrightarrow> dailyRows ticker market w = [] \<longrightarrow>
            fst (getLatestQuote cfg ticker market providers forceRefresh w)
              = Inl (exhausted (lastRecorded (filterProvidersForMarket providers market)
                                  (quoteTask ticker market))))"
proof -
  let ?chain = "filterProvidersForMarket providers market"
  let ?w1 = "logCalls GetQuote ?chain w"
  let ?error = "exhausted (lastRecorded ?chain (quoteTask ticker market))"
  let ?run = "getLatestQuote cfg ticker market providers forceRefresh w"
  have fetch: "fetchWithProviders ?chain
      (\<lambda>p. p_getQuote p \<lparr>sp_ticker = ticker, sp_market = Some (resolveExchange market)\<rparr>)
      = (Inl ?error, ?chain)"
    using fail fetchLoop_all_fail [of ?chain "quoteTask ticker market" None]
    unfolding fetchWithProviders_def quoteTask_def by (simp split: option.splits)
  have miss: "(if forceRefresh then None else getCachedQuote ticker market w) = None"
    using consulted by (auto simp: getCachedQuote_expired)
  have w1: "getStaleQuote ticker market ?w1 = getStaleQuote ticker market w"
    "getLatestHistoryPrice ticker market ?w1 = getLatestHistoryPrice ticker market w"
    by (simp_all add: getStaleQuote_logCalls getLatestHistoryPrice_logCalls)
  have step: "?run =
      (case getStaleQuote ticker market w of
         Some stale \<Rightarrow> (Inr (staleQuote stale), ?w1)
       | None \<Rightarrow>
           (case getLatestHistoryPrice ticker market w of
              Some history \<Rightarrow>
                (Inr \<lparr>lq_price = lh_price history, lq_currency = lh_currency history,
                      lq_as_of = lh_as_of history,
                      lq_source = orElse (Some (lh_source history)) ''HISTORY'',
                      lq_cached = True, lq_fetched_at = None, lq_expires_at = None\<rparr>, ?w1)
            | None \<Rightarrow> (Inl ?error, ?w1)))"
    unfolding getLatestQuote_def miss
    by (simp add: fetch Let_def quoteFallback_def w1 staleQuote_def split: option.splits)
  have none: "getStaleQuote ticker market w = None" if "quoteRows ticker market w = []"
    using that by (simp add: getStaleQuote_def quoteRows_def)
  have noHistory: "getLatestHistoryPrice ticker market w = None"
    if "dailyRows ticker market w = []"
    using that by (simp add: getLatestHistoryPrice_def dailyRows_def)
  show ?thesis
  proof (intro conjI impI)
    show "snd ?run = ?w1"
      unfolding step by (simp split: option.splits)
  next
    assume "quoteRows ticker market w \<noteq> []"
    from getStaleQuote_greatest [OF this] obtain stale where
      "stale \<in> set (quoteRows ticker market w)"
      "getStaleQuote ticker market w = Some stale"
      "\<forall>x \<in> set (quoteRows ticker market w).
          (qc_as_of x, qc_fetched_at x) \<le> (qc_as_of stale, qc_fetched_at stale)"
      by blast
    then show "\<exists>stale \<in> set (quoteRows ticker market w).
        (\<forall>x \<in> set (quoteRows ticker market w).
           (qc_as_of x, qc_fetched_at x) \<le> (qc_as_of stale, qc_fetched_at stale))
        \<and> fst ?run = Inr (staleQuote stale)"
      by (intro bexI [of _ stale]) (simp_all add: step)
  next
    assume e: "quoteRows ticker market w = []" and d: "dailyRows ticker market w \<noteq> []"
    from getLatestHistoryPrice_greatest [OF d] obtain row where
      "row \<in> set (dailyRows ticker market w)"
      "getLatestHistoryPrice ticker market w
         = Some \<lparr>lh_price = ph_price row, lh_currency = ph_currency row,
                 lh_as_of = ph_date row, lh_source = ph_source row\<rparr>"
      "\<forall>x \<in> set (dailyRows ticker market w). ph_date x \<le> ph_date row"
      by blast
    then show "\<exists>row \<in> set (dailyRows ticker market w).
        (\<forall>x \<in> set (dailyRows ticker market w). ph_date x \<le> ph_date row)
        \<and> fst ?run = Inr (historyQuote row)"
      by (intro bexI [of _ row]) (simp_all add: step none [OF e] historyQuote_def orElse_def)
  next
    assume e: "quoteRows ticker market w = []" and d: "dailyRows ticker market w = []"
    then show "fst ?run = Inl ?error"
      by (simp add: step none noHistory)
  qed
qed

theorem getLatestQuote_chain_exhausted_witness:
  "getLatestQuote defaultConfig ''TSLA'' ''NASDAQ'' downChain False staleWorld
     = (Inr (staleQuote twelveQuote), logCalls GetQuote downChain staleWorld)
   \<and> quoteRows ''TSLA'' ''NASDAQ'' staleWorld = [stooqQuote, twelveQuote, tslaQuote]
   \<and> outbound (logCalls GetQuote downChain staleWorld)
       = [(''TWELVE_DATA'', GetQuote), (''STOOQ'', GetQuote)]
   \<and> getLatestQuote defaultConfig ''TSLA'' ''NASDAQ'' downChain True historyWorld
       = (Inr (historyQuote tslaHistory), logCalls GetQuote downChain historyWorld)
   \<and> lq_source (historyQuote tslaHistory) = ''HISTORY''
   \<and> getLatestQuote defaultConfig ''TSLA'' ''NASDAQ'' downChain False emptyWorld
       = (Inl (ProviderError ''Quote fetch failed''), logCalls GetQuote downChain emptyWorld)"
proof -
  have chain: "filterProvidersForMarket downChain ''NASDAQ'' = downChain"
    by (simp add: filterProvidersForMarket_def downChain_def downProvider_def toUpperCase_def
        upperChar_def)
  have fail: "\<forall>p \<in> set (filterProvidersForMarket downChain ''NASDAQ'').
      isl (quoteTask ''TSLA'' ''NASDAQ'' p)"
    unfolding chain by (simp add: downChain_def downProvider_def quoteTask_def)
  have err: "exhausted (lastRecorded downChain (quoteTask ''TSLA'' ''NASDAQ''))
      = ProviderError ''Quote fetch failed''"
    by (simp add: exhausted_def lastRecorded_def downChain_def downProvider_def quoteTask_def)
  have log: "outbound (logCalls GetQuote downChain staleWorld)
      = [(''TWELVE_DATA'', GetQuote), (''STOOQ'', GetQuote)]"
    by (simp add: logCalls_def downChain_def downProvider_def staleWorld_def emptyWorld_def)
  have rows: "quoteRows ''TSLA'' ''NASDAQ'' staleWorld = [stooqQuote, twelveQuote, tslaQuote]"
    by (simp add: quoteRows_def staleWorld_def emptyWorld_def stooqQuote_def twelveQuote_def
        tslaQuote_def)
  have expired: "\<forall>r \<in> set (quoteRows ''TSLA'' ''NASDAQ'' staleWorld).
      qc_expires_at r \<le> clock staleWorld"
    unfolding rows
    by (simp add: staleWorld_def emptyWorld_def stooqQuote_def twelveQuote_def tslaQuote_def)
  have later: "\<not> (qc_as_of twelveQuote, qc_fetched_at twelveQuote)
                   \<le> (qc_as_of stooqQuote, qc_fetched_at stooqQuote)"
    "\<not> (qc_as_of twelveQuote, qc_fetched_at twelveQuote)
         \<le> (qc_as_of tslaQuote, qc_fetched_at tslaQuote)"
    by code_simp+
  have noQuote: "quoteRows ''TSLA'' ''NASDAQ'' historyWorld = []"
    "quoteRows ''TSLA'' ''NASDAQ'' emptyWorld = []"
    by (simp_all add: quoteRows_def historyWorld_def emptyWorld_def)
  have daily: "dailyRows ''TSLA'' ''NASDAQ'' historyWorld = [tslaHistory, olderHistory]"
    by (simp add: dailyRows_def historyWorld_def emptyWorld_def tslaHistory_def
        olderHistory_def)
  have older: "\<not> ph_date tslaHistory \<le> ph_date olderHistory"
    by code_simp
  have noDaily: "dailyRows ''TSLA'' ''NASDAQ'' emptyWorld = []"
    by (simp add: dailyRows_def emptyWorld_def)
  have src: "lq_source (historyQuote tslaHistory) = ''HISTORY''"
    by (simp add: historyQuote_def tslaHistory_def)
  note s = getLatestQuote_chain_exhausted
    [of False "''TSLA''" "''NASDAQ''" staleWorld downChain defaultConfig]
  note h = getLatestQuote_chain_exhausted
    [of True "''TSLA''" "''NASDAQ''" historyWorld downChain defaultConfig]
  note e = getLatestQuote_chain_exhausted
    [of False "''TSLA''" "''NASDAQ''" emptyWorld downChain defaultConfig]
  from s expired fail
  have s1: "snd (getLatestQuote defaultConfig ''TSLA'' ''NASDAQ'' downChain False staleWorld)
      = logCalls GetQuote downChain staleWorld"
    by (simp add: chain)
  from s expired fail rows obtain stale where
    mem: "stale \<in> set [stooqQuote, twelveQuote, tslaQuote]"
    and greatest: "\<forall>x \<in> set [stooqQuote, twelveQuote, tslaQuote].
        (qc_as_of x, qc_fetched_at x) \<le> (qc_as_of stale, qc_fetched_at stale)"
    and res: "fst (getLatestQuote defaultConfig ''TSLA'' ''NASDAQ'' downChain False staleWorld)
        = Inr (staleQuote stale)"
    by auto
  from mem greatest later have "stale = twelveQuote" by auto
  with res s1
  have 1: "getLatestQuote defaultConfig ''TSLA'' ''NASDAQ'' downChain False staleWorld
      = (Inr (staleQuote twelveQuote), logCalls GetQuote downChain staleWorld)"
    by (simp add: prod_eq_iff)
  from h fail
  have h1: "snd (getLatestQuote defaultConfig ''TSLA'' ''NASDAQ'' downChain True historyWorld)
      = logCalls GetQuote downChain historyWorld"
    by (simp add: chain)
  from h fail noQuote daily obtain row where
    hmem: "row \<in> set [tslaHistory, olderHistory]"
    and hgreatest: "\<forall>x \<in> set [tslaHistory, olderHistory]. ph_date x \<le> ph_date row"
    and hres: "fst (getLatestQuote defaultConfig ''TSLA'' ''NASDAQ'' downChain True historyWorld)
        = Inr (historyQuote row)"
    by auto
  from hmem hgreatest older have "row = tslaHistory" by auto
  with hres h1
  have 2: "getLatestQuote defaultConfig ''TSLA'' ''NASDAQ'' downChain True historyWorld
      = (Inr (historyQuote tslaHistory), logCalls GetQuote downChain historyWorld)"
    by (simp add: prod_eq_iff)
  from e fail noQuote noDaily err
  have 3: "getLatestQuote defaultConfig ''TSLA'' ''NASDAQ'' downChain False emptyWorld
      = (Inl (ProviderError ''Quote fetch failed''), logCalls GetQuote downChain emptyWorld)"
    by (simp add: chain prod_eq_iff)
  from 1 rows log 2 src 3 show ?thesis by blast
qed
section \<open>The history cache: coverage of the requested range\<close>

text \<open>
  C2 (as amended). The cached rows inside the closed interval \<open>[from, to]\<close> are a hit
  exactly when the earliest of them is dated \<open>\<le> from\<close> and the latest \<open>\<ge> to\<close>, that is
  when the cache holds a row dated \<open>from\<close> and a row dated \<open>to\<close> for the key and
  interval; \<^verbatim>\<open>getHistory\<close> without \<^verbatim>\<open>forceRefresh\<close> then returns these rows with source
  \<^verbatim>\<open>CACHE\<close> and calls no provider. Anything else, a partial overlap included, is a miss:
  the chain of the market is asked for the whole range \<open>[from, to]\<close> (the first provider
  is called whenever the chain is not empty). A rejection of the chain is passed on and
  the store stays as it is. On success the fetched points are upserted under the name of
  the provider that answered: the rows of that provider with a fetched date are replaced,
  every other stored row is kept, and the fetched points (of several with one date the
  last) are added. The rows returned are those re-read from the store if the store then
  covers the range, and the provider's points otherwise; the rows re-read are the kept
  rows of the key inside the range together with the added points inside the range.
\<close>

theorem getHistory_range_coverage:
  "(getCachedHistory ticker market interval from to w \<noteq> None \<longleftrightarrow>
      from \<in> set (cachedDates ticker market interval w)
      \<and> to \<in> set (cachedDates ticker market interval w) \<and> from \<le> to)
   \<and> (\<forall>rows. getCachedHistory ticker market interval from to w = Some rows \<longrightarrow>
        rows = getHistoryRows ticker market interval from to w \<and> rows \<noteq> []
        \<and> hp_date (hd rows) \<le> from \<and> to \<le> hp_date (last rows)
        \<and> (\<forall>r \<in> set rows. hp_date (hd rows) \<le> hp_date r \<and> hp_date r \<le> hp_date (last rows))
        \<and> getHistory ticker market from to interval providers False w
            = (Inr (rows, ''CACHE''), w))
   \<and> (forceRefresh \<or> getCachedHistory ticker market interval from to w = None \<longrightarrow>
        (\<forall>outcome invoked.
           fetchWithProviders (filterProvidersForMarket providers market)
             (historyTask ticker market from to interval) = (outcome, invoked) \<longrightarrow>
           outbound (snd (getHistory ticker market from to interval providers forceRefresh w))
             = outbound w @ map (\<lambda>p. (p_name p, GetHistory)) invoked
           \<and> (filterProvidersForMarket providers market \<noteq> [] \<longrightarrow> invoked \<noteq> [])
           \<and> (\<forall>e. outcome = Inl e \<longrightarrow>
                fst (getHistory ticker market from to interval providers forceRefresh w) = Inl e
                \<and> price_history
                      (snd (getHistory ticker market from to interval providers forceRefresh w))
                    = price_history w)
           \<and> (\<forall>provider result. outcome = Inr (provider, result) \<longrightarrow>
                price_history
                    (snd (getHistory ticker market from to interval providers forceRefresh w))
                  = filter (\<lambda>r. \<not> replacedBy ticker market interval (p_name provider) result r)
                      (price_history w)
                    @ map (storedPoint ticker market interval (p_name provider) (clock w))
                        (latestPerDate result)
                \<and> fst (getHistory ticker market from to interval providers forceRefresh w)
                    = Inr (if from \<in> set (cachedDates ticker market interval
                                    (snd (getHistory ticker market from to interval providers
                                            forceRefresh w)))
                              \<and> to \<in> set (cachedDates ticker market interval
                                    (snd (getHistory ticker market from to interval providers
                                            forceRefresh w)))
                              \<and> from \<le> to
                           then getHistoryRows ticker market interval from to
                                  (snd (getHistory ticker market from to interval providers
                                          forceRefresh w))
                           else result,
                           p_name provider)
                \<and> set (getHistoryRows ticker market interval from to
                          (snd (getHistory ticker market from to interval providers
                                  forceRefresh w)))
                    = historyPoint `
                        {r \<in> set (price_history w).
                           ph_ticker r = ticker \<and> ph_market r = market
                           \<and> ph_interval r = interval \<and> from \<le> ph_date r \<and> ph_date r \<le> to
                           \<and> \<not> replacedBy ticker market interval (p_name provider) result r}
                      \<union> {point \<in> set (latestPerDate result).
                           from \<le> hp_date point \<and> hp_date point \<le> to})))"
proof (intro conjI allI impI ballI)
  show "getCachedHistory ticker market interval from to w \<noteq> None \<longleftrightarrow>
      from \<in> set (cachedDates ticker market interval w)
      \<and> to \<in> set (cachedDates ticker market interval w) \<and> from \<le> to"
    by (rule getCachedHistory_covered)
next
  fix rows
  assume hit: "getCachedHistory ticker market interval from to w = Some rows"
  then have h: "rows = getHistoryRows ticker market interval from to w \<and> rows \<noteq> []
      \<and> hp_date (hd rows) \<le> from \<and> to \<le> hp_date (last rows)"
    by (rule getCachedHistory_Some [THEN iffD1])
  then show rows: "rows = getHistoryRows ticker market interval from to w"
    and "rows \<noteq> []" and "hp_date (hd rows) \<le> from" and "to \<le> hp_date (last rows)"
    by blast+
  from hit show "getHistory ticker market from to interval providers False w
      = (Inr (rows, ''CACHE''), w)"
    by (simp add: getHistory_def)
  fix r
  assume "r \<in> set rows"
  with rows sorted_getHistoryRows [of ticker market interval "from" to w]
  show "hp_date (hd rows) \<le> hp_date r" and "hp_date r \<le> hp_date (last rows)"
    by (auto intro: sorted_key_hd_least sorted_key_last_greatest)
next
  fix outcome invoked
  let ?run = "getHistory ticker market from to interval providers forceRefresh w"
  assume miss: "forceRefresh \<or> getCachedHistory ticker market interval from to w = None"
    and fetch: "fetchWithProviders (filterProvidersForMarket providers market)
      (historyTask ticker market from to interval) = (outcome, invoked)"
  from miss have run: "?run = fetchHistory ticker market from to interval providers w"
    by (auto simp: getHistory_def)
  note out = fetchHistory_outcome [OF fetch, of w]
  show "outbound (snd ?run) = outbound w @ map (\<lambda>p. (p_name p, GetHistory)) invoked"
    unfolding run out
    by (simp add: cacheHistoryRows_others logCalls_def split: sum.splits prod.splits)
  {
    assume "filterProvidersForMarket providers market \<noteq> []"
    then obtain p ps where "filterProvidersForMarket providers market = p # ps"
      by (cases "filterProvidersForMarket providers market") auto
    with fetch have "fetchLoop (p # ps) (historyTask ticker market from to interval) None
        = (outcome, invoked)"
      by (simp only: fetchWithProviders_def)
    then show "invoked \<noteq> []" by (rule fetchLoop_invokes_first)
  }
  {
    fix e
    assume "outcome = Inl e"
    then show "fst ?run = Inl e" and "price_history (snd ?run) = price_history w"
      unfolding run out by (simp_all add: logCalls_tables)
  }
  {
    fix provider result
    assume ok: "outcome = Inr (provider, result)"
    let ?w2 = "cacheHistoryRows ticker market interval result (p_name provider)
                 (logCalls GetHistory invoked w)"
    from ok have w2: "snd ?run = ?w2"
      unfolding run out by simp
    show stored: "price_history (snd ?run)
        = filter (\<lambda>r. \<not> replacedBy ticker market interval (p_name provider) result r)
            (price_history w)
          @ map (storedPoint ticker market interval (p_name provider) (clock w))
              (latestPerDate result)"
      unfolding w2 by (simp add: cacheHistoryRows_table logCalls_tables)
    from ok show "fst ?run
        = Inr (if from \<in> set (cachedDates ticker market interval (snd ?run))
                  \<and> to \<in> set (cachedDates ticker market interval (snd ?run))
                  \<and> from \<le> to
               then getHistoryRows ticker market interval from to (snd ?run)
               else result,
               p_name provider)"
      unfolding w2 unfolding run out
      by (simp only: getCachedHistory_if_covered sum.case prod.case fst_conv)
    have point: "historyPoint (storedPoint ticker market interval (p_name provider) (clock w) p)
        = p" for p :: "'a HistoryPoint"
      by (simp add: historyPoint_def storedPoint_def)
    let ?inside = "\<lambda>r. ph_ticker r = ticker \<and> ph_market r = market \<and> ph_interval r = interval
                          \<and> from \<le> ph_date r \<and> ph_date r \<le> to"
    let ?added = "{point \<in> set (latestPerDate result).
                    from \<le> hp_date point \<and> hp_date point \<le> to}"
    let ?store = "storedPoint ticker market interval (p_name provider) (clock w)"
    have inside: "?inside (?store point) \<longleftrightarrow> from \<le> hp_date point \<and> hp_date point \<le> to"
      for point :: "'a HistoryPoint"
      by (simp add: storedPoint_def)
    have "{r \<in> ?store ` set (latestPerDate result). ?inside r}
        = ?store ` {point \<in> set (latestPerDate result). ?inside (?store point)}"
      by blast
    then have addedRows: "{r \<in> ?store ` set (latestPerDate result). ?inside r} = ?store ` ?added"
      by (simp only: inside)
    have keptRows: "{r \<in> set (filter (\<lambda>r. \<not> replacedBy ticker market interval (p_name provider)
                                        result r) (price_history w)). ?inside r}
        = {r \<in> set (price_history w).
             ?inside r \<and> \<not> replacedBy ticker market interval (p_name provider) result r}"
      by auto
    have "{r \<in> set (price_history (snd ?run)). ?inside r}
        = {r \<in> set (filter (\<lambda>r. \<not> replacedBy ticker market interval (p_name provider)
                                      result r) (price_history w)). ?inside r}
          \<union> {r \<in> ?store ` set (latestPerDate result). ?inside r}"
      unfolding stored set_append set_map by blast
    then have parts: "{r \<in> set (price_history (snd ?run)). ?inside r}
        = {r \<in> set (price_history w).
             ?inside r \<and> \<not> replacedBy ticker market interval (p_name provider) result r}
          \<union> ?store ` ?added"
      by (simp only: keptRows addedRows)
    have reread: "historyPoint
          ` (storedPoint ticker market interval (p_name provider) (clock w) ` ?added)
        = ?added"
      by (simp add: image_image point)
    show "set (getHistoryRows ticker market interval from to (snd ?run))
        = historyPoint `
            {r \<in> set (price_history w).
               ph_ticker r = ticker \<and> ph_market r = market
               \<and> ph_interval r = interval \<and> from \<le> ph_date r \<and> ph_date r \<le> to
               \<and> \<not> replacedBy ticker market interval (p_name provider) result r}
          \<union> {point \<in> set (latestPerDate result).
               from \<le> hp_date point \<and> hp_date point \<le> to}"
      unfolding set_getHistoryRows parts image_Un reread
      by (rule arg_cong2 [where f = "(\<union>)"]) (auto intro: arg_cong [where f = "(`) historyPoint"])
  }
qed

theorem getHistory_range_coverage_witness:
  "getCachedHistory ''TSLA'' ''NASDAQ'' ''1d'' ''2024-01-05'' ''2024-01-20'' partialWorld = None
   \<and> outbound (snd (getHistory ''TSLA'' ''NASDAQ'' ''2024-01-05'' ''2024-01-20'' ''1d''
                      [sparseProvider] False partialWorld))
       = [(''TWELVE_DATA'', GetHistory)]
   \<and> price_history (snd (getHistory ''TSLA'' ''NASDAQ'' ''2024-01-05'' ''2024-01-20'' ''1d''
                           [sparseProvider] False partialWorld))
       = [stooqRow ''2024-01-01'' 80, stooqRow ''2024-01-05'' 85, stooqRow ''2024-01-10'' 88,
          (stooqRow ''2024-01-12'' 95)\<lparr>ph_source := ''TWELVE_DATA'', ph_fetched_at := 1704153600\<rparr>,
          (stooqRow ''2024-01-20'' 99)\<lparr>ph_source := ''TWELVE_DATA'', ph_fetched_at := 1704153600\<rparr>]
   \<and> set (getHistoryRows ''TSLA'' ''NASDAQ'' ''1d'' ''2024-01-05'' ''2024-01-20''
            (snd (getHistory ''TSLA'' ''NASDAQ'' ''2024-01-05'' ''2024-01-20'' ''1d''
                    [sparseProvider] False partialWorld)))
       = {\<lparr>hp_date = ''2024-01-05'', hp_price = 85, hp_currency = Some ''USD''\<rparr>,
          \<lparr>hp_date = ''2024-01-10'', hp_price = 88, hp_currency = Some ''USD''\<rparr>,
          \<lparr>hp_date = ''2024-01-12'', hp_price = 95, hp_currency = Some ''USD''\<rparr>,
          \<lparr>hp_date = ''2024-01-20'', hp_price = 99, hp_currency = Some ''USD''\<rparr>}
   \<and> getHistory ''TSLA'' ''NASDAQ'' ''2024-01-01'' ''2024-01-10'' ''1d'' [sparseProvider] False
         partialWorld
       = (Inr ([\<lparr>hp_date = ''2024-01-01'', hp_price = 80, hp_currency = Some ''USD''\<rparr>,
                \<lparr>hp_date = ''2024-01-05'', hp_price = 85, hp_currency = Some ''USD''\<rparr>,
                \<lparr>hp_date = ''2024-01-10'', hp_price = 88, hp_currency = Some ''USD''\<rparr>],
               ''CACHE''), partialWorld)"
proof -
  let ?run = "getHistory ''TSLA'' ''NASDAQ'' ''2024-01-05'' ''2024-01-20'' ''1d''
                [sparseProvider] False partialWorld"
  let ?answer = "[\<lparr>hp_date = ''2024-01-12'', hp_price = 95, hp_currency = Some ''USD''\<rparr>,
                  \<lparr>hp_date = ''2024-01-20'', hp_price = (99::int), hp_currency = Some ''USD''\<rparr>]"
  note partial = getHistory_range_coverage
    [of "''TSLA''" "''NASDAQ''" "''1d''" "''2024-01-05''" "''2024-01-20''" partialWorld
        "[sparseProvider]" False]
  note whole = getHistory_range_coverage
    [of "''TSLA''" "''NASDAQ''" "''1d''" "''2024-01-01''" "''2024-01-10''" partialWorld
        "[sparseProvider]" False]
  have "''2024-01-20'' \<notin> set (cachedDates ''TSLA'' ''NASDAQ'' ''1d'' partialWorld)"
    by code_simp
  with partial
  have miss: "getCachedHistory ''TSLA'' ''NASDAQ'' ''1d'' ''2024-01-05'' ''2024-01-20''
      partialWorld = None"
    by blast
  have chain: "filterProvidersForMarket [sparseProvider] ''NASDAQ'' = [sparseProvider]"
    by (simp add: filterProvidersForMarket_def sparseProvider_def toUpperCase_def
        upperChar_def)
  have fetch: "fetchWithProviders (filterProvidersForMarket [sparseProvider] ''NASDAQ'')
      (historyTask ''TSLA'' ''NASDAQ'' ''2024-01-05'' ''2024-01-20'' ''1d'')
      = (Inr (sparseProvider, ?answer), [sparseProvider])"
    unfolding chain
    by (simp add: fetchWithProviders_def historyTask_def sparseProvider_def)
  have log: "outbound partialWorld = []" "p_name sparseProvider = ''TWELVE_DATA''"
    by (simp_all add: partialWorld_def emptyWorld_def sparseProvider_def)
  from partial miss fetch
  have "outbound (snd ?run)
       = outbound partialWorld @ map (\<lambda>p. (p_name p, GetHistory)) [sparseProvider]"
    by blast
  then have called: "outbound (snd ?run) = [(''TWELVE_DATA'', GetHistory)]"
    by (simp add: log)
  from partial miss fetch
  have "price_history (snd ?run)
      = filter (\<lambda>r. \<not> replacedBy ''TSLA'' ''NASDAQ'' ''1d'' (p_name sparseProvider) ?answer r)
          (price_history partialWorld)
        @ map (storedPoint ''TSLA'' ''NASDAQ'' ''1d'' (p_name sparseProvider)
                 (clock partialWorld))
            (latestPerDate ?answer)"
    by blast
  moreover have "filter (\<lambda>r. \<not> replacedBy ''TSLA'' ''NASDAQ'' ''1d'' (p_name sparseProvider)
                            ?answer r)
          (price_history partialWorld)
        @ map (storedPoint ''TSLA'' ''NASDAQ'' ''1d'' (p_name sparseProvider)
                 (clock partialWorld))
            (latestPerDate ?answer)
      = [stooqRow ''2024-01-01'' 80, stooqRow ''2024-01-05'' 85, stooqRow ''2024-01-10'' 88,
         (stooqRow ''2024-01-12'' 95)\<lparr>ph_source := ''TWELVE_DATA'', ph_fetched_at := 1704153600\<rparr>,
         (stooqRow ''2024-01-20'' 99)\<lparr>ph_source := ''TWELVE_DATA'', ph_fetched_at := 1704153600\<rparr>]"
    by code_simp
  ultimately have stored: "price_history (snd ?run)
      = [stooqRow ''2024-01-01'' 80, stooqRow ''2024-01-05'' 85, stooqRow ''2024-01-10'' 88,
         (stooqRow ''2024-01-12'' 95)\<lparr>ph_source := ''TWELVE_DATA'', ph_fetched_at := 1704153600\<rparr>,
         (stooqRow ''2024-01-20'' 99)\<lparr>ph_source := ''TWELVE_DATA'', ph_fetched_at := 1704153600\<rparr>]"
    by simp
  from partial miss fetch
  have "set (getHistoryRows ''TSLA'' ''NASDAQ'' ''1d'' ''2024-01-05'' ''2024-01-20'' (snd ?run))
      = historyPoint `
          {r \<in> set (price_history partialWorld).
             ph_ticker r = ''TSLA'' \<and> ph_market r = ''NASDAQ''
             \<and> ph_interval r = ''1d'' \<and> ''2024-01-05'' \<le> ph_date r
             \<and> ph_date r \<le> ''2024-01-20''
             \<and> \<not> replacedBy ''TSLA'' ''NASDAQ'' ''1d'' (p_name sparseProvider) ?answer r}
        \<union> {point \<in> set (latestPerDate ?answer).
             ''2024-01-05'' \<le> hp_date point \<and> hp_date point \<le> ''2024-01-20''}"
    by blast
  moreover have "historyPoint `
          {r \<in> set (price_history partialWorld).
             ph_ticker r = ''TSLA'' \<and> ph_market r = ''NASDAQ''
             \<and> ph_interval r = ''1d'' \<and> ''2024-01-05'' \<le> ph_date r
             \<and> ph_date r \<le> ''2024-01-20''
             \<and> \<not> replacedBy ''TSLA'' ''NASDAQ'' ''1d'' (p_name sparseProvider) ?answer r}
        \<union> {point \<in> set (latestPerDate ?answer).
             ''2024-01-05'' \<le> hp_date point \<and> hp_date point \<le> ''2024-01-20''}
      = {\<lparr>hp_date = ''2024-01-05'', hp_price = 85, hp_currency = Some ''USD''\<rparr>,
         \<lparr>hp_date = ''2024-01-10'', hp_price = 88, hp_currency = Some ''USD''\<rparr>,
         \<lparr>hp_date = ''2024-01-12'', hp_price = 95, hp_currency = Some ''USD''\<rparr>,
         \<lparr>hp_date = ''2024-01-20'', hp_price = 99, hp_currency = Some ''USD''\<rparr>}"
    by code_simp
  ultimately have merged:
    "set (getHistoryRows ''TSLA'' ''NASDAQ'' ''1d'' ''2024-01-05'' ''2024-01-20'' (snd ?run))
      = {\<lparr>hp_date = ''2024-01-05'', hp_price = 85, hp_currency = Some ''USD''\<rparr>,
         \<lparr>hp_date = ''2024-01-10'', hp_price = 88, hp_currency = Some ''USD''\<rparr>,
         \<lparr>hp_date = ''2024-01-12'', hp_price = 95, hp_currency = Some ''USD''\<rparr>,
         \<lparr>hp_date = ''2024-01-20'', hp_price = 99, hp_currency = Some ''USD''\<rparr>}"
    by simp
  have hit: "getCachedHistory ''TSLA'' ''NASDAQ'' ''1d'' ''2024-01-01'' ''2024-01-10''
      partialWorld
      = Some [\<lparr>hp_date = ''2024-01-01'', hp_price = 80, hp_currency = Some ''USD''\<rparr>,
              \<lparr>hp_date = ''2024-01-05'', hp_price = 85, hp_currency = Some ''USD''\<rparr>,
              \<lparr>hp_date = ''2024-01-10'', hp_price = 88, hp_currency = Some ''USD''\<rparr>]"
    by code_simp
  with whole
  have cached: "getHistory ''TSLA'' ''NASDAQ'' ''2024-01-01'' ''2024-01-10'' ''1d''
      [sparseProvider] False partialWorld
       = (Inr ([\<lparr>hp_date = ''2024-01-01'', hp_price = 80, hp_currency = Some ''USD''\<rparr>,
                \<lparr>hp_date = ''2024-01-05'', hp_price = 85, hp_currency = Some ''USD''\<rparr>,
                \<lparr>hp_date = ''2024-01-10'', hp_price = 88, hp_currency = Some ''USD''\<rparr>],
               ''CACHE''), partialWorld)"
    by blast
  from miss called stored merged cached show ?thesis by blast
qed

text \<open>
  C2 as stated fails in its last clause. The store holds rows for 2024-01-01, 2024-01-05
  and 2024-01-10; the request is for 2024-01-05 to 2024-01-20, a miss; the provider
  answers with rows for 2024-01-12 and 2024-01-20. After the upsert the store covers the
  range, and \<^verbatim>\<open>getHistory\<close> returns the two cached rows inside the range together
  with the two fetched rows.
\<close>

theorem getHistory_partial_merge_counterexample:
  "getCachedHistory ''TSLA'' ''NASDAQ'' ''1d'' ''2024-01-05'' ''2024-01-20'' partialWorld = None
   \<and> historyTask ''TSLA'' ''NASDAQ'' ''2024-01-05'' ''2024-01-20'' ''1d'' sparseProvider
       = Inr [\<lparr>hp_date = ''2024-01-12'', hp_price = 95, hp_currency = Some ''USD''\<rparr>,
              \<lparr>hp_date = ''2024-01-20'', hp_price = 99, hp_currency = Some ''USD''\<rparr>]
   \<and> fst (getHistory ''TSLA'' ''NASDAQ'' ''2024-01-05'' ''2024-01-20'' ''1d''
              [sparseProvider] False partialWorld)
       = Inr ([\<lparr>hp_date = ''2024-01-05'', hp_price = 85, hp_currency = Some ''USD''\<rparr>,
               \<lparr>hp_date = ''2024-01-10'', hp_price = 88, hp_currency = Some ''USD''\<rparr>,
               \<lparr>hp_date = ''2024-01-12'', hp_price = 95, hp_currency = Some ''USD''\<rparr>,
               \<lparr>hp_date = ''2024-01-20'', hp_price = 99, hp_currency = Some ''USD''\<rparr>],
              ''TWELVE_DATA'')"
  by code_simp

section \<open>The performance series: one point per day\<close>



text \<open>
  C6 as stated fails beyond the year 9999, where the ISO string starts with a sign and
  a year of six digits and its first ten characters end with the month. For the window
  from 31 January to 1 February of the year 10000, two days, the bounds are cut to
  January and February, and the series has 32 points, one for each day from 1 January
  to 1 February, 31 of them dated with the same string.
\<close>

theorem getPerformanceSeries_expanded_year_counterexample:
  "Date_parse isoRuntime ''+010000-01-31'' = Some 253404892800000
   \<and> Date_parse isoRuntime ''+010000-02-01'' = Some (253404892800000 + msPerDay)
   \<and> take 10 (toISOString isoRuntime 253404892800000) = ''+010000-01''
   \<and> map_sum id (\<lambda>res. (pr_from res, pr_to res, map pp_date (pr_series res)))
         (fst (getPerformanceSeries defaultConfig isoRuntime 1 (Some ''+010000-01-31'')
                 (Some ''+010000-02-01'') downChain ''USD'' False tslaPortfolio))
       = Inr (Some ''+010000-01'', Some ''+010000-02'',
              replicate 31 ''+010000-01'' @ [''+010000-02''])"
  by code_simp
section \<open>The performance series: the returned window\<close>

text \<open>
  C7 (as amended). For a portfolio with at least one holding, a result of
  \<^verbatim>\<open>getPerformanceSeries\<close> carries the resolved window. Its \<^verbatim>\<open>from\<close> is the UTC
  calendar date (the first ten characters of the ISO string) of the time value of the
  caller's \<^verbatim>\<open>from\<close>, or of the earliest buy date of the holdings when the caller gave
  none; its \<^verbatim>\<open>to\<close> is the UTC calendar date of the time value of the caller's
  \<^verbatim>\<open>to\<close>, or of today when the caller gave none. A bound that already is the calendar
  date of a time value is returned as it is; so is today. For a portfolio without
  holdings the result is the empty series with the caller's \<^verbatim>\<open>from\<close> and \<^verbatim>\<open>to\<close> as
  they came, neither defaulted nor normalized.
\<close>

theorem getPerformanceSeries_window:
  "(listHoldings portfolioId w = [] \<longrightarrow>
      getPerformanceSeries cfg rt portfolioId from to providers baseCurrency forceRefresh w
        = (Inr \<lparr>pr_series = [], pr_from = from, pr_to = to\<rparr>, w))
   \<and> (\<forall>first others res w'.
        listHoldings portfolioId w = first # others \<longrightarrow>
        getPerformanceSeries cfg rt portfolioId from to providers baseCurrency forceRefresh w
          = (Inr res, w') \<longrightarrow>
        (\<exists>tf tt.
           Date_parse rt (orElse from (earliestBuy first (first # others))) = Some tf
           \<and> Date_parse rt (orElse to (isoDate rt (clock w * 1000))) = Some tt
           \<and> pr_from res = Some (isoDate rt tf) \<and> pr_to res = Some (isoDate rt tt))
        \<and> (\<forall>t. dateOnly rt t \<longrightarrow>
               orElse from (earliestBuy first (first # others)) = isoDate rt t \<longrightarrow>
               pr_from res = Some (isoDate rt t))
        \<and> (\<forall>t. dateOnly rt t \<longrightarrow>
               orElse to (isoDate rt (clock w * 1000)) = isoDate rt t \<longrightarrow>
               pr_to res = Some (isoDate rt t))
        \<and> earliestBuy first (first # others) \<in> buy_date ` set (first # others)
        \<and> (\<forall>h \<in> set (first # others). earliestBuy first (first # others) \<le> buy_date h))"
proof (intro conjI allI impI ballI)
  assume "listHoldings portfolioId w = []"
  then show "getPerformanceSeries cfg rt portfolioId from to providers baseCurrency forceRefresh w
        = (Inr \<lparr>pr_series = [], pr_from = from, pr_to = to\<rparr>, w)"
    by (simp add: getPerformanceSeries_def)
next
  fix first others res w'
  assume hs: "listHoldings portfolioId w = first # others"
    and r: "getPerformanceSeries cfg rt portfolioId from to providers baseCurrency forceRefresh w
          = (Inr res, w')"
  from getPerformanceSeries_window_parsed [OF r hs]
  obtain tf tt where
    tf: "Date_parse rt (orElse from (earliestBuy first (first # others))) = Some tf"
    and tt: "Date_parse rt (orElse to (isoDate rt (clock w * 1000))) = Some tt"
    and bounds: "pr_from res = Some (isoDate rt tf)" "pr_to res = Some (isoDate rt tt)"
    by auto
  then show "\<exists>tf tt.
           Date_parse rt (orElse from (earliestBuy first (first # others))) = Some tf
           \<and> Date_parse rt (orElse to (isoDate rt (clock w * 1000))) = Some tt
           \<and> pr_from res = Some (isoDate rt tf) \<and> pr_to res = Some (isoDate rt tt)"
    by blast
  show "earliestBuy first (first # others) \<in> buy_date ` set (first # others)"
    by (rule earliestBuy_mem)
  {
    fix t
    assume c: "dateOnly rt t"
      and d: "orElse from (earliestBuy first (first # others)) = isoDate rt t"
    from c d tf have "tf = utcDay t * msPerDay" by (simp add: dateOnly_def)
    with c bounds(1) show "pr_from res = Some (isoDate rt t)" by (simp add: dateOnly_def)
  }
  {
    fix t
    assume c: "dateOnly rt t"
      and d: "orElse to (isoDate rt (clock w * 1000)) = isoDate rt t"
    from c d tt have "tt = utcDay t * msPerDay" by (simp add: dateOnly_def)
    with c bounds(2) show "pr_to res = Some (isoDate rt t)" by (simp add: dateOnly_def)
  }
  fix h
  assume "h \<in> set (first # others)"
  then show "earliestBuy first (first # others) \<le> buy_date h" by (rule earliestBuy_least)
qed

theorem getPerformanceSeries_window_witness:
  "fst (getPerformanceSeries defaultConfig isoRuntime 1 (Some ''2024-01-01T10:00:00Z'') None
          [mockProvider] ''USD'' False tslaPortfolio)
     = Inr testSeries
   \<and> Date_parse isoRuntime ''2024-01-01T10:00:00Z'' = Some 1704103200000
   \<and> pr_from testSeries = Some (isoDate isoRuntime 1704103200000)
   \<and> pr_from testSeries = Some ''2024-01-01''
   \<and> pr_to testSeries = Some (isoDate isoRuntime (clock tslaPortfolio * 1000))
   \<and> pr_to testSeries = Some ''2024-01-02''
   \<and> getPerformanceSeries defaultConfig isoRuntime 2 (Some ''2024-01-01T10:00:00Z'') None
         [mockProvider] ''USD'' False tslaPortfolio
       = (Inr \<lparr>pr_series = [], pr_from = Some ''2024-01-01T10:00:00Z'', pr_to = None\<rparr>,
          tslaPortfolio)"
proof -
  let ?run = "getPerformanceSeries defaultConfig isoRuntime 1 (Some ''2024-01-01T10:00:00Z'')
                None [mockProvider] ''USD'' False tslaPortfolio"
  note t = getPerformanceSeries_window
    [of 1 tslaPortfolio defaultConfig isoRuntime "Some ''2024-01-01T10:00:00Z''" None
        "[mockProvider]" "''USD''" False]
  note empty = getPerformanceSeries_window
    [of 2 tslaPortfolio defaultConfig isoRuntime "Some ''2024-01-01T10:00:00Z''" None
        "[mockProvider]" "''USD''" False]
  have hs: "listHoldings 1 tslaPortfolio = tslaHolding # []"
    by code_simp
  have outcome: "fst ?run = Inr testSeries"
    by code_simp
  then have run: "?run = (Inr testSeries, snd ?run)"
    by (simp add: prod_eq_iff)
  have given: "Date_parse isoRuntime ''2024-01-01T10:00:00Z'' = Some 1704103200000"
    by code_simp
  have start: "orElse (Some ''2024-01-01T10:00:00Z'') (earliestBuy tslaHolding (tslaHolding # []))
      = ''2024-01-01T10:00:00Z''"
    by (simp add: orElse_def)
  have today: "dateOnly isoRuntime (clock tslaPortfolio * 1000)"
    by code_simp
  have stop: "orElse None (isoDate isoRuntime (clock tslaPortfolio * 1000))
      = isoDate isoRuntime (clock tslaPortfolio * 1000)"
    by (simp add: orElse_def)
  from t hs run obtain tf where
    "Date_parse isoRuntime
       (orElse (Some ''2024-01-01T10:00:00Z'') (earliestBuy tslaHolding (tslaHolding # [])))
     = Some tf"
    and "pr_from testSeries = Some (isoDate isoRuntime tf)"
    by blast
  with start given
  have 1: "pr_from testSeries = Some (isoDate isoRuntime 1704103200000)"
    by simp
  from t hs run today stop
  have 2: "pr_to testSeries = Some (isoDate isoRuntime (clock tslaPortfolio * 1000))"
    by blast
  have 3: "pr_from testSeries = Some ''2024-01-01''" "pr_to testSeries = Some ''2024-01-02''"
    by (simp_all add: testSeries_def)
  have "listHoldings 2 tslaPortfolio = []"
    by code_simp
  with empty
  have 4: "getPerformanceSeries defaultConfig isoRuntime 2 (Some ''2024-01-01T10:00:00Z'') None
         [mockProvider] ''USD'' False tslaPortfolio
       = (Inr \<lparr>pr_series = [], pr_from = Some ''2024-01-01T10:00:00Z'', pr_to = None\<rparr>,
          tslaPortfolio)"
    by blast
  from outcome given 1 2 3 4 show ?thesis by blast
qed

text \<open>
  C7 as stated fails for a portfolio without holdings: with \<^verbatim>\<open>from\<close> and \<^verbatim>\<open>to\<close>
  omitted the result carries no \<^verbatim>\<open>to\<close>, although today normalizes to 2024-01-02.
\<close>

theorem getPerformanceSeries_empty_window_counterexample:
  "listHoldings 2 tslaPortfolio = []
   \<and> normalizeDate isoRuntime (orElse None (todayIso isoRuntime tslaPortfolio))
       = Inr ''2024-01-02''
   \<and> fst (getPerformanceSeries defaultConfig isoRuntime 2 None None [mockProvider] ''USD''
            False tslaPortfolio)
       = Inr \<lparr>pr_series = [], pr_from = None, pr_to = None\<rparr>"
  by code_simp

section \<open>The performance series: failing history\<close>

text \<open>
  C5 (as amended). Take a portfolio with at least one holding (the ids of the holdings
  are distinct, \<^verbatim>\<open>id\<close> being the primary key), let the window resolve (both bounds parse
  as dates) and let the rate of every holding currency resolve. Then
  \<^verbatim>\<open>getPerformanceSeries\<close> does not fail, whatever the providers and the caches do to
  the history requests. A holding whose history fetch fails entirely (the cache does not
  cover the window and every provider of the chain rejects) gets the price map with the
  single point \<open>buy_price * rate\<close> at \<open>max buy_date from\<close>, and on every date of the
  series it is priced at \<open>buy_price * rate\<close>: the value of a date is the sum, over the
  holdings bought by then, of price times quantity, and the price of such a holding is
  its buy price in base currency on every date, a flat line. The rate is 1 for a holding
  in the base currency and the resolved rate otherwise.
\<close>

theorem getPerformanceSeries_history_failure:
  assumes hs: "listHoldings portfolioId w = first # others"
    and ids: "distinct (map h_id (first # others))"
    and start: "Date_parse rt (orElse from (earliestBuy first (first # others))) = Some tf"
    and stop: "Date_parse rt (orElse to (isoDate rt (clock w * 1000))) = Some tt"
    and fx: "resolveRates cfg rt providers (toUpperCase baseCurrency)
               (distinctInOrder (map marketCurrency (first # others))) Map.empty w
             = (None, rateCache, w1)"
  shows "\<exists>res w' historyMap.
           getPerformanceSeries cfg rt portfolioId from to providers baseCurrency
             forceRefresh w = (Inr res, w')
           \<and> pr_from res = Some (isoDate rt tf) \<and> pr_to res = Some (isoDate rt tt)
           \<and> pr_series res
               = seriesLoop (createDateRange rt (isoDate rt tf) (isoDate rt tt))
                   (first # others) historyMap rateCache Map.empty
           \<and> (\<forall>h \<in> set (first # others).
                 historyFails providers forceRefresh (isoDate rt tf) (isoDate rt tt) h w \<longrightarrow>
                 historyMap (h_id h)
                   = Some [max (buy_date h) (isoDate rt tf)
                             \<mapsto> buy_price h * rateFor rateCache h])
           \<and> (\<forall>point \<in> set (pr_series res).
                 \<exists>price.
                   pp_value point = dayTotal price (pp_date point) (first # others)
                   \<and> (\<forall>h \<in> set (first # others).
                         historyFails providers forceRefresh (isoDate rt tf) (isoDate rt tt)
                           h w \<longrightarrow>
                         price h = buy_price h * rateFor rateCache h))
           \<and> (\<forall>h \<in> set (first # others).
                 if toUpperCase (marketCurrency h) = toUpperCase baseCurrency
                 then rateFor rateCache h = 1
                 else rateCache (marketCurrency h) = Some (rateFor rateCache h))"
proof -
  let ?base = "toUpperCase baseCurrency"
  let ?startDate = "isoDate rt tf"
  let ?endDate = "isoDate rt tt"
  let ?hs = "first # others"
  let ?fails = "\<lambda>h. historyFails providers forceRefresh ?startDate ?endDate h w"
  from start have s: "normalizeDate rt (orElse from (earliestBuy first ?hs)) = Inr ?startDate"
    by (simp add: normalizeDate_def isoDate_def)
  from stop have e: "normalizeDate rt (orElse to (todayIso rt w)) = Inr ?endDate"
    by (simp add: normalizeDate_def isoDate_def todayIso_def)
  from resolveRates_known [OF fx]
  have known: "\<forall>h \<in> set ?hs. rateKnown ?base rateCache (marketCurrency h)"
    by (simp add: set_distinctInOrder)
  from resolveRates_base [OF fx] have base: "rateCache ?base = None" by simp
  from resolveRates_history [OF fx] have store: "price_history w1 = price_history w" .
  from holdingsLoop_fails [OF known base ids, of cfg rt providers forceRefresh ?startDate
      ?endDate w1 Map.empty w1]
  obtain historyMap w2 where
    loop: "holdingsLoop cfg rt providers forceRefresh ?startDate ?endDate ?base w1 ?hs
       Map.empty rateCache w1 = (None, historyMap, rateCache, w2)"
    and failing: "\<forall>h \<in> set ?hs.
       historyFails providers forceRefresh ?startDate ?endDate h w1 \<longrightarrow>
       historyMap (h_id h)
         = Some [max (buy_date h) ?startDate \<mapsto> buy_price h * rateFor rateCache h]"
    by blast
  let ?res = "\<lparr>pr_series =
                 seriesLoop (createDateRange rt ?startDate ?endDate) ?hs historyMap rateCache
                   Map.empty,
               pr_from = Some ?startDate, pr_to = Some ?endDate\<rparr>"
  from hs s e fx loop
  have run: "getPerformanceSeries cfg rt portfolioId from to providers baseCurrency
      forceRefresh w = (Inr ?res, w2)"
    by (simp add: getPerformanceSeries_def Let_def)
  from failing have synthetic: "\<forall>h \<in> set ?hs. ?fails h \<longrightarrow>
      historyMap (h_id h)
        = Some [max (buy_date h) ?startDate \<mapsto> buy_price h * rateFor rateCache h]"
    by (simp only: historyFails_store [OF store])
  then have anchored: "\<forall>h \<in> set ?hs. ?fails h \<longrightarrow>
      (\<exists>anchor. historyMap (h_id h) = Some [anchor \<mapsto> buy_price h * rateFor rateCache h])"
    by blast
  have unknown: "\<forall>h \<in> set ?hs. ?fails h \<longrightarrow>
      Map.empty (h_id h) = None
      \<or> Map.empty (h_id h) = Some (buy_price h * rateFor rateCache h)"
    by simp
  note flat = seriesLoop_flat [OF ids anchored unknown,
      of "createDateRange rt ?startDate ?endDate"]
  have rates: "\<forall>h \<in> set ?hs.
      if toUpperCase (marketCurrency h) = ?base then rateFor rateCache h = 1
      else rateCache (marketCurrency h) = Some (rateFor rateCache h)"
  proof
    fix h
    assume "h \<in> set ?hs"
    with known have k: "rateKnown ?base rateCache (marketCurrency h)" by blast
    have u: "toUpperCase (marketCurrency h) = marketCurrency h"
      by (rule marketCurrency_upper)
    show "if toUpperCase (marketCurrency h) = ?base then rateFor rateCache h = 1
      else rateCache (marketCurrency h) = Some (rateFor rateCache h)"
    proof (cases "toUpperCase (marketCurrency h) = ?base")
      case True
      with u base have "rateCache (marketCurrency h) = None" by simp
      with True show ?thesis by (simp add: rateFor_def)
    next
      case False
      with k u obtain r where "rateCache (marketCurrency h) = Some r"
        by (auto simp: rateKnown_def)
      with False show ?thesis by (simp add: rateFor_def)
    qed
  qed
  from run synthetic flat rates show ?thesis
    by (intro exI [of _ ?res] exI [of _ w2] exI [of _ historyMap]) simp
qed

theorem getPerformanceSeries_history_failure_witness:
  "fst (getPerformanceSeries defaultConfig isoRuntime 1 None None [tslaOnlyProvider] ''USD''
          False mixedPortfolio)
     = Inr mixedSeries
   \<and> listHoldings 1 mixedPortfolio = [cdrHolding, tslaHolding]
   \<and> historyFails [tslaOnlyProvider] False ''2024-01-01'' ''2024-01-02'' cdrHolding
         mixedPortfolio
   \<and> rateFor [''PLN'' \<mapsto> 2] cdrHolding = 2
   \<and> (\<exists>price. 230 = dayTotal price ''2024-01-01'' [cdrHolding, tslaHolding]
         \<and> price cdrHolding = 50)
   \<and> (\<exists>price. 250 = dayTotal price ''2024-01-02'' [cdrHolding, tslaHolding]
         \<and> price cdrHolding = 50)
   \<and> fst (getPerformanceSeries defaultConfig isoRuntime 1 (Some ''2024-01-01'')
            (Some ''2024-01-03'') downChain ''USD'' False tslaPortfolio)
       = Inr flatSeries"
proof -
  let ?run = "getPerformanceSeries defaultConfig isoRuntime 1 None None [tslaOnlyProvider]
                ''USD'' False mixedPortfolio"
  have hs: "listHoldings 1 mixedPortfolio = cdrHolding # [tslaHolding]"
    by code_simp
  have ids: "distinct (map h_id (cdrHolding # [tslaHolding]))"
    by (simp add: cdrHolding_def tslaHolding_def)
  have start: "Date_parse isoRuntime (orElse None (earliestBuy cdrHolding (cdrHolding # [tslaHolding])))
      = Some 1704067200000"
    by code_simp
  have stop: "Date_parse isoRuntime (orElse None (isoDate isoRuntime (clock mixedPortfolio * 1000)))
      = Some 1704153600000"
    by code_simp
  have fx: "resolveRates defaultConfig isoRuntime [tslaOnlyProvider] (toUpperCase ''USD'')
      (distinctInOrder (map marketCurrency (cdrHolding # [tslaHolding]))) Map.empty
      mixedPortfolio
      = (None, [''PLN'' \<mapsto> 2], mixedPortfolio)"
  proof -
    have currencies: "distinctInOrder (map marketCurrency (cdrHolding # [tslaHolding]))
        = [''PLN'', ''USD'']"
      by code_simp
    have usd: "toUpperCase ''USD'' = ''USD''" "toUpperCase ''PLN'' = ''PLN''"
      by code_simp+
    have cached: "getCachedFxRate ''PLN'' ''USD'' mixedPortfolio = Some plnRate"
      by code_simp
    have rate: "fx_rate plnRate = 2" by (simp add: plnRate_def)
    show ?thesis
      unfolding currencies
      by (simp add: resolveRate_def usd getFxRate_def cached rate)
  qed
  have dates: "isoDate isoRuntime 1704067200000 = ''2024-01-01''"
    "isoDate isoRuntime 1704153600000 = ''2024-01-02''"
    by code_simp+
  have fails: "historyFails [tslaOnlyProvider] False ''2024-01-01'' ''2024-01-02'' cdrHolding
      mixedPortfolio"
    by code_simp
  have rate: "rateFor [''PLN'' \<mapsto> 2] cdrHolding = (2::int)"
    by code_simp
  have price: "buy_price cdrHolding = 25"
    by (simp add: cdrHolding_def)
  have outcome: "fst ?run = Inr mixedSeries"
    by code_simp
  from getPerformanceSeries_history_failure [OF hs ids start stop fx, of False]
  obtain res w' where
    run: "?run = (Inr res, w')"
    and flat: "\<forall>point \<in> set (pr_series res).
        \<exists>price.
          pp_value point = dayTotal price (pp_date point) (cdrHolding # [tslaHolding])
          \<and> (\<forall>h \<in> set (cdrHolding # [tslaHolding]).
                historyFails [tslaOnlyProvider] False (isoDate isoRuntime 1704067200000)
                  (isoDate isoRuntime 1704153600000) h mixedPortfolio \<longrightarrow>
                price h = buy_price h * rateFor [''PLN'' \<mapsto> 2] h)"
    by blast
  from run outcome have res: "res = mixedSeries" by simp
  have line: "\<forall>point \<in> set (pr_series mixedSeries).
      \<exists>price. pp_value point = dayTotal price (pp_date point) [cdrHolding, tslaHolding]
        \<and> price cdrHolding = 50"
  proof
    fix point
    assume "point \<in> set (pr_series mixedSeries)"
    with flat res obtain price where
      v: "pp_value point = dayTotal price (pp_date point) (cdrHolding # [tslaHolding])"
      and f: "\<forall>h \<in> set (cdrHolding # [tslaHolding]).
          historyFails [tslaOnlyProvider] False (isoDate isoRuntime 1704067200000)
            (isoDate isoRuntime 1704153600000) h mixedPortfolio \<longrightarrow>
          price h = buy_price h * rateFor [''PLN'' \<mapsto> 2] h"
      by blast
    from f fails have "price cdrHolding = buy_price cdrHolding * rateFor [''PLN'' \<mapsto> 2] cdrHolding"
      by (simp add: dates)
    then have "price cdrHolding = 50" by (simp only: rate price)
    with v show "\<exists>price. pp_value point = dayTotal price (pp_date point) [cdrHolding, tslaHolding]
        \<and> price cdrHolding = 50"
      by blast
  qed
  have single: "fst (getPerformanceSeries defaultConfig isoRuntime 1 (Some ''2024-01-01'')
      (Some ''2024-01-03'') downChain ''USD'' False tslaPortfolio) = Inr flatSeries"
    by code_simp
  have "\<lparr>pp_date = ''2024-01-01'', pp_value = 230\<rparr> \<in> set (pr_series mixedSeries)"
    by (simp add: mixedSeries_def)
  with line
  have "\<exists>price.
      pp_value \<lparr>pp_date = ''2024-01-01'', pp_value = 230\<rparr>
        = dayTotal price (pp_date \<lparr>pp_date = ''2024-01-01'', pp_value = (230::int)\<rparr>)
            [cdrHolding, tslaHolding]
      \<and> price cdrHolding = 50"
    by blast
  then have day1: "\<exists>price. 230 = dayTotal price ''2024-01-01'' [cdrHolding, tslaHolding]
      \<and> price cdrHolding = 50"
    by simp
  have "\<lparr>pp_date = ''2024-01-02'', pp_value = 250\<rparr> \<in> set (pr_series mixedSeries)"
    by (simp add: mixedSeries_def)
  with line
  have "\<exists>price.
      pp_value \<lparr>pp_date = ''2024-01-02'', pp_value = 250\<rparr>
        = dayTotal price (pp_date \<lparr>pp_date = ''2024-01-02'', pp_value = (250::int)\<rparr>)
            [cdrHolding, tslaHolding]
      \<and> price cdrHolding = 50"
    by blast
  then have day2: "\<exists>price. 250 = dayTotal price ''2024-01-02'' [cdrHolding, tslaHolding]
      \<and> price cdrHolding = 50"
    by simp
  from outcome hs fails rate day1 day2 single show ?thesis by simp
qed

text \<open>
  C5 as stated fails when a rate cannot be resolved: one Warsaw holding (priced in PLN),
  base currency USD, every provider down and no cached rate. The rejection of the rate
  lookup is the outcome of \<^verbatim>\<open>getPerformanceSeries\<close>.
\<close>

theorem getPerformanceSeries_fx_failure_counterexample:
  "listHoldings 1 warsawPortfolio = [warsawHolding]
   \<and> fst (getPerformanceSeries defaultConfig isoRuntime 1 (Some ''2024-01-01'')
            (Some ''2024-01-02'') downChain ''USD'' False warsawPortfolio)
       = Inl (ProviderError ''FX rate fetch failed'')"
  by code_simp

end
